(* ===== verification/FB_Prelude.thy ===== *)
theory FB_Prelude
  imports Complex_Main
begin

text \<open>
  Shared vocabulary of the development: the number types of the model, the ways the
  program can stop (\<open>sys.exit()\<close> and the exceptions it does not catch), sequencing of
  fallible steps, the library calls the program makes on numbers (\<open>int()\<close> conversion
  inside \<open>pygame.Rect\<close>, \<open>random.randint\<close>), and the list lemmas that the pipe
  queue needs. Nothing here is specific to one component.

  Python \<open>int\<close> is \<open>int\<close>. Python \<open>float\<close> is \<open>rat\<close>: every float of the program
  is a sum of products of integers and the literals \<open>0.18\<close>, \<open>0.45\<close>, so exact
  rational arithmetic describes the program up to IEEE-754 rounding, which is not modelled.
\<close>

section \<open>Collections of facts\<close>

named_theorems fb_defs "definitions of the model's operations, unfolded to compute"
named_theorems fb_frame "fields an operation leaves unchanged"

section \<open>Numbers\<close>

type_synonym pyfloat = rat

text \<open>
  \<open>pygame.Rect\<close> stores C ints and converts a float argument with a C cast, that is by
  truncation towards zero (\<open>Rect(1.9, -1.9, 3, 4)\<close> is \<open>(1, -1, 3, 4)\<close>).
\<close>

definition py_int :: "pyfloat \<Rightarrow> int" where
  "py_int q = (if q < 0 then - \<lfloor>- q\<rfloor> else \<lfloor>q\<rfloor>)"

section \<open>Ways to stop\<close>

text \<open>
  The program ends with \<open>sys.exit()\<close> or with an exception that nothing catches:
  \<open>ValueError\<close> from \<open>random.randint\<close> and from the scaling functions, and at
  start-up \<open>pygame.error\<close> and \<open>FileNotFoundError\<close> from the display and the image
  files.
\<close>

datatype halt = SysExit | ValueError | PygameError | FileNotFoundError

type_synonym 'a result = "halt + 'a"

definition and_then :: "'a result \<Rightarrow> ('a \<Rightarrow> 'b result) \<Rightarrow> 'b result" where
  "and_then r f = (case r of Inl e \<Rightarrow> Inl e | Inr x \<Rightarrow> f x)"

text \<open>
  A \<open>for\<close> loop whose body may stop the program: the body runs on each element in order,
  and the first \<open>Inl\<close> ends the loop and everything after it.
\<close>

fun for_each :: "('e \<Rightarrow> 's \<Rightarrow> 's result) \<Rightarrow> 'e list \<Rightarrow> 's \<Rightarrow> 's result" where
  "for_each body [] s = Inr s"
| "for_each body (e # es) s = and_then (body e s) (for_each body es)"

section \<open>random.randint\<close>

text \<open>
  \<open>random.randint(a, b)\<close> returns some \<open>N\<close> with \<open>a \<le> N \<le> b\<close> and raises
  \<open>ValueError\<close> when the range is empty. The generator's state is outside the program;
  the model takes the entropy of one call as a natural number and maps it into the range,
  so that every value of the range is the result for some entropy and no other value is.
\<close>

definition randint :: "int \<Rightarrow> int \<Rightarrow> nat \<Rightarrow> int result" where
  "randint a b entropy =
     (if b < a then Inl ValueError else Inr (a + int entropy mod (b - a + 1)))"

section \<open>Lemmas: numbers\<close>

lemma floor_rat_numeral_div [simp]:
  "\<lfloor>numeral a / numeral b :: rat\<rfloor> = numeral a div numeral b"
  using floor_divide_of_int_eq [of "numeral a" "numeral b", where ?'a = rat] by simp

lemma floor_rat_neg_numeral_div [simp]:
  "\<lfloor>- (numeral a / numeral b) :: rat\<rfloor> = - numeral a div numeral b"
  using floor_divide_of_int_eq [of "- numeral a" "numeral b", where ?'a = rat] by simp

lemma py_int_of_int [simp]: "py_int (of_int k) = k"
  by (simp add: py_int_def)

lemma py_int_numeral [simp]: "py_int (numeral n) = numeral n"
  using py_int_of_int [of "numeral n"] by simp

lemma py_int_zero [simp]: "py_int 0 = 0"
  by (simp add: py_int_def)

lemma py_int_minus [simp]: "py_int (- q) = - py_int q"
  by (cases "q = 0") (auto simp: py_int_def)

lemma py_int_numeral_div [simp]:
  "py_int (numeral a / numeral b) = numeral a div numeral b"
  by (simp add: py_int_def)

lemma py_int_nonneg: "0 \<le> q \<Longrightarrow> py_int q = \<lfloor>q\<rfloor>"
  by (simp add: py_int_def)

lemma py_int_neg: "q < 0 \<Longrightarrow> py_int q = \<lceil>q\<rceil>"
  by (simp add: py_int_def ceiling_def)

lemma py_int_le_nonneg: "0 \<le> q \<Longrightarrow> of_int (py_int q) \<le> q"
  by (simp add: py_int_nonneg)

lemma py_int_ge_neg: "q \<le> 0 \<Longrightarrow> q \<le> of_int (py_int q)"
  unfolding py_int_def by (auto; linarith)

lemma py_int_close: "\<bar>of_int (py_int q) - q\<bar> < 1"
  unfolding py_int_def by (auto; linarith)

lemma py_int_mono: "p \<le> q \<Longrightarrow> py_int p \<le> py_int q"
proof -
  assume pq: "p \<le> q"
  consider "q < 0" | "p < 0" "0 \<le> q" | "0 \<le> p" by linarith
  then show ?thesis
  proof cases
    case 1
    with pq have "\<lfloor>- q\<rfloor> \<le> \<lfloor>- p\<rfloor>" by (intro floor_mono) simp
    with 1 pq show ?thesis by (simp add: py_int_def)
  next
    case 2
    then have "0 \<le> \<lfloor>- p\<rfloor>" and "0 \<le> \<lfloor>q\<rfloor>" by simp_all
    moreover from 2 have "py_int p = - \<lfloor>- p\<rfloor>" and "py_int q = \<lfloor>q\<rfloor>"
      by (simp_all add: py_int_def)
    ultimately show ?thesis by linarith
  next
    case 3
    with pq show ?thesis by (simp add: py_int_def floor_mono)
  qed
qed

lemma py_int_less_iff_nonneg: "0 \<le> q \<Longrightarrow> py_int q < k \<longleftrightarrow> q < of_int k"
  by (simp add: py_int_nonneg floor_less_iff)

lemma py_int_neg_iff: "py_int q < 0 \<longleftrightarrow> q \<le> - 1"
  unfolding py_int_def by (auto; linarith)

section \<open>Lemmas: sequencing\<close>

lemma and_then_Inr [simp]: "and_then (Inr x) f = f x"
  by (simp add: and_then_def)

lemma and_then_Inl [simp]: "and_then (Inl e) f = Inl e"
  by (simp add: and_then_def)

lemma and_then_eq_Inr_iff:
  "and_then r f = Inr y \<longleftrightarrow> (\<exists>x. r = Inr x \<and> f x = Inr y)"
  by (cases r) simp_all

lemma and_then_eq_Inl_iff:
  "and_then r f = Inl e \<longleftrightarrow> r = Inl e \<or> (\<exists>x. r = Inr x \<and> f x = Inl e)"
  by (cases r) simp_all

lemma and_then_assoc: "and_then (and_then r f) g = and_then r (\<lambda>x. and_then (f x) g)"
  by (cases r) simp_all

lemma for_each_append:
  "for_each body (xs @ ys) s = and_then (for_each body xs s) (for_each body ys)"
proof (induction xs arbitrary: s)
  case Nil
  show ?case by simp
next
  case (Cons x xs)
  then show ?case by (cases "body x s") simp_all
qed

text \<open>An invariant of the body is an invariant of the loop.\<close>

lemma for_each_invariant:
  assumes body: "\<And>e s s'. P s \<Longrightarrow> body e s = Inr s' \<Longrightarrow> P s'"
    and start: "P s"
    and fin: "for_each body es s = Inr s'"
  shows "P s'"
  using start fin
proof (induction es arbitrary: s)
  case Nil
  then show ?case by simp
next
  case (Cons e es)
  from Cons.prems(2) obtain t where t: "body e s = Inr t" and rest: "for_each body es t = Inr s'"
    by (auto simp: and_then_eq_Inr_iff)
  from Cons.prems(1) t have "P t" by (rule body)
  then show ?case using rest by (rule Cons.IH)
qed

text \<open>A loop whose body commutes with an abstraction commutes with it.\<close>

lemma for_each_map_sum:
  assumes "\<And>e s. map_sum id h (body e s) = body' e (h s)"
  shows "map_sum id h (for_each body es s) = for_each body' es (h s)"
proof (induction es arbitrary: s)
  case Nil
  show ?case by simp
next
  case (Cons e es)
  have "for_each body' (e # es) (h s) =
        and_then (map_sum id h (body e s)) (for_each body' es)"
    by (simp add: assms)
  then show ?case using Cons.IH by (cases "body e s") simp_all
qed

text \<open>A body that never stops gives a loop that never stops.\<close>

lemma for_each_total:
  assumes "\<And>e s. e \<in> set es \<Longrightarrow> \<exists>s'. body e s = Inr s'"
  shows "\<exists>s'. for_each body es s = Inr s'"
  using assms
proof (induction es arbitrary: s)
  case Nil
  then show ?case by simp
next
  case (Cons e es)
  then obtain t where "body e s = Inr t" by fastforce
  moreover from Cons have "\<exists>s'. for_each body es t = Inr s'" by simp
  ultimately show ?case by simp
qed

section \<open>Lemmas: randint\<close>

lemma randint_empty [simp]: "b < a \<Longrightarrow> randint a b n = Inl ValueError"
  by (simp add: randint_def)

lemma randint_raises_iff: "randint a b n = Inl e \<longleftrightarrow> b < a \<and> e = ValueError"
  by (auto simp: randint_def)

lemma randint_range: "randint a b n = Inr k \<Longrightarrow> a \<le> k \<and> k \<le> b"
proof -
  assume r: "randint a b n = Inr k"
  then have ab: "a \<le> b" and k: "k = a + int n mod (b - a + 1)"
    by (auto simp: randint_def split: if_splits)
  from ab have "0 < b - a + 1" by simp
  then have "0 \<le> int n mod (b - a + 1)" and "int n mod (b - a + 1) < b - a + 1"
    by (rule pos_mod_sign, rule pos_mod_bound)
  with k show ?thesis by linarith
qed

lemma randint_onto:
  assumes "a \<le> k" and "k \<le> b"
  shows "randint a b (nat (k - a)) = Inr k"
  using assms by (simp add: randint_def)

section \<open>Lemmas: lists\<close>

text \<open>
  On a list that is increasing in a key, keeping the elements above a threshold only
  removes a prefix.
\<close>

lemma filter_above_sorted:
  fixes key :: "'a \<Rightarrow> int"
  assumes "sorted_wrt (\<lambda>a b. key a < key b) xs"
  shows "filter (\<lambda>a. c < key a) xs = dropWhile (\<lambda>a. \<not> c < key a) xs"
  using assms
proof (induction xs)
  case Nil
  then show ?case by simp
next
  case (Cons x xs)
  show ?case
  proof (cases "c < key x")
    case True
    with Cons.prems have "\<forall>a \<in> set xs. c < key a" by auto
    then have "filter (\<lambda>a. c < key a) xs = xs" by simp
    with True show ?thesis by simp
  next
    case False
    with Cons show ?thesis by simp
  qed
qed

lemma sorted_wrt_filter_key:
  "sorted_wrt R xs \<Longrightarrow> sorted_wrt R (filter P xs)"
  by (rule sorted_wrt_filter)

lemma list_all_filter_weaken: "list_all P xs \<Longrightarrow> list_all P (filter Q xs)"
  by (induction xs) simp_all

end
