(* ===== verification/FB_Config.thy ===== *)
theory FB_Config
  imports FB_Prelude
begin

text \<open>
  The module-level constants of \<open>src/flappybird.py\<close> and the four values that are
  fixed at start-up from the platform: the window size, chosen from the display, and the
  size of the bird sprite. The model carries the latter as a \<open>config\<close> record that every
  operation receives; they are never written after start-up.
\<close>

section \<open>Constants\<close>

definition FPS :: int where "FPS = 60"
definition GRAVITY :: pyfloat where "GRAVITY = 45 / 100"
definition FLAP :: int where "FLAP = - 9"
definition PIPE_GAP :: int where "PIPE_GAP = 160"
definition PIPE_WIDTH :: int where "PIPE_WIDTH = 70"
definition PIPE_SPEED :: int where "PIPE_SPEED = 3"
definition GROUND :: int where "GROUND = 80"

lemmas consts_defs [fb_defs] =
  FPS_def GRAVITY_def FLAP_def PIPE_GAP_def PIPE_WIDTH_def PIPE_SPEED_def GROUND_def

section \<open>Start-up configuration\<close>

record config =
  WIDTH :: int
  HEIGHT :: int
  BIRD_W :: int
  BIRD_H :: int

text \<open>
  \<open>mk_config current_w current_h sprite\<close> is the configuration for a display of
  \<open>current_w \<times> current_h\<close> pixels and a bird sprite of size \<open>sprite\<close>.
\<close>

definition mk_config :: "int \<Rightarrow> int \<Rightarrow> int \<times> int \<Rightarrow> config" where
  "mk_config current_w current_h sprite =
     \<lparr>WIDTH = min 480 current_w, HEIGHT = min 800 current_h,
      BIRD_W = fst sprite, BIRD_H = snd sprite\<rparr>"

declare mk_config_def [fb_defs]

text \<open>
  What start-up guarantees on a real display: a window of positive size within the
  maximum, and a sprite with at least one pixel.
\<close>

definition config_ok :: "config \<Rightarrow> bool" where
  "config_ok cfg \<longleftrightarrow>
     0 < WIDTH cfg \<and> WIDTH cfg \<le> 480 \<and> 0 < HEIGHT cfg \<and> HEIGHT cfg \<le> 800 \<and>
     0 < BIRD_W cfg \<and> 0 < BIRD_H cfg"

text \<open>
  The height from which the spawner's range of gap offsets is not empty:
  \<open>40 \<le> HEIGHT - GROUND - PIPE_GAP - 40\<close>.
\<close>

definition tall_enough :: "config \<Rightarrow> bool" where
  "tall_enough cfg \<longleftrightarrow> 320 \<le> HEIGHT cfg"

text \<open>
  The configuration of the examples: a display larger than the maximum, so a window of
  480 by 800, and a sprite of 34 by 24 pixels.
\<close>

abbreviation demo_cfg :: config where
  "demo_cfg \<equiv> mk_config 480 800 (34, 24)"

section \<open>Lemmas\<close>

lemma mk_config_fields [simp]:
  "WIDTH (mk_config cw ch sz) = min 480 cw"
  "HEIGHT (mk_config cw ch sz) = min 800 ch"
  "BIRD_W (mk_config cw ch sz) = fst sz"
  "BIRD_H (mk_config cw ch sz) = snd sz"
  by (simp_all add: mk_config_def)

lemma mk_config_bounds: "WIDTH (mk_config cw ch sz) \<le> 480 \<and> HEIGHT (mk_config cw ch sz) \<le> 800"
  by simp

lemma mk_config_ok:
  "0 < cw \<Longrightarrow> 0 < ch \<Longrightarrow> 0 < fst sz \<Longrightarrow> 0 < snd sz \<Longrightarrow> config_ok (mk_config cw ch sz)"
  by (simp add: config_ok_def)

lemma mk_config_large_display:
  "480 \<le> cw \<Longrightarrow> 800 \<le> ch \<Longrightarrow> mk_config cw ch sz =
     \<lparr>WIDTH = 480, HEIGHT = 800, BIRD_W = fst sz, BIRD_H = snd sz\<rparr>"
  by (simp add: mk_config_def)

lemma tall_enough_mk_config: "tall_enough (mk_config cw ch sz) \<longleftrightarrow> 320 \<le> ch"
  by (auto simp: tall_enough_def)

end
