(* ===== verification/FB_Geometry.thy ===== *)
theory FB_Geometry
  imports FB_Prelude
begin

text \<open>
  The collision helper: \<open>pygame.Rect\<close> as the program uses it (four integers; the
  edges \<open>right\<close> and \<open>bottom\<close> computed from the corner and the size) and
  \<open>rect_overlap\<close> of \<open>src/flappybird.py\<close>. The lemmas relate the test to its
  geometric meaning, the closed rectangles sharing a point, and give the cases the
  collision check relies on.
\<close>

section \<open>Rectangles\<close>

record rect =
  rect_left :: int
  rect_top :: int
  rect_width :: int
  rect_height :: int

text \<open>The constructor converts each argument as \<open>pygame.Rect\<close> does.\<close>

definition Rect :: "pyfloat \<Rightarrow> pyfloat \<Rightarrow> pyfloat \<Rightarrow> pyfloat \<Rightarrow> rect" where
  "Rect x y w h =
     \<lparr>rect_left = py_int x, rect_top = py_int y, rect_width = py_int w, rect_height = py_int h\<rparr>"

definition rect_right :: "rect \<Rightarrow> int" where
  "rect_right r = rect_left r + rect_width r"

definition rect_bottom :: "rect \<Rightarrow> int" where
  "rect_bottom r = rect_top r + rect_height r"

section \<open>The overlap test\<close>

definition rect_overlap :: "rect \<Rightarrow> rect \<Rightarrow> bool" where
  "rect_overlap a b \<longleftrightarrow>
     \<not> (rect_right a < rect_left b \<or> rect_left a > rect_right b \<or>
        rect_bottom a < rect_top b \<or> rect_top a > rect_bottom b)"

lemmas rect_defs [fb_defs] = Rect_def rect_right_def rect_bottom_def rect_overlap_def

section \<open>Reference semantics\<close>

text \<open>
  A rectangle of non-negative size covers the closed set of points between its edges.
  (A \<open>pygame.Rect\<close> may have a negative size; the program builds none.)
\<close>

definition proper :: "rect \<Rightarrow> bool" where
  "proper r \<longleftrightarrow> 0 \<le> rect_width r \<and> 0 \<le> rect_height r"

definition covers :: "rect \<Rightarrow> int \<times> int \<Rightarrow> bool" where
  "covers r p \<longleftrightarrow>
     rect_left r \<le> fst p \<and> fst p \<le> rect_right r \<and>
     rect_top r \<le> snd p \<and> snd p \<le> rect_bottom r"

text \<open>The point that two overlapping rectangles share: the larger of the two corners.\<close>

definition meet_point :: "rect \<Rightarrow> rect \<Rightarrow> int \<times> int" where
  "meet_point a b = (max (rect_left a) (rect_left b), max (rect_top a) (rect_top b))"

definition shift :: "int \<Rightarrow> int \<Rightarrow> rect \<Rightarrow> rect" where
  "shift dx dy r = r\<lparr>rect_left := rect_left r + dx, rect_top := rect_top r + dy\<rparr>"

section \<open>Lemmas\<close>

lemma Rect_fields [simp]:
  "rect_left (Rect x y w h) = py_int x"
  "rect_top (Rect x y w h) = py_int y"
  "rect_width (Rect x y w h) = py_int w"
  "rect_height (Rect x y w h) = py_int h"
  "rect_right (Rect x y w h) = py_int x + py_int w"
  "rect_bottom (Rect x y w h) = py_int y + py_int h"
  by (simp_all add: Rect_def rect_right_def rect_bottom_def)

lemma proper_Rect [simp]: "proper (Rect x y w h) \<longleftrightarrow> 0 \<le> py_int w \<and> 0 \<le> py_int h"
  by (simp add: proper_def)

lemma proper_edges: "proper r \<Longrightarrow> rect_left r \<le> rect_right r \<and> rect_top r \<le> rect_bottom r"
  by (simp add: proper_def rect_right_def rect_bottom_def)

lemma rect_overlap_iff:
  "rect_overlap a b \<longleftrightarrow>
     rect_left b \<le> rect_right a \<and> rect_left a \<le> rect_right b \<and>
     rect_top b \<le> rect_bottom a \<and> rect_top a \<le> rect_bottom b"
  by (auto simp: rect_overlap_def)

lemma rect_overlap_commute: "rect_overlap a b \<longleftrightarrow> rect_overlap b a"
  by (auto simp: rect_overlap_iff)

lemma covers_meet_point:
  assumes "proper a" and "proper b" and "rect_overlap a b"
  shows "covers a (meet_point a b) \<and> covers b (meet_point a b)"
  using assms proper_edges [of a] proper_edges [of b]
  by (auto simp: covers_def meet_point_def rect_overlap_iff)

lemma covers_both_overlap:
  assumes "covers a p" and "covers b p"
  shows "rect_overlap a b"
  using assms by (auto simp: covers_def rect_overlap_iff)

lemma rect_overlap_above:
  "rect_bottom a < rect_top b \<Longrightarrow> \<not> rect_overlap a b"
  by (simp add: rect_overlap_def)

lemma rect_overlap_below:
  "rect_bottom b < rect_top a \<Longrightarrow> \<not> rect_overlap a b"
  by (simp add: rect_overlap_def)

lemma rect_overlap_beside:
  "rect_right a < rect_left b \<or> rect_right b < rect_left a \<Longrightarrow> \<not> rect_overlap a b"
  by (auto simp: rect_overlap_def)

lemma shift_edges [simp]:
  "rect_right (shift dx dy r) = rect_right r + dx"
  "rect_bottom (shift dx dy r) = rect_bottom r + dy"
  "rect_left (shift dx dy r) = rect_left r + dx"
  "rect_top (shift dx dy r) = rect_top r + dy"
  by (simp_all add: shift_def rect_right_def rect_bottom_def)

text \<open>C35. \<open>rect_overlap\<close> decides whether two rectangles of non-negative size share a
  point of the integer grid, edges and corners included; when they do, \<open>meet_point\<close>
  is such a point.\<close>

theorem rect_overlap_shares_point:
  assumes "proper a" and "proper b"
  shows "rect_overlap a b \<longleftrightarrow> (\<exists>p. covers a p \<and> covers b p)"
  using assms covers_meet_point covers_both_overlap by blast

theorem rect_overlap_shares_point_witness:
  "rect_overlap (Rect 0 0 10 10) (Rect 10 10 5 5) \<longleftrightarrow>
     (\<exists>p. covers (Rect 0 0 10 10) p \<and> covers (Rect 10 10 5 5) p)"
  using rect_overlap_shares_point [of "Rect 0 0 10 10" "Rect 10 10 5 5"] by simp

text \<open>The test does not depend on the order of its arguments, and moving both
  rectangles by the same offset does not change it.\<close>

theorem rect_overlap_symmetric_shift:
  "rect_overlap a b = rect_overlap b a \<and>
   rect_overlap (shift dx dy a) (shift dx dy b) = rect_overlap a b"
  by (auto simp: rect_overlap_iff)

text \<open>Rectangles that only touch along an edge count as overlapping: a rectangle
  whose top edge is the other's bottom edge, with a common column, overlaps it.\<close>

theorem rect_overlap_touching:
  assumes "rect_top a = rect_bottom b"
    and "rect_left a \<le> rect_right b" and "rect_left b \<le> rect_right a"
    and "proper a" and "proper b"
  shows "rect_overlap a b"
  using assms proper_edges [of a] proper_edges [of b] by (auto simp: rect_overlap_iff)

theorem rect_overlap_touching_witness:
  "rect_overlap (Rect 80 40 30 20) (Rect 70 0 70 40)"
  using rect_overlap_touching [of "Rect 80 40 30 20" "Rect 70 0 70 40"] by simp

end
