(* ===== verification/FB_Entities.thy ===== *)
theory FB_Entities
  imports FB_Config
begin

text \<open>
  The data of the game: the module-level state of \<open>src/flappybird.py\<close> (the \<open>bird\<close>
  dictionary, the list of pipe dictionaries, \<open>score\<close>, the flags \<open>running\<close> and
  \<open>game_over\<close>, \<open>last_spawn\<close>) gathered in one \<open>game\<close> record, the input events the
  loop distinguishes, and what the environment supplies during one frame.
\<close>

section \<open>Entities\<close>

record bird =
  bird_x :: pyfloat
  bird_y :: pyfloat
  bird_vy :: pyfloat
  bird_w :: int
  bird_h :: int

record pipe =
  pipe_x :: int
  pipe_top :: int
  pipe_passed :: bool

record game =
  bird :: bird
  pipes :: "pipe list"
  score :: int
  running :: bool
  game_over :: bool
  last_spawn :: int

text \<open>
  The bird's position at start-up: \<open>WIDTH * 0.18\<close> and \<open>HEIGHT // 2\<close>. The second
  is also where \<open>reset()\<close> puts the bird back.
\<close>

definition start_x :: "config \<Rightarrow> pyfloat" where
  "start_x cfg = of_int (WIDTH cfg) * (18 / 100)"

definition start_y :: "config \<Rightarrow> pyfloat" where
  "start_y cfg = of_int (HEIGHT cfg div 2)"

text \<open>The state as the module's top level leaves it, before the first \<open>reset()\<close>.\<close>

definition initial_game :: "config \<Rightarrow> game" where
  "initial_game cfg =
     \<lparr>bird = \<lparr>bird_x = start_x cfg, bird_y = start_y cfg,
              bird_vy = 0, bird_w = BIRD_W cfg, bird_h = BIRD_H cfg\<rparr>,
      pipes = [], score = 0, running = False, game_over = False, last_spawn = 0\<rparr>"

lemmas entities_defs [fb_defs] = start_x_def start_y_def initial_game_def

section \<open>Events\<close>

text \<open>
  The loop looks at the type of an event and, for a key press, at the key. Every other
  event type and every other key is one constructor carrying pygame's code.
\<close>

datatype key = K_SPACE | K_UP | K_OTHER int

datatype event = QUIT | MOUSEBUTTONDOWN | KEYDOWN key | OTHER_EVENT int

section \<open>The environment of one frame\<close>

text \<open>
  One iteration of the main loop reads the event queue once, the clock
  (\<open>pygame.time.get_ticks()\<close>) when it tests the spawn timer and again when it restarts
  it, and the random generator when it spawns. A \<open>reset()\<close> in an event handler reads
  the clock too, so each event comes with the reading a reset during it would see.
\<close>

record frame_env =
  events :: "(event \<times> int) list"
  ticks_check :: int
  ticks_stamp :: int
  entropy :: nat

text \<open>The environment of the examples: one click, 16 ms after start-up.\<close>

abbreviation tap_env :: frame_env where
  "tap_env \<equiv>
     \<lparr>events = [(MOUSEBUTTONDOWN, 0)], ticks_check = 16, ticks_stamp = 16, entropy = 0\<rparr>"

text \<open>A frame without input, and a frame with a click in which the spawn timer has run out.\<close>

abbreviation idle_env :: frame_env where
  "idle_env \<equiv> \<lparr>events = [], ticks_check = 16, ticks_stamp = 16, entropy = 0\<rparr>"

abbreviation spawn_env :: frame_env where
  "spawn_env \<equiv>
     \<lparr>events = [(MOUSEBUTTONDOWN, 0)], ticks_check = 2000, ticks_stamp = 16, entropy = 0\<rparr>"

text \<open>
  The state of the examples: a 480 by 800 game one frame after start-up, when that frame
  had a click and spawned a pipe.
\<close>

abbreviation demo_game :: game where
  "demo_game \<equiv>
     \<lparr>bird = \<lparr>bird_x = 432 / 5, bird_y = 7829 / 20, bird_vy = - (171 / 20),
               bird_w = 34, bird_h = 24\<rparr>,
      pipes = [\<lparr>pipe_x = 487, pipe_top = 40, pipe_passed = False\<rparr>],
      score = 0, running = True, game_over = False, last_spawn = 16\<rparr>"

section \<open>Phases\<close>

text \<open>
  The two flags encode the phase of the game. Every test of the program reads them in
  the order below: \<open>game_over\<close> first, then \<open>running\<close>.
\<close>

datatype phase = Idle | Running | GameOver

definition phase_of :: "game \<Rightarrow> phase" where
  "phase_of g = (if game_over g then GameOver else if running g then Running else Idle)"

section \<open>Lemmas\<close>

lemma start_x_bounds: "0 \<le> WIDTH cfg \<Longrightarrow> 0 \<le> start_x cfg \<and> start_x cfg \<le> of_int (WIDTH cfg)"
  by (simp add: start_x_def mult_left_le)

lemma start_x_wide [simp]: "WIDTH cfg = 480 \<Longrightarrow> start_x cfg = 432 / 5"
  by (simp add: start_x_def)

lemma start_y_tall [simp]: "HEIGHT cfg = 800 \<Longrightarrow> start_y cfg = 400"
  by (simp add: start_y_def)

lemma initial_game_fields [simp]:
  "pipes (initial_game cfg) = []"
  "score (initial_game cfg) = 0"
  "running (initial_game cfg) = False"
  "game_over (initial_game cfg) = False"
  "last_spawn (initial_game cfg) = 0"
  "bird_x (bird (initial_game cfg)) = start_x cfg"
  "bird_y (bird (initial_game cfg)) = start_y cfg"
  "bird_vy (bird (initial_game cfg)) = 0"
  "bird_w (bird (initial_game cfg)) = BIRD_W cfg"
  "bird_h (bird (initial_game cfg)) = BIRD_H cfg"
  by (simp_all add: initial_game_def)

lemma phase_of_simps [simp]:
  "game_over g \<Longrightarrow> phase_of g = GameOver"
  "\<not> game_over g \<Longrightarrow> running g \<Longrightarrow> phase_of g = Running"
  "\<not> game_over g \<Longrightarrow> \<not> running g \<Longrightarrow> phase_of g = Idle"
  by (simp_all add: phase_of_def)

lemma phase_of_eq_iff:
  "phase_of g = GameOver \<longleftrightarrow> game_over g"
  "phase_of g = Running \<longleftrightarrow> running g \<and> \<not> game_over g"
  "phase_of g = Idle \<longleftrightarrow> \<not> running g \<and> \<not> game_over g"
  by (simp_all add: phase_of_def)

lemma phase_of_initial [simp]: "phase_of (initial_game cfg) = Idle"
  by (simp add: phase_of_def)

end
