(* ===== verification/FB_Spawner.thy ===== *)
theory FB_Spawner
  imports FB_Entities
begin

text \<open>
  \<open>spawn_pipe()\<close> of \<open>src/flappybird.py\<close>: a new pipe just right of the window, its gap
  offset drawn by \<open>random.randint\<close> between \<open>top_min\<close> and \<open>top_max\<close>, appended to
  the pipe list. The call raises \<open>ValueError\<close> when the window is too low for the range
  to hold a value. The lemmas give both outcomes and the geometry of the spawned pipe.
\<close>

section \<open>Definitions\<close>

definition top_min :: int where
  "top_min = 40"

definition top_max :: "config \<Rightarrow> int" where
  "top_max cfg = HEIGHT cfg - GROUND - PIPE_GAP - 40"

definition new_pipe :: "config \<Rightarrow> int \<Rightarrow> pipe" where
  "new_pipe cfg t = \<lparr>pipe_x = WIDTH cfg + 10, pipe_top = t, pipe_passed = False\<rparr>"

definition spawn_pipe :: "config \<Rightarrow> nat \<Rightarrow> game \<Rightarrow> game result" where
  "spawn_pipe cfg n g =
     and_then (randint top_min (top_max cfg) n)
       (\<lambda>t. Inr (g\<lparr>pipes := pipes g @ [new_pipe cfg t]\<rparr>))"

lemmas spawner_defs [fb_defs] = top_min_def top_max_def new_pipe_def spawn_pipe_def

text \<open>
  The two segments of a pipe as \<open>draw_pipe\<close> and the collision check compute them: the
  top segment is \<open>pipe_top\<close> high, the bottom one starts \<open>PIPE_GAP\<close> lower and ends at
  the ground.
\<close>

definition bottom_y :: "pipe \<Rightarrow> int" where
  "bottom_y p = pipe_top p + PIPE_GAP"

definition bottom_h :: "config \<Rightarrow> pipe \<Rightarrow> int" where
  "bottom_h cfg p = HEIGHT cfg - GROUND - bottom_y p"

text \<open>A gap offset is in range when both segments are at least 40 pixels high.\<close>

definition top_in_range :: "config \<Rightarrow> pipe \<Rightarrow> bool" where
  "top_in_range cfg p \<longleftrightarrow> top_min \<le> pipe_top p \<and> pipe_top p \<le> top_max cfg"

section \<open>Lemmas\<close>

lemma top_max_tall: "top_min \<le> top_max cfg \<longleftrightarrow> tall_enough cfg"
  by (auto simp: top_min_def top_max_def tall_enough_def GROUND_def PIPE_GAP_def)

lemma top_in_range_segments:
  "top_in_range cfg p \<longleftrightarrow> 40 \<le> pipe_top p \<and> 40 \<le> bottom_h cfg p"
  by (auto simp: top_in_range_def top_min_def top_max_def bottom_h_def bottom_y_def)

lemma new_pipe_fields [simp]:
  "pipe_x (new_pipe cfg t) = WIDTH cfg + 10"
  "pipe_top (new_pipe cfg t) = t"
  "pipe_passed (new_pipe cfg t) = False"
  by (simp_all add: new_pipe_def)

lemma spawn_pipe_Inr_iff:
  "spawn_pipe cfg n g = Inr g' \<longleftrightarrow>
     (\<exists>t. randint top_min (top_max cfg) n = Inr t \<and> g' = g\<lparr>pipes := pipes g @ [new_pipe cfg t]\<rparr>)"
  by (auto simp: spawn_pipe_def and_then_eq_Inr_iff)

lemma spawn_pipe_Inl_iff:
  "spawn_pipe cfg n g = Inl e \<longleftrightarrow> \<not> tall_enough cfg \<and> e = ValueError"
  by (auto simp: spawn_pipe_def and_then_eq_Inl_iff randint_raises_iff top_max_tall [symmetric])

lemma spawn_pipe_frame [fb_frame]:
  assumes "spawn_pipe cfg n g = Inr g'"
  shows "bird g' = bird g" "score g' = score g" "running g' = running g"
    "game_over g' = game_over g" "last_spawn g' = last_spawn g"
  using assms by (auto simp: spawn_pipe_Inr_iff)

text \<open>C33. On a window at least 320 pixels high \<open>spawn_pipe\<close> returns: it appends exactly
  one pipe, at \<open>x = WIDTH + 10\<close>, not yet passed, whose top and bottom segments are both
  at least 40 pixels high, and changes nothing else.\<close>

theorem spawn_pipe_appends:
  assumes "tall_enough cfg"
  shows "\<exists>p. spawn_pipe cfg n g = Inr (g\<lparr>pipes := pipes g @ [p]\<rparr>) \<and>
             pipe_x p = WIDTH cfg + 10 \<and> \<not> pipe_passed p \<and>
             40 \<le> pipe_top p \<and> 40 \<le> bottom_h cfg p"
proof -
  from assms have "top_min \<le> top_max cfg" by (simp add: top_max_tall)
  then obtain t where t: "randint top_min (top_max cfg) n = Inr t"
    by (auto simp: randint_def)
  then have "top_in_range cfg (new_pipe cfg t)"
    using randint_range [OF t] by (simp add: top_in_range_def)
  with t show ?thesis
    by (intro exI [of _ "new_pipe cfg t"]) (simp add: spawn_pipe_def top_in_range_segments)
qed

theorem spawn_pipe_appends_witness:
  "\<exists>p. spawn_pipe (mk_config 480 800 (34, 24)) 7 (initial_game (mk_config 480 800 (34, 24))) =
          Inr ((initial_game (mk_config 480 800 (34, 24)))\<lparr>pipes := [p]\<rparr>) \<and>
        pipe_x p = 490 \<and> \<not> pipe_passed p \<and> 40 \<le> pipe_top p \<and>
        40 \<le> bottom_h (mk_config 480 800 (34, 24)) p"
  using spawn_pipe_appends [of "mk_config 480 800 (34, 24)" 7
      "initial_game (mk_config 480 800 (34, 24))"]
  by (simp add: tall_enough_def)

text \<open>On a window lower than 320 pixels the range of gap offsets is empty and
  \<open>spawn_pipe\<close> raises \<open>ValueError\<close>, whatever the state and the generator; on any
  other window it raises nothing.\<close>

theorem spawn_pipe_raises_iff:
  "(\<exists>e. spawn_pipe cfg n g = Inl e) \<longleftrightarrow> HEIGHT cfg < 320"
  by (auto simp: spawn_pipe_Inl_iff tall_enough_def)

text \<open>Every gap offset of the range can be drawn: for each \<open>t\<close> between \<open>top_min\<close>
  and \<open>top_max\<close> some state of the generator makes \<open>spawn_pipe\<close> append the pipe with
  that offset.\<close>

theorem spawn_pipe_any_offset:
  assumes "top_min \<le> t" and "t \<le> top_max cfg"
  shows "spawn_pipe cfg (nat (t - top_min)) g = Inr (g\<lparr>pipes := pipes g @ [new_pipe cfg t]\<rparr>)"
  using assms by (simp add: spawn_pipe_def randint_onto)

theorem spawn_pipe_any_offset_witness:
  "spawn_pipe (mk_config 480 800 (34, 24)) (nat (520 - top_min))
       (initial_game (mk_config 480 800 (34, 24))) =
     Inr ((initial_game (mk_config 480 800 (34, 24)))
            \<lparr>pipes := [new_pipe (mk_config 480 800 (34, 24)) 520]\<rparr>)"
  using spawn_pipe_any_offset [of 520 "mk_config 480 800 (34, 24)"
      "initial_game (mk_config 480 800 (34, 24))"]
  by (simp add: top_min_def top_max_def GROUND_def PIPE_GAP_def)

end
