(* ===== verification/FB_Input.thy ===== *)
theory FB_Input
  imports FB_Entities
begin

text \<open>
  The input handler of \<open>src/flappybird.py\<close>: \<open>reset()\<close>, the action that a mouse
  click, a tap, SPACE and UP all trigger (restart after a game over, flap otherwise), the
  dispatch on one event, and the \<open>for\<close> loop over the event queue, which
  \<open>sys.exit()\<close> cuts short. The lemmas give the effect of each event in each phase
  and the fields each handler leaves alone.
\<close>

section \<open>Definitions\<close>

definition reset :: "config \<Rightarrow> int \<Rightarrow> game \<Rightarrow> game" where
  "reset cfg ticks g =
     g\<lparr>pipes := [], score := 0,
       bird := (bird g)\<lparr>bird_y := start_y cfg, bird_vy := 0\<rparr>,
       running := False, game_over := False, last_spawn := ticks\<rparr>"

definition flap :: "game \<Rightarrow> game" where
  "flap g = g\<lparr>bird := (bird g)\<lparr>bird_vy := of_int FLAP\<rparr>, running := True\<rparr>"

definition primary_action :: "config \<Rightarrow> int \<Rightarrow> game \<Rightarrow> game" where
  "primary_action cfg ticks g = (if game_over g then reset cfg ticks g else flap g)"

fun handle_event :: "config \<Rightarrow> event \<times> int \<Rightarrow> game \<Rightarrow> game result" where
  "handle_event cfg (QUIT, ticks) g = Inl SysExit"
| "handle_event cfg (MOUSEBUTTONDOWN, ticks) g = Inr (primary_action cfg ticks g)"
| "handle_event cfg (KEYDOWN k, ticks) g =
     (if k = K_SPACE \<or> k = K_UP then Inr (primary_action cfg ticks g) else Inr g)"
| "handle_event cfg (OTHER_EVENT n, ticks) g = Inr g"

definition handle_events :: "config \<Rightarrow> (event \<times> int) list \<Rightarrow> game \<Rightarrow> game result" where
  "handle_events cfg = for_each (handle_event cfg)"

lemmas input_defs [fb_defs] = reset_def flap_def primary_action_def handle_events_def

text \<open>The events that trigger the primary action, and the ones that end the program.\<close>

fun is_primary :: "event \<Rightarrow> bool" where
  "is_primary MOUSEBUTTONDOWN = True"
| "is_primary (KEYDOWN k) = (k = K_SPACE \<or> k = K_UP)"
| "is_primary e = False"

fun is_quit :: "event \<Rightarrow> bool" where
  "is_quit QUIT = True"
| "is_quit e = False"

text \<open>A queue of events holds a \<open>QUIT\<close>; it holds a primary action.\<close>

definition quits :: "(event \<times> int) list \<Rightarrow> bool" where
  "quits evs \<longleftrightarrow> list_ex (\<lambda>et. is_quit (fst et)) evs"

definition any_primary :: "(event \<times> int) list \<Rightarrow> bool" where
  "any_primary evs \<longleftrightarrow> list_ex (\<lambda>et. is_primary (fst et)) evs"

section \<open>Lemmas\<close>

lemma reset_fields [simp]:
  "pipes (reset cfg t g) = []"
  "score (reset cfg t g) = 0"
  "running (reset cfg t g) = False"
  "game_over (reset cfg t g) = False"
  "last_spawn (reset cfg t g) = t"
  "bird_y (bird (reset cfg t g)) = start_y cfg"
  "bird_vy (bird (reset cfg t g)) = 0"
  "bird_x (bird (reset cfg t g)) = bird_x (bird g)"
  "bird_w (bird (reset cfg t g)) = bird_w (bird g)"
  "bird_h (bird (reset cfg t g)) = bird_h (bird g)"
  by (simp_all add: reset_def)

lemma flap_fields [simp]:
  "pipes (flap g) = pipes g"
  "score (flap g) = score g"
  "running (flap g) = True"
  "game_over (flap g) = game_over g"
  "last_spawn (flap g) = last_spawn g"
  "bird_vy (bird (flap g)) = of_int FLAP"
  "bird_y (bird (flap g)) = bird_y (bird g)"
  "bird_x (bird (flap g)) = bird_x (bird g)"
  "bird_w (bird (flap g)) = bird_w (bird g)"
  "bird_h (bird (flap g)) = bird_h (bird g)"
  by (simp_all add: flap_def)

lemma phase_of_reset [simp]: "phase_of (reset cfg t g) = Idle"
  by (simp add: phase_of_def)

lemma phase_of_flap [simp]: "\<not> game_over g \<Longrightarrow> phase_of (flap g) = Running"
  by (simp add: phase_of_def)

lemma primary_action_simps [simp]:
  "game_over g \<Longrightarrow> primary_action cfg t g = reset cfg t g"
  "\<not> game_over g \<Longrightarrow> primary_action cfg t g = flap g"
  by (simp_all add: primary_action_def)

lemma primary_action_bird_fixed [simp]:
  "bird_x (bird (primary_action cfg t g)) = bird_x (bird g)"
  "bird_w (bird (primary_action cfg t g)) = bird_w (bird g)"
  "bird_h (bird (primary_action cfg t g)) = bird_h (bird g)"
  by (simp_all add: primary_action_def)

lemma handle_event_cases:
  "handle_event cfg (e, t) g =
     (if is_quit e then Inl SysExit
      else if is_primary e then Inr (primary_action cfg t g) else Inr g)"
  by (cases e) simp_all

lemma handle_event_Inr_iff:
  "handle_event cfg (e, t) g = Inr g' \<longleftrightarrow>
     \<not> is_quit e \<and> g' = (if is_primary e then primary_action cfg t g else g)"
  by (auto simp: handle_event_cases)

lemma handle_event_Inl_iff:
  "handle_event cfg (e, t) g = Inl h \<longleftrightarrow> is_quit e \<and> h = SysExit"
  by (auto simp: handle_event_cases)

lemma handle_events_Nil [simp]: "handle_events cfg [] g = Inr g"
  by (simp add: handle_events_def)

lemma handle_events_Cons [simp]:
  "handle_events cfg (et # evs) g = and_then (handle_event cfg et g) (handle_events cfg evs)"
  by (simp add: handle_events_def)

lemma handle_events_append:
  "handle_events cfg (xs @ ys) g = and_then (handle_events cfg xs g) (handle_events cfg ys)"
  by (simp add: handle_events_def for_each_append)

section \<open>Lemmas: queues\<close>

lemma quits_simps [simp]:
  "quits [] = False"
  "quits (et # evs) = (is_quit (fst et) \<or> quits evs)"
  by (simp_all add: quits_def)

lemma handle_events_Inl_iff:
  "handle_events cfg evs g = Inl e \<longleftrightarrow> quits evs \<and> e = SysExit"
proof (induction evs arbitrary: g)
  case Nil
  show ?case by simp
next
  case (Cons et evs)
  obtain ev t where et: "et = (ev, t)" by (cases et)
  show ?case
    by (cases "is_quit ev") (auto simp: et handle_event_cases Cons.IH)
qed

lemma handle_events_total: "\<not> quits evs \<Longrightarrow> \<exists>g'. handle_events cfg evs g = Inr g'"
  by (cases "handle_events cfg evs g") (auto simp: handle_events_Inl_iff)

lemma any_primary_simps [simp]:
  "any_primary [] = False"
  "any_primary (et # evs) = (is_primary (fst et) \<or> any_primary evs)"
  by (simp_all add: any_primary_def)

lemma flap_idem [simp]: "flap (flap g) = flap g"
  by (simp add: flap_def)

lemma handle_events_not_over:
  assumes "\<not> game_over g" and "\<not> quits evs"
  shows "handle_events cfg evs g = Inr (if any_primary evs then flap g else g)"
  using assms
proof (induction evs arbitrary: g)
  case Nil
  show ?case by simp
next
  case (Cons et evs)
  obtain e t where et: "et = (e, t)" by (cases et)
  from Cons.prems have q: "\<not> is_quit e" "\<not> quits evs" by (simp_all add: et)
  show ?case
  proof (cases "is_primary e")
    case True
    with Cons.prems(1) q(1) have "handle_event cfg et g = Inr (flap g)"
      by (simp add: et handle_event_cases)
    moreover have "handle_events cfg evs (flap g) = Inr (if any_primary evs then flap (flap g) else flap g)"
      using Cons.prems(1) q(2) by (intro Cons.IH) simp_all
    ultimately show ?thesis using True by (simp add: et)
  next
    case False
    with q(1) have "handle_event cfg et g = Inr g"
      by (simp add: et handle_event_cases)
    with Cons.IH [OF Cons.prems(1) q(2)] False show ?thesis by (simp add: et)
  qed
qed

lemma handle_events_no_primary:
  "\<not> quits evs \<Longrightarrow> \<not> any_primary evs \<Longrightarrow> handle_events cfg evs g = Inr g"
proof (induction evs)
  case Nil
  show ?case by simp
next
  case (Cons et evs)
  obtain e t where et: "et = (e, t)" by (cases et)
  with Cons show ?case by (simp add: handle_event_cases)
qed

section \<open>Properties of the input handler\<close>

text \<open>C20. While the game is not over, the taps and key presses of one frame act as a
  single flap: however many clicks, taps, SPACE and UP presses the queue holds, and
  whatever else lies between them, the bird's velocity becomes exactly \<open>FLAP = -9\<close>,
  whatever it was, the phase becomes Running, and nothing else changes.\<close>

theorem taps_flap_once:
  assumes "\<not> game_over g" and "\<not> quits evs" and "any_primary evs"
  shows "handle_events cfg evs g = Inr (flap g) \<and>
         bird_vy (bird (flap g)) = - 9 \<and> phase_of (flap g) = Running"
  using assms by (simp add: handle_events_not_over FLAP_def)

theorem taps_flap_once_witness:
  "handle_events demo_cfg [(MOUSEBUTTONDOWN, 1), (OTHER_EVENT 4, 2), (KEYDOWN K_SPACE, 3)]
     (initial_game demo_cfg) = Inr (flap (initial_game demo_cfg)) \<and>
   bird_vy (bird (flap (initial_game demo_cfg))) = - 9 \<and>
   phase_of (flap (initial_game demo_cfg)) = Running"
  using taps_flap_once [of "initial_game demo_cfg"
      "[(MOUSEBUTTONDOWN, 1), (OTHER_EVENT 4, 2), (KEYDOWN K_SPACE, 3)]" demo_cfg]
  by simp

end
