(* ===== verification/FB_Physics.thy ===== *)
theory FB_Physics
  imports FB_Spawner
begin

text \<open>
  The first four blocks of the game logic of \<open>src/flappybird.py\<close>, each a function on
  the \<open>game\<close> record: bird physics, the spawn timer, the loop that moves the pipes and
  counts the ones the bird has passed, and the removal of pipes that left the screen.
  The lemmas give the effect of each block, a closed form for a fall of \<open>k\<close> ticks, and
  a specification of the scoring loop as a map and a count.
\<close>

section \<open>Bird physics\<close>

definition bird_physics :: "game \<Rightarrow> game" where
  "bird_physics g =
     (let vy = bird_vy (bird g) + GRAVITY
      in g\<lparr>bird := (bird g)\<lparr>bird_vy := vy, bird_y := bird_y (bird g) + vy\<rparr>\<rparr>)"

section \<open>Spawn timer\<close>

definition spawn_due :: "frame_env \<Rightarrow> game \<Rightarrow> bool" where
  "spawn_due env g \<longleftrightarrow> ticks_check env - last_spawn g > 1500"

definition spawn_pipes :: "config \<Rightarrow> frame_env \<Rightarrow> game \<Rightarrow> game result" where
  "spawn_pipes cfg env g =
     (if spawn_due env g
      then and_then (spawn_pipe cfg (entropy env) g)
             (\<lambda>g'. Inr (g'\<lparr>last_spawn := ticks_stamp env\<rparr>))
      else Inr g)"

section \<open>Move and score\<close>

definition move_pipe :: "pipe \<Rightarrow> pipe" where
  "move_pipe p = p\<lparr>pipe_x := pipe_x p - PIPE_SPEED\<rparr>"

text \<open>The test of the scoring loop, on a pipe that has just moved.\<close>

definition newly_passed :: "pyfloat \<Rightarrow> pipe \<Rightarrow> bool" where
  "newly_passed bx p \<longleftrightarrow> \<not> pipe_passed p \<and> of_int (pipe_x p + PIPE_WIDTH) < bx"

fun move_and_score :: "pyfloat \<Rightarrow> pipe list \<Rightarrow> int \<Rightarrow> pipe list \<times> int" where
  "move_and_score bx [] sc = ([], sc)"
| "move_and_score bx (p # ps) sc =
     (let p' = move_pipe p in
      if newly_passed bx p'
      then (case move_and_score bx ps (sc + 1) of
              (ps', sc') \<Rightarrow> (p'\<lparr>pipe_passed := True\<rparr> # ps', sc'))
      else (case move_and_score bx ps sc of (ps', sc') \<Rightarrow> (p' # ps', sc')))"

definition move_pipes :: "game \<Rightarrow> game" where
  "move_pipes g =
     (case move_and_score (bird_x (bird g)) (pipes g) (score g) of
        (ps, sc) \<Rightarrow> g\<lparr>pipes := ps, score := sc\<rparr>)"

section \<open>Remove off-screen pipes\<close>

definition on_screen :: "pipe \<Rightarrow> bool" where
  "on_screen p \<longleftrightarrow> pipe_x p > - 100"

definition remove_offscreen :: "game \<Rightarrow> game" where
  "remove_offscreen g = g\<lparr>pipes := filter on_screen (pipes g)\<rparr>"

text \<open>The pipes are in the order of their \<open>x\<close> coordinates, without repetition.\<close>

definition x_sorted :: "pipe list \<Rightarrow> bool" where
  "x_sorted ps \<longleftrightarrow> sorted_wrt (\<lambda>p q. pipe_x p < pipe_x q) ps"

lemmas physics_defs [fb_defs] =
  bird_physics_def spawn_due_def spawn_pipes_def move_pipe_def newly_passed_def
  move_pipes_def on_screen_def remove_offscreen_def

section \<open>Specification of the scoring loop\<close>

text \<open>What one pass of the loop does to a single pipe, and whether it counts it.\<close>

definition counts :: "pyfloat \<Rightarrow> pipe \<Rightarrow> bool" where
  "counts bx p \<longleftrightarrow> newly_passed bx (move_pipe p)"

definition step_pipe :: "pyfloat \<Rightarrow> pipe \<Rightarrow> pipe" where
  "step_pipe bx p = (move_pipe p)\<lparr>pipe_passed := pipe_passed p \<or> counts bx p\<rparr>"

text \<open>A fall of \<open>k\<close> ticks with no flap in between.\<close>

definition fall :: "nat \<Rightarrow> game \<Rightarrow> game" where
  "fall k g = (bird_physics ^^ k) g"

section \<open>Lemmas: bird physics\<close>

lemma bird_physics_fields [simp]:
  "bird_vy (bird (bird_physics g)) = bird_vy (bird g) + GRAVITY"
  "bird_y (bird (bird_physics g)) = bird_y (bird g) + (bird_vy (bird g) + GRAVITY)"
  "bird_x (bird (bird_physics g)) = bird_x (bird g)"
  "bird_w (bird (bird_physics g)) = bird_w (bird g)"
  "bird_h (bird (bird_physics g)) = bird_h (bird g)"
  "pipes (bird_physics g) = pipes g"
  "score (bird_physics g) = score g"
  "running (bird_physics g) = running g"
  "game_over (bird_physics g) = game_over g"
  "last_spawn (bird_physics g) = last_spawn g"
  by (simp_all add: bird_physics_def Let_def)

lemma fall_simps [simp]:
  "fall 0 g = g"
  "fall (Suc k) g = bird_physics (fall k g)"
  by (simp_all add: fall_def)

lemma fall_vy: "bird_vy (bird (fall k g)) = bird_vy (bird g) + of_nat k * GRAVITY"
  by (induction k) (simp_all add: algebra_simps)

lemma fall_y:
  "bird_y (bird (fall k g)) =
     bird_y (bird g) + of_nat k * bird_vy (bird g) + GRAVITY * of_nat (k * (k + 1)) / 2"
  by (induction k) (simp_all add: fall_vy field_simps)

lemma fall_frame [simp]:
  "bird_x (bird (fall k g)) = bird_x (bird g)"
  "bird_w (bird (fall k g)) = bird_w (bird g)"
  "bird_h (bird (fall k g)) = bird_h (bird g)"
  "pipes (fall k g) = pipes g"
  "score (fall k g) = score g"
  "running (fall k g) = running g"
  "game_over (fall k g) = game_over g"
  "last_spawn (fall k g) = last_spawn g"
  by (induction k) simp_all

section \<open>Lemmas: spawn timer\<close>

lemma spawn_pipes_not_due [simp]: "\<not> spawn_due env g \<Longrightarrow> spawn_pipes cfg env g = Inr g"
  by (simp add: spawn_pipes_def)

lemma spawn_pipes_Inr_iff:
  "spawn_pipes cfg env g = Inr g' \<longleftrightarrow>
     (if spawn_due env g
      then \<exists>t. randint top_min (top_max cfg) (entropy env) = Inr t \<and>
               g' = g\<lparr>pipes := pipes g @ [new_pipe cfg t], last_spawn := ticks_stamp env\<rparr>
      else g' = g)"
  by (auto simp: spawn_pipes_def and_then_eq_Inr_iff spawn_pipe_Inr_iff)

lemma spawn_pipes_Inl_iff:
  "spawn_pipes cfg env g = Inl e \<longleftrightarrow> spawn_due env g \<and> \<not> tall_enough cfg \<and> e = ValueError"
  by (auto simp: spawn_pipes_def and_then_eq_Inl_iff spawn_pipe_Inl_iff)

lemma spawn_pipes_total: "tall_enough cfg \<Longrightarrow> \<exists>g'. spawn_pipes cfg env g = Inr g'"
  by (cases "spawn_pipes cfg env g") (auto simp: spawn_pipes_Inl_iff)

lemma spawn_pipes_frame [fb_frame]:
  assumes "spawn_pipes cfg env g = Inr g'"
  shows "bird g' = bird g" "score g' = score g" "running g' = running g"
    "game_over g' = game_over g"
  using assms by (auto simp: spawn_pipes_Inr_iff split: if_splits)

section \<open>Lemmas: move and score\<close>

lemma move_pipe_fields [simp]:
  "pipe_x (move_pipe p) = pipe_x p - PIPE_SPEED"
  "pipe_top (move_pipe p) = pipe_top p"
  "pipe_passed (move_pipe p) = pipe_passed p"
  by (simp_all add: move_pipe_def)

lemma step_pipe_fields [simp]:
  "pipe_x (step_pipe bx p) = pipe_x p - PIPE_SPEED"
  "pipe_top (step_pipe bx p) = pipe_top p"
  "pipe_passed (step_pipe bx p) = (pipe_passed p \<or> counts bx p)"
  by (simp_all add: step_pipe_def)

lemma counts_iff:
  "counts bx p \<longleftrightarrow> \<not> pipe_passed p \<and> of_int (pipe_x p - PIPE_SPEED + PIPE_WIDTH) < bx"
  by (simp add: counts_def newly_passed_def)

lemma step_pipe_eq:
  "step_pipe bx p =
     (if counts bx p then (move_pipe p)\<lparr>pipe_passed := True\<rparr> else move_pipe p)"
  by (simp add: step_pipe_def move_pipe_def counts_iff)

lemma move_and_score_eq:
  "move_and_score bx ps sc =
     (map (step_pipe bx) ps, sc + int (length (filter (counts bx) ps)))"
  by (induction ps arbitrary: sc) (simp_all add: step_pipe_eq Let_def counts_def)

lemma move_pipes_fields [simp]:
  "pipes (move_pipes g) = map (step_pipe (bird_x (bird g))) (pipes g)"
  "score (move_pipes g) = score g + int (length (filter (counts (bird_x (bird g))) (pipes g)))"
  "bird (move_pipes g) = bird g"
  "running (move_pipes g) = running g"
  "game_over (move_pipes g) = game_over g"
  "last_spawn (move_pipes g) = last_spawn g"
  by (simp_all add: move_pipes_def move_and_score_eq)

section \<open>Lemmas: removal\<close>

lemma remove_offscreen_fields [simp]:
  "pipes (remove_offscreen g) = filter on_screen (pipes g)"
  "score (remove_offscreen g) = score g"
  "bird (remove_offscreen g) = bird g"
  "running (remove_offscreen g) = running g"
  "game_over (remove_offscreen g) = game_over g"
  "last_spawn (remove_offscreen g) = last_spawn g"
  by (simp_all add: remove_offscreen_def)

lemma passed_stays: "pipe_passed p \<Longrightarrow> pipe_passed (step_pipe bx p) \<and> \<not> counts bx p"
  by (simp add: counts_iff)

section \<open>Properties of physics and scoring\<close>

text \<open>C8. Free fall. After \<open>k\<close> ticks of bird physics with no flap in between, the
  velocity has grown by \<open>k\<close> times \<open>GRAVITY = 0.45\<close> and the position by
  \<open>k\<close> times the old velocity plus \<open>0.45 \<times> k (k + 1) / 2\<close>: each tick adds
  gravity to the velocity first and then the new velocity to the position.\<close>

theorem fall_closed_form:
  "bird_vy (bird (fall k g)) = bird_vy (bird g) + of_nat k * (9 / 20) \<and>
   bird_y (bird (fall k g)) =
     bird_y (bird g) + of_nat k * bird_vy (bird g) + (9 / 40) * of_nat (k * (k + 1))"
  by (simp add: fall_vy fall_y GRAVITY_def)

theorem fall_closed_form_witness:
  "bird_vy (bird (fall 20 ((initial_game demo_cfg)
       \<lparr>bird := (bird (initial_game demo_cfg))\<lparr>bird_vy := - 9\<rparr>\<rparr>))) = 0 \<and>
   bird_y (bird (fall 20 ((initial_game demo_cfg)
       \<lparr>bird := (bird (initial_game demo_cfg))\<lparr>bird_vy := - 9\<rparr>\<rparr>))) = 629 / 2"
  using fall_closed_form [of 20
      "(initial_game demo_cfg)\<lparr>bird := (bird (initial_game demo_cfg))\<lparr>bird_vy := - 9\<rparr>\<rparr>"]
  by simp

text \<open>C31. The move-and-score loop is a map and a count: every pipe moves left by
  \<open>PIPE_SPEED\<close>, a pipe is flagged when it was not flagged and its right edge is now
  left of the bird, and the score grows by the number of pipes flagged in this pass, so it
  never decreases and grows by at most the number of pipes.\<close>

theorem move_pipes_spec:
  "move_pipes g =
     g\<lparr>pipes := map (step_pipe (bird_x (bird g))) (pipes g),
       score := score g + int (length (filter (counts (bird_x (bird g))) (pipes g)))\<rparr> \<and>
   score g \<le> score (move_pipes g) \<and> score (move_pipes g) \<le> score g + int (length (pipes g))"
  by (simp add: move_pipes_def move_and_score_eq)

theorem move_pipes_spec_witness:
  "move_pipes ((initial_game demo_cfg)
     \<lparr>pipes := [\<lparr>pipe_x = 10, pipe_top = 100, pipe_passed = True\<rparr>,
                \<lparr>pipe_x = 19, pipe_top = 60, pipe_passed = False\<rparr>,
                \<lparr>pipe_x = 250, pipe_top = 300, pipe_passed = False\<rparr>], score := 4\<rparr>) =
   (initial_game demo_cfg)
     \<lparr>pipes := [\<lparr>pipe_x = 7, pipe_top = 100, pipe_passed = True\<rparr>,
                \<lparr>pipe_x = 16, pipe_top = 60, pipe_passed = True\<rparr>,
                \<lparr>pipe_x = 247, pipe_top = 300, pipe_passed = False\<rparr>], score := 5\<rparr>"
  using move_pipes_spec [of "(initial_game demo_cfg)
     \<lparr>pipes := [\<lparr>pipe_x = 10, pipe_top = 100, pipe_passed = True\<rparr>,
                \<lparr>pipe_x = 19, pipe_top = 60, pipe_passed = False\<rparr>,
                \<lparr>pipe_x = 250, pipe_top = 300, pipe_passed = False\<rparr>], score := 4\<rparr>"]
  by (simp add: step_pipe_def counts_iff move_pipe_def PIPE_SPEED_def PIPE_WIDTH_def)

text \<open>A pipe is counted at most once: a pipe that the loop counts comes out flagged,
  and a flagged pipe is not counted again, wherever the bird is.\<close>

theorem counted_once:
  "counts bx p \<longrightarrow> pipe_passed (step_pipe bx p) \<and> \<not> counts bx' (step_pipe bx p)"
  by (simp add: counts_iff)

theorem counted_once_witness:
  "counts (432 / 5) \<lparr>pipe_x = 19, pipe_top = 60, pipe_passed = False\<rparr> \<and>
   pipe_passed (step_pipe (432 / 5) \<lparr>pipe_x = 19, pipe_top = 60, pipe_passed = False\<rparr>) \<and>
   \<not> counts (432 / 5) (step_pipe (432 / 5) \<lparr>pipe_x = 19, pipe_top = 60, pipe_passed = False\<rparr>)"
  using counted_once [of "432 / 5" "\<lparr>pipe_x = 19, pipe_top = 60, pipe_passed = False\<rparr>" "432 / 5"]
  by (simp add: counts_iff PIPE_SPEED_def PIPE_WIDTH_def)



end
