(* ===== verification/FB_Collision.thy ===== *)
theory FB_Collision
  imports FB_Geometry FB_Spawner
begin

text \<open>
  The collision block of the game logic of \<open>src/flappybird.py\<close>: the ground test on
  the bird's float position, the bird's rectangle, the two rectangles of each pipe, and
  the loop that ends the game when the bird's rectangle overlaps one of them. The lemmas
  reduce the loop to one condition and state when a pipe can and cannot be hit.
\<close>

section \<open>Ground\<close>

definition crash :: "game \<Rightarrow> game" where
  "crash g = g\<lparr>game_over := True, running := False\<rparr>"

definition hits_ground :: "config \<Rightarrow> game \<Rightarrow> bool" where
  "hits_ground cfg g \<longleftrightarrow>
     bird_y (bird g) + of_int (bird_h (bird g)) > of_int (HEIGHT cfg - GROUND)"

definition ground_check :: "config \<Rightarrow> game \<Rightarrow> game" where
  "ground_check cfg g = (if hits_ground cfg g then crash g else g)"

section \<open>Pipes\<close>

definition brect :: "game \<Rightarrow> rect" where
  "brect g =
     Rect (bird_x (bird g)) (bird_y (bird g)) (of_int (bird_w (bird g))) (of_int (bird_h (bird g)))"

definition top_rect :: "pipe \<Rightarrow> rect" where
  "top_rect p = Rect (of_int (pipe_x p)) 0 (of_int PIPE_WIDTH) (of_int (pipe_top p))"

definition bottom_rect :: "config \<Rightarrow> pipe \<Rightarrow> rect" where
  "bottom_rect cfg p =
     Rect (of_int (pipe_x p)) (of_int (pipe_top p + PIPE_GAP)) (of_int PIPE_WIDTH)
       (of_int (HEIGHT cfg - GROUND - (pipe_top p + PIPE_GAP)))"

definition pipe_hit :: "config \<Rightarrow> rect \<Rightarrow> pipe \<Rightarrow> bool" where
  "pipe_hit cfg br p \<longleftrightarrow> rect_overlap br (top_rect p) \<or> rect_overlap br (bottom_rect cfg p)"

fun collide_pipes :: "config \<Rightarrow> rect \<Rightarrow> pipe list \<Rightarrow> game \<Rightarrow> game" where
  "collide_pipes cfg br [] g = g"
| "collide_pipes cfg br (p # ps) g =
     collide_pipes cfg br ps (if pipe_hit cfg br p then crash g else g)"

definition pipe_check :: "config \<Rightarrow> game \<Rightarrow> game" where
  "pipe_check cfg g = collide_pipes cfg (brect g) (pipes g) g"

definition collision :: "config \<Rightarrow> game \<Rightarrow> game" where
  "collision cfg g = pipe_check cfg (ground_check cfg g)"

lemmas collision_defs [fb_defs] =
  crash_def hits_ground_def ground_check_def brect_def top_rect_def bottom_rect_def
  pipe_hit_def pipe_check_def collision_def

section \<open>Specification\<close>

text \<open>The bird hits something: the ground, or a pipe of the list.\<close>

definition hits_pipe :: "config \<Rightarrow> game \<Rightarrow> bool" where
  "hits_pipe cfg g \<longleftrightarrow> list_ex (pipe_hit cfg (brect g)) (pipes g)"

text \<open>
  The bird's rectangle is in a pipe's column when the two share an \<open>x\<close> coordinate,
  and inside its gap when it lies strictly between the two segments.
\<close>

definition in_column :: "rect \<Rightarrow> pipe \<Rightarrow> bool" where
  "in_column br p \<longleftrightarrow> pipe_x p \<le> rect_right br \<and> rect_left br \<le> pipe_x p + PIPE_WIDTH"

definition in_gap :: "rect \<Rightarrow> pipe \<Rightarrow> bool" where
  "in_gap br p \<longleftrightarrow> pipe_top p < rect_top br \<and> rect_bottom br < pipe_top p + PIPE_GAP"

section \<open>Lemmas\<close>

lemma crash_fields [simp]:
  "game_over (crash g) = True"
  "running (crash g) = False"
  "bird (crash g) = bird g"
  "pipes (crash g) = pipes g"
  "score (crash g) = score g"
  "last_spawn (crash g) = last_spawn g"
  by (simp_all add: crash_def)

lemma crash_idem [simp]: "crash (crash g) = crash g"
  by (simp add: crash_def)

lemma phase_of_crash [simp]: "phase_of (crash g) = GameOver"
  by (simp add: phase_of_def)

lemma brect_crash [simp]: "brect (crash g) = brect g"
  by (simp add: brect_def)

lemma brect_edges [simp]:
  "rect_left (brect g) = py_int (bird_x (bird g))"
  "rect_top (brect g) = py_int (bird_y (bird g))"
  "rect_right (brect g) = py_int (bird_x (bird g)) + bird_w (bird g)"
  "rect_bottom (brect g) = py_int (bird_y (bird g)) + bird_h (bird g)"
  by (simp_all add: brect_def)

lemma top_rect_edges [simp]:
  "rect_left (top_rect p) = pipe_x p"
  "rect_top (top_rect p) = 0"
  "rect_right (top_rect p) = pipe_x p + PIPE_WIDTH"
  "rect_bottom (top_rect p) = pipe_top p"
  by (simp_all add: top_rect_def)

lemma bottom_rect_edges [simp]:
  "rect_left (bottom_rect cfg p) = pipe_x p"
  "rect_top (bottom_rect cfg p) = pipe_top p + PIPE_GAP"
  "rect_right (bottom_rect cfg p) = pipe_x p + PIPE_WIDTH"
  "rect_bottom (bottom_rect cfg p) = HEIGHT cfg - GROUND"
  by (simp_all add: bottom_rect_def flip: of_int_add of_int_diff)

lemma pipe_rect_sizes [simp]:
  "rect_width (top_rect p) = PIPE_WIDTH"
  "rect_height (top_rect p) = pipe_top p"
  "rect_width (bottom_rect cfg p) = PIPE_WIDTH"
  "rect_height (bottom_rect cfg p) = bottom_h cfg p"
  by (simp_all add: top_rect_def bottom_rect_def bottom_h_def bottom_y_def
      flip: of_int_add of_int_diff)

lemma pipe_rects_proper:
  "top_in_range cfg p \<Longrightarrow> proper (top_rect p) \<and> proper (bottom_rect cfg p)"
  by (simp add: proper_def top_in_range_segments PIPE_WIDTH_def)

lemma pipe_hit_iff:
  "pipe_hit cfg br p \<longleftrightarrow>
     in_column br p \<and>
     (0 \<le> rect_bottom br \<and> rect_top br \<le> pipe_top p \<or>
      pipe_top p + PIPE_GAP \<le> rect_bottom br \<and> rect_top br \<le> HEIGHT cfg - GROUND)"
  by (auto simp: pipe_hit_def rect_overlap_iff in_column_def)

lemma collide_pipes_eq:
  "collide_pipes cfg br ps g = (if list_ex (pipe_hit cfg br) ps then crash g else g)"
proof (induction ps arbitrary: g)
  case Nil
  show ?case by simp
next
  case (Cons p ps)
  then show ?case by (cases "pipe_hit cfg br p") simp_all
qed

lemma pipe_check_eq: "pipe_check cfg g = (if hits_pipe cfg g then crash g else g)"
  by (simp add: pipe_check_def hits_pipe_def collide_pipes_eq)

lemma hits_pipe_crash [simp]: "hits_pipe cfg (crash g) = hits_pipe cfg g"
  by (simp add: hits_pipe_def)

lemma collision_eq:
  "collision cfg g = (if hits_ground cfg g \<or> hits_pipe cfg g then crash g else g)"
  by (simp add: collision_def ground_check_def pipe_check_eq)

lemma collision_frame [simp]:
  "bird (collision cfg g) = bird g"
  "pipes (collision cfg g) = pipes g"
  "score (collision cfg g) = score g"
  "last_spawn (collision cfg g) = last_spawn g"
  by (simp_all add: collision_eq)

lemma in_gap_no_hit: "in_gap br p \<Longrightarrow> \<not> pipe_hit cfg br p"
  by (auto simp: pipe_hit_iff in_gap_def)

lemma above_window_no_pipe_hit:
  assumes "rect_bottom br < 0" and "0 \<le> pipe_top p + PIPE_GAP"
  shows "\<not> pipe_hit cfg br p"
  using assms by (auto simp: pipe_hit_iff)

section \<open>Properties of the collision check\<close>

text \<open>C22. For a bird whose rectangle shares a column with a pipe and lies within the
  playfield (its bottom edge not above the window, its top edge not below the ground
  line), the bird hits the pipe exactly when it is not strictly inside the gap. Touching
  a segment counts as a hit.\<close>

theorem pipe_hit_in_playfield:
  assumes "in_column br p" and "0 \<le> rect_bottom br" and "rect_top br \<le> HEIGHT cfg - GROUND"
  shows "pipe_hit cfg br p \<longleftrightarrow> \<not> in_gap br p"
  using assms by (auto simp: pipe_hit_iff in_gap_def)

theorem pipe_hit_in_playfield_witness:
  "pipe_hit demo_cfg (Rect 86 200 34 24) \<lparr>pipe_x = 100, pipe_top = 200, pipe_passed = False\<rparr> \<and>
   \<not> in_gap (Rect 86 200 34 24) \<lparr>pipe_x = 100, pipe_top = 200, pipe_passed = False\<rparr>"
  using pipe_hit_in_playfield [of "Rect 86 200 34 24"
      "\<lparr>pipe_x = 100, pipe_top = 200, pipe_passed = False\<rparr>" demo_cfg]
  by (simp add: in_column_def in_gap_def PIPE_WIDTH_def GROUND_def)

text \<open>C38. The ground test is strict, where the specification says that the game ends
  when the bird's bottom edge reaches the ground band: a bird whose bottom edge is
  exactly on the top of the ground band has not hit the ground.\<close>

theorem ground_test_is_strict:
  assumes "bird_y (bird g) + of_int (bird_h (bird g)) = of_int (HEIGHT cfg - GROUND)"
  shows "\<not> hits_ground cfg g"
  using assms by (simp add: hits_ground_def)

theorem ground_test_is_strict_witness:
  "\<not> hits_ground demo_cfg
      ((initial_game demo_cfg)\<lparr>bird := (bird (initial_game demo_cfg))\<lparr>bird_y := 696\<rparr>\<rparr>)"
  using ground_test_is_strict [of
      "(initial_game demo_cfg)\<lparr>bird := (bird (initial_game demo_cfg))\<lparr>bird_y := 696\<rparr>\<rparr>" demo_cfg]
  by (simp add: GROUND_def)

text \<open>C39. The bird's rectangle is built from truncated coordinates, so a bird whose top
  edge is below a top segment by less than one pixel, strictly inside the gap in float
  coordinates, still hits that segment when it is in the pipe's column.\<close>

theorem truncation_closes_gap:
  assumes "in_column (brect g) p" and "0 \<le> pipe_top p" and "0 \<le> bird_h (bird g)"
    and "of_int (pipe_top p) < bird_y (bird g)" and "bird_y (bird g) < of_int (pipe_top p) + 1"
  shows "pipe_hit cfg (brect g) p"
proof -
  from assms(2,4,5) have "py_int (bird_y (bird g)) = pipe_top p"
    by (simp add: py_int_def floor_unique)
  with assms(1,2,3) show ?thesis by (simp add: pipe_hit_iff)
qed

theorem truncation_closes_gap_witness:
  "pipe_hit demo_cfg
     (brect ((initial_game demo_cfg)\<lparr>bird := (bird (initial_game demo_cfg))\<lparr>bird_y := 401 / 2\<rparr>\<rparr>))
     \<lparr>pipe_x = 100, pipe_top = 200, pipe_passed = False\<rparr>"
  using truncation_closes_gap [of
      "(initial_game demo_cfg)\<lparr>bird := (bird (initial_game demo_cfg))\<lparr>bird_y := 401 / 2\<rparr>\<rparr>"
      "\<lparr>pipe_x = 100, pipe_top = 200, pipe_passed = False\<rparr>" demo_cfg]
  by (simp add: in_column_def PIPE_WIDTH_def)

end
