(* ===== verification/FB_Loop.thy ===== *)
theory FB_Loop
  imports FB_Input FB_Physics FB_Collision
begin

text \<open>
  The main loop of \<open>src/flappybird.py\<close> without its drawing: the game logic that runs
  while the game is running (physics, spawn timer, move and score, removal, collision, in
  the order of the code), one frame (events, then logic), the start-up call of
  \<open>reset()\<close>, and the loop itself as a run over the environments of its frames. The
  lemmas establish the invariant that the frames keep, from which the properties of the
  state machine, of the pipe queue and of the score follow.
\<close>

section \<open>Definitions\<close>

definition game_logic :: "config \<Rightarrow> frame_env \<Rightarrow> game \<Rightarrow> game result" where
  "game_logic cfg env g =
     (if running g \<and> \<not> game_over g
      then and_then (spawn_pipes cfg env (bird_physics g))
             (\<lambda>g1. Inr (collision cfg (remove_offscreen (move_pipes g1))))
      else Inr g)"

definition frame :: "config \<Rightarrow> frame_env \<Rightarrow> game \<Rightarrow> game result" where
  "frame cfg env g = and_then (handle_events cfg (events env) g) (game_logic cfg env)"

definition boot :: "config \<Rightarrow> int \<Rightarrow> game" where
  "boot cfg ticks = reset cfg ticks (initial_game cfg)"

text \<open>
  \<open>while True\<close> has no exit of its own. A run is the loop on a finite prefix of its
  environments: \<open>Inr\<close> the state after the last of them, or \<open>Inl\<close> how the program
  stopped before.
\<close>

definition run :: "config \<Rightarrow> frame_env list \<Rightarrow> game \<Rightarrow> game result" where
  "run cfg = for_each (frame cfg)"

lemmas loop_defs [fb_defs] = game_logic_def frame_def boot_def run_def

section \<open>Reachable states\<close>

inductive reachable :: "config \<Rightarrow> game \<Rightarrow> bool" for cfg :: config where
  reach_boot: "reachable cfg (boot cfg ticks)"
| reach_frame: "reachable cfg g \<Longrightarrow> frame cfg env g = Inr g' \<Longrightarrow> reachable cfg g'"

section \<open>The invariant\<close>

text \<open>
  A pipe is well formed for a bird at \<open>bx\<close> and a right bound \<open>hi\<close>: its gap offset is
  in the spawner's range, it is not right of \<open>hi\<close>, and its flag says whether its right
  edge is left of the bird.
\<close>

definition pipe_ok :: "config \<Rightarrow> pyfloat \<Rightarrow> int \<Rightarrow> pipe \<Rightarrow> bool" where
  "pipe_ok cfg bx hi p \<longleftrightarrow>
     top_in_range cfg p \<and> pipe_x p \<le> hi \<and>
     (pipe_passed p \<longleftrightarrow> of_int (pipe_x p + PIPE_WIDTH) < bx)"

definition pipes_ok :: "config \<Rightarrow> pyfloat \<Rightarrow> int \<Rightarrow> pipe list \<Rightarrow> bool" where
  "pipes_ok cfg bx hi ps \<longleftrightarrow> list_all (pipe_ok cfg bx hi) ps \<and> x_sorted ps"

definition bird_ok :: "config \<Rightarrow> bird \<Rightarrow> bool" where
  "bird_ok cfg b \<longleftrightarrow>
     bird_x b = start_x cfg \<and> bird_w b = BIRD_W cfg \<and>
     bird_h b = BIRD_H cfg \<and> of_int FLAP \<le> bird_vy b"

definition flags_ok :: "game \<Rightarrow> bool" where
  "flags_ok g \<longleftrightarrow> \<not> (running g \<and> game_over g)"

definition game_inv :: "config \<Rightarrow> game \<Rightarrow> bool" where
  "game_inv cfg g \<longleftrightarrow>
     flags_ok g \<and> 0 \<le> score g \<and> bird_ok cfg (bird g) \<and>
     pipes_ok cfg (start_x cfg) (WIDTH cfg + 7) (pipes g) \<and>
     list_all on_screen (pipes g)"

lemmas inv_defs = game_inv_def flags_ok_def bird_ok_def pipes_ok_def pipe_ok_def x_sorted_def

section \<open>Abstract specification: the phase machine\<close>

text \<open>
  The state machine the loop implements, on phases alone. A single step of the program, one
  event or one pass of the game logic, either keeps the phase or takes one of three edges.
\<close>

inductive phase_step :: "phase \<Rightarrow> phase \<Rightarrow> bool" where
  stay: "phase_step p p"
| start: "phase_step Idle Running"
| die: "phase_step Running GameOver"
| restart: "phase_step GameOver Idle"

inductive_simps phase_step_simps [simp]:
  "phase_step Idle q" "phase_step Running q" "phase_step GameOver q"

text \<open>
  The same machine as functions: the phase after an event, or how the program stops, and
  the phase after a pass of the game logic in which the bird did or did not hit something.
\<close>

definition phase_on_event :: "phase \<Rightarrow> event \<Rightarrow> phase result" where
  "phase_on_event p e =
     (if is_quit e then Inl SysExit
      else if is_primary e then Inr (case p of GameOver \<Rightarrow> Idle | _ \<Rightarrow> Running)
      else Inr p)"

definition phase_on_tick :: "bool \<Rightarrow> phase \<Rightarrow> phase" where
  "phase_on_tick hit p = (if p = Running \<and> hit then GameOver else p)"

definition hits :: "config \<Rightarrow> game \<Rightarrow> bool" where
  "hits cfg g \<longleftrightarrow> hits_ground cfg g \<or> hits_pipe cfg g"

section \<open>Specification of the score\<close>

text \<open>
  The pipes of the list that the bird has not passed yet, and the score the player will
  have once it has passed them all.
\<close>

definition unpassed :: "pipe list \<Rightarrow> nat" where
  "unpassed ps = length (filter (\<lambda>p. \<not> pipe_passed p) ps)"

definition potential :: "game \<Rightarrow> int" where
  "potential g = score g + int (unpassed (pipes g))"

section \<open>Lemmas: pipes\<close>

lemma x_sorted_simps [simp]:
  "x_sorted []"
  "x_sorted (map (step_pipe bx) ps) = x_sorted ps"
  by (simp_all add: x_sorted_def sorted_wrt_map)

lemma x_sorted_filter: "x_sorted ps \<Longrightarrow> x_sorted (filter P ps)"
  by (simp add: x_sorted_def sorted_wrt_filter)

lemma x_sorted_snoc:
  "x_sorted (ps @ [p]) \<longleftrightarrow> x_sorted ps \<and> list_all (\<lambda>q. pipe_x q < pipe_x p) ps"
  by (auto simp: x_sorted_def sorted_wrt_append list_all_iff)

lemma pipe_ok_mono: "pipe_ok cfg bx hi p \<Longrightarrow> hi \<le> hi' \<Longrightarrow> pipe_ok cfg bx hi' p"
  by (auto simp: pipe_ok_def)

lemma pipe_ok_new:
  assumes "top_min \<le> t" and "t \<le> top_max cfg" and "0 \<le> WIDTH cfg"
  shows "pipe_ok cfg (start_x cfg) (WIDTH cfg + 10) (new_pipe cfg t)"
proof -
  have "start_x cfg \<le> (of_int (WIDTH cfg) :: rat)"
    using assms(3) by (simp add: start_x_bounds)
  also have "\<dots> \<le> of_int (WIDTH cfg + 10 + PIPE_WIDTH)"
    by (simp add: PIPE_WIDTH_def)
  finally show ?thesis
    using assms(1,2) by (simp add: pipe_ok_def top_in_range_def not_less)
qed

lemma pipe_ok_step:
  "pipe_ok cfg bx (hi + PIPE_SPEED) p \<Longrightarrow> pipe_ok cfg bx hi (step_pipe bx p)"
  unfolding pipe_ok_def top_in_range_def
  by (simp add: counts_iff PIPE_SPEED_def PIPE_WIDTH_def) linarith

lemma pipes_ok_Nil [simp]: "pipes_ok cfg bx hi []"
  by (simp add: pipes_ok_def)

lemma pipes_ok_step:
  "pipes_ok cfg bx (hi + PIPE_SPEED) ps \<Longrightarrow> pipes_ok cfg bx hi (map (step_pipe bx) ps)"
  by (simp add: pipes_ok_def list_all_iff pipe_ok_step)

lemma pipes_ok_filter: "pipes_ok cfg bx hi ps \<Longrightarrow> pipes_ok cfg bx hi (filter P ps)"
  by (simp add: pipes_ok_def list_all_iff x_sorted_filter)

lemma pipes_ok_spawn:
  assumes ok: "pipes_ok cfg bx (WIDTH cfg + 7) ps" and bx: "bx = start_x cfg"
    and t: "top_min \<le> t" "t \<le> top_max cfg" and w: "0 \<le> WIDTH cfg"
  shows "pipes_ok cfg bx (WIDTH cfg + 10) (ps @ [new_pipe cfg t])"
proof -
  from ok have old: "\<forall>p \<in> set ps. pipe_ok cfg bx (WIDTH cfg + 7) p" and srt: "x_sorted ps"
    by (simp_all add: pipes_ok_def list_all_iff)
  from old have "\<forall>p \<in> set ps. pipe_ok cfg bx (WIDTH cfg + 10) p"
    by (fastforce simp: pipe_ok_def)
  moreover from old have "\<forall>p \<in> set ps. pipe_x p < pipe_x (new_pipe cfg t)"
    by (fastforce simp: pipe_ok_def)
  moreover have "pipe_ok cfg bx (WIDTH cfg + 10) (new_pipe cfg t)"
    using t w unfolding bx by (rule pipe_ok_new)
  ultimately show ?thesis
    using srt by (simp add: pipes_ok_def x_sorted_snoc list_all_iff)
qed

lemma pipes_ok_mono:
  "pipes_ok cfg bx hi ps \<Longrightarrow> hi \<le> hi' \<Longrightarrow> pipes_ok cfg bx hi' ps"
  by (fastforce simp: pipes_ok_def list_all_iff pipe_ok_def)

section \<open>Lemmas: the logic step\<close>

lemma game_logic_frozen [simp]:
  "\<not> running g \<or> game_over g \<Longrightarrow> game_logic cfg env g = Inr g"
  by (auto simp: game_logic_def)

lemma game_logic_running:
  "running g \<Longrightarrow> \<not> game_over g \<Longrightarrow>
   game_logic cfg env g =
     and_then (spawn_pipes cfg env (bird_physics g))
       (\<lambda>g1. Inr (collision cfg (remove_offscreen (move_pipes g1))))"
  by (simp add: game_logic_def)

lemma game_logic_Inr_iff:
  "game_logic cfg env g = Inr g' \<longleftrightarrow>
     (if running g \<and> \<not> game_over g
      then \<exists>g1. spawn_pipes cfg env (bird_physics g) = Inr g1 \<and>
                g' = collision cfg (remove_offscreen (move_pipes g1))
      else g' = g)"
  by (auto simp: game_logic_def and_then_eq_Inr_iff)

lemma game_logic_Inl_iff:
  "game_logic cfg env g = Inl e \<longleftrightarrow>
     running g \<and> \<not> game_over g \<and> spawn_due env g \<and> \<not> tall_enough cfg \<and> e = ValueError"
  by (auto simp: game_logic_def and_then_eq_Inl_iff spawn_pipes_Inl_iff spawn_due_def)

lemma game_logic_total: "tall_enough cfg \<Longrightarrow> \<exists>g'. game_logic cfg env g = Inr g'"
  by (cases "game_logic cfg env g") (auto simp: game_logic_Inl_iff)

lemma game_logic_bird:
  assumes "game_logic cfg env g = Inr g'" and "running g" and "\<not> game_over g"
  shows "bird g' = bird (bird_physics g)"
  using assms by (auto simp: game_logic_Inr_iff spawn_pipes_frame)

section \<open>Lemmas: frames and runs\<close>

lemma frame_Inr_iff:
  "frame cfg env g = Inr g' \<longleftrightarrow>
     (\<exists>g1. handle_events cfg (events env) g = Inr g1 \<and> game_logic cfg env g1 = Inr g')"
  by (simp add: frame_def and_then_eq_Inr_iff)

lemma run_Nil [simp]: "run cfg [] g = Inr g"
  by (simp add: run_def)

lemma run_Cons [simp]: "run cfg (env # envs) g = and_then (frame cfg env g) (run cfg envs)"
  by (simp add: run_def)

lemma run_append: "run cfg (xs @ ys) g = and_then (run cfg xs g) (run cfg ys)"
  by (simp add: run_def for_each_append)

lemma run_snoc_Inr_iff:
  "run cfg (envs @ [env]) g = Inr g' \<longleftrightarrow>
     (\<exists>g1. run cfg envs g = Inr g1 \<and> frame cfg env g1 = Inr g')"
  by (simp add: run_append and_then_eq_Inr_iff)

lemma reachable_run:
  "reachable cfg g \<Longrightarrow> run cfg envs g = Inr g' \<Longrightarrow> reachable cfg g'"
  unfolding run_def
  by (rule for_each_invariant [where P = "reachable cfg" and body = "frame cfg"])
     (auto intro: reach_frame)

lemma reachable_iff_run:
  "reachable cfg g \<longleftrightarrow> (\<exists>ticks envs. run cfg envs (boot cfg ticks) = Inr g)"
proof
  assume "reachable cfg g"
  then show "\<exists>ticks envs. run cfg envs (boot cfg ticks) = Inr g"
  proof (induction rule: reachable.induct)
    case (reach_boot ticks)
    have "run cfg [] (boot cfg ticks) = Inr (boot cfg ticks)" by simp
    then show ?case by blast
  next
    case (reach_frame g env g')
    then obtain ticks envs where "run cfg envs (boot cfg ticks) = Inr g" by blast
    with reach_frame.hyps(2) have "run cfg (envs @ [env]) (boot cfg ticks) = Inr g'"
      by (auto simp: run_snoc_Inr_iff)
    then show ?case by blast
  qed
next
  assume "\<exists>ticks envs. run cfg envs (boot cfg ticks) = Inr g"
  then show "reachable cfg g"
    by (auto intro: reachable_run reach_boot)
qed

section \<open>Lemmas: every operation keeps the invariant\<close>

lemma game_inv_boot: "game_inv cfg (boot cfg t)"
  by (simp add: game_inv_def flags_ok_def bird_ok_def boot_def FLAP_def)

lemma game_inv_reset: "game_inv cfg g \<Longrightarrow> game_inv cfg (reset cfg t g)"
  by (simp add: game_inv_def flags_ok_def bird_ok_def FLAP_def)

lemma game_inv_flap: "game_inv cfg g \<Longrightarrow> \<not> game_over g \<Longrightarrow> game_inv cfg (flap g)"
  by (simp add: game_inv_def flags_ok_def bird_ok_def)

lemma game_inv_primary_action: "game_inv cfg g \<Longrightarrow> game_inv cfg (primary_action cfg t g)"
  by (cases "game_over g") (simp_all add: game_inv_reset game_inv_flap)

lemma game_inv_handle_event:
  "game_inv cfg g \<Longrightarrow> handle_event cfg et g = Inr g' \<Longrightarrow> game_inv cfg g'"
  by (cases et) (auto simp: handle_event_Inr_iff game_inv_primary_action split: if_splits)

lemma game_inv_handle_events:
  "game_inv cfg g \<Longrightarrow> handle_events cfg evs g = Inr g' \<Longrightarrow> game_inv cfg g'"
  unfolding handle_events_def
  by (rule for_each_invariant [where P = "game_inv cfg" and body = "handle_event cfg"])
     (auto intro: game_inv_handle_event)

lemma game_inv_crash: "game_inv cfg g \<Longrightarrow> game_inv cfg (crash g)"
  by (simp add: game_inv_def flags_ok_def)

lemma game_inv_collision: "game_inv cfg g \<Longrightarrow> game_inv cfg (collision cfg g)"
  by (simp add: collision_eq game_inv_crash)

lemma pipes_ok_spawn_pipes:
  assumes inv: "game_inv cfg g" and w: "0 \<le> WIDTH cfg"
    and sp: "spawn_pipes cfg env (bird_physics g) = Inr g1"
  shows "pipes_ok cfg (start_x cfg) (WIDTH cfg + 10) (pipes g1)"
proof (cases "spawn_due env (bird_physics g)")
  case False
  with sp have "pipes g1 = pipes g" by (auto simp: spawn_pipes_Inr_iff)
  with inv show ?thesis by (auto simp: game_inv_def intro: pipes_ok_mono)
next
  case True
  with sp obtain t where t: "randint top_min (top_max cfg) (entropy env) = Inr t"
    and ps: "pipes g1 = pipes g @ [new_pipe cfg t]"
    by (auto simp: spawn_pipes_Inr_iff)
  from inv have "pipes_ok cfg (start_x cfg) (WIDTH cfg + 7) (pipes g)"
    by (simp add: game_inv_def)
  then show ?thesis
    unfolding ps using randint_range [OF t] w by (intro pipes_ok_spawn) simp_all
qed

lemma game_inv_logic:
  assumes inv: "game_inv cfg g" and w: "0 \<le> WIDTH cfg"
    and step: "game_logic cfg env g = Inr g'"
  shows "game_inv cfg g'"
proof (cases "running g \<and> \<not> game_over g")
  case False
  with step inv show ?thesis by (auto simp: game_logic_Inr_iff)
next
  case True
  with step obtain g1 where sp: "spawn_pipes cfg env (bird_physics g) = Inr g1"
    and g': "g' = collision cfg (remove_offscreen (move_pipes g1))"
    by (auto simp: game_logic_Inr_iff)
  let ?m = "remove_offscreen (move_pipes g1)"
  from sp have fr: "bird g1 = bird (bird_physics g)" "score g1 = score g"
    "running g1 = running g" "game_over g1 = game_over g"
    by (simp_all add: spawn_pipes_frame)
  from inv have bx: "bird_x (bird g) = start_x cfg"
    by (simp add: game_inv_def bird_ok_def)
  have "pipes_ok cfg (start_x cfg) (WIDTH cfg + 10) (pipes g1)"
    using inv w sp by (rule pipes_ok_spawn_pipes)
  moreover have "WIDTH cfg + 10 = WIDTH cfg + 7 + PIPE_SPEED"
    by (simp add: PIPE_SPEED_def)
  ultimately have "pipes_ok cfg (start_x cfg) (WIDTH cfg + 7 + PIPE_SPEED) (pipes g1)"
    by (simp only:)
  then have "pipes_ok cfg (start_x cfg) (WIDTH cfg + 7)
      (filter on_screen (map (step_pipe (start_x cfg)) (pipes g1)))"
    by (intro pipes_ok_filter pipes_ok_step)
  then have "pipes_ok cfg (start_x cfg) (WIDTH cfg + 7) (pipes ?m)"
    by (simp add: fr bx)
  moreover from inv have "bird_ok cfg (bird ?m)"
    by (simp add: fr game_inv_def bird_ok_def GRAVITY_def)
  moreover from inv have "flags_ok ?m" and "0 \<le> score ?m"
    by (simp_all add: fr game_inv_def flags_ok_def)
  ultimately have "game_inv cfg ?m"
    by (simp add: game_inv_def list_all_iff)
  then show ?thesis unfolding g' by (rule game_inv_collision)
qed

lemma game_inv_frame:
  assumes "game_inv cfg g" and "0 \<le> WIDTH cfg" and "frame cfg env g = Inr g'"
  shows "game_inv cfg g'"
  using assms by (auto simp: frame_Inr_iff intro: game_inv_logic game_inv_handle_events)

section \<open>Lemmas: phases\<close>

lemma phase_of_primary_action:
  "phase_of (primary_action cfg t g) = (case phase_of g of GameOver \<Rightarrow> Idle | _ \<Rightarrow> Running)"
  by (cases "game_over g") (simp_all add: phase_of_def)

lemma hits_crash [simp]: "hits cfg (crash g) = hits cfg g"
  by (simp add: hits_def hits_ground_def)

lemma hits_collision [simp]: "hits cfg (collision cfg g) = hits cfg g"
  by (simp add: hits_def hits_ground_def hits_pipe_def brect_def)

lemma phase_of_collision:
  "running g \<Longrightarrow> \<not> game_over g \<Longrightarrow>
   phase_of (collision cfg g) = (if hits cfg g then GameOver else Running)"
  by (simp add: collision_eq hits_def)

lemma phase_of_handle_event:
  "map_sum id phase_of (handle_event cfg (e, t) g) = phase_on_event (phase_of g) e"
  by (simp add: handle_event_cases phase_of_primary_action phase_on_event_def)

lemma phase_of_game_logic:
  assumes "game_logic cfg env g = Inr g'"
  shows "phase_of g' = phase_on_tick (hits cfg g') (phase_of g)"
proof (cases "running g \<and> \<not> game_over g")
  case False
  with assms show ?thesis by (auto simp: phase_on_tick_def phase_of_eq_iff)
next
  case True
  with assms obtain g1 where sp: "spawn_pipes cfg env (bird_physics g) = Inr g1"
    and g': "g' = collision cfg (remove_offscreen (move_pipes g1))"
    by (auto simp: game_logic_Inr_iff)
  from sp True have "running (remove_offscreen (move_pipes g1))"
    and "\<not> game_over (remove_offscreen (move_pipes g1))"
    by (simp_all add: spawn_pipes_frame)
  with True show ?thesis
    by (simp add: g' phase_of_collision phase_on_tick_def)
qed

section \<open>Lemmas: stopping\<close>

lemma frame_Inl_iff:
  "frame cfg env g = Inl e \<longleftrightarrow>
     quits (events env) \<and> e = SysExit \<or>
     (\<exists>g1. handle_events cfg (events env) g = Inr g1 \<and> game_logic cfg env g1 = Inl e)"
  by (auto simp: frame_def and_then_eq_Inl_iff handle_events_Inl_iff)

lemma frame_tall_Inl_iff:
  "tall_enough cfg \<Longrightarrow> frame cfg env g = Inl e \<longleftrightarrow> quits (events env) \<and> e = SysExit"
  by (auto simp: frame_Inl_iff game_logic_Inl_iff)

lemma frame_total:
  assumes "tall_enough cfg" and "\<not> quits (events env)"
  shows "\<exists>g'. frame cfg env g = Inr g'"
  using assms(1) handle_events_total [OF assms(2), of cfg g] game_logic_total [of cfg env]
  by (auto simp: frame_Inr_iff)

text \<open>On a window at least 320 pixels high a run stops exactly at a \<open>QUIT\<close>.\<close>

lemma run_tall_Inl_iff:
  assumes "tall_enough cfg"
  shows "run cfg envs g = Inl e \<longleftrightarrow> list_ex (\<lambda>env. quits (events env)) envs \<and> e = SysExit"
proof (induction envs arbitrary: g)
  case Nil
  show ?case by simp
next
  case (Cons env envs)
  show ?case
  proof (cases "frame cfg env g")
    case (Inl h)
    with assms have "quits (events env)" and "h = SysExit"
      by (simp_all add: frame_tall_Inl_iff)
    with Inl show ?thesis by auto
  next
    case (Inr g1)
    with assms have "\<not> quits (events env)"
      using frame_tall_Inl_iff [of cfg env g SysExit] by auto
    with Inr show ?thesis by (simp add: Cons.IH)
  qed
qed

section \<open>Lemmas: score\<close>

lemma unpassed_simps [simp]:
  "unpassed [] = 0"
  "unpassed (p # ps) = (if pipe_passed p then 0 else 1) + unpassed ps"
  "unpassed (ps @ qs) = unpassed ps + unpassed qs"
  by (simp_all add: unpassed_def)

lemma unpassed_step:
  "unpassed (map (step_pipe bx) ps) + length (filter (counts bx) ps) = unpassed ps"
  by (induction ps) (auto simp: counts_iff)

lemma unpassed_filter:
  "list_all (\<lambda>p. \<not> P p \<longrightarrow> pipe_passed p) ps \<Longrightarrow> unpassed (filter P ps) = unpassed ps"
  by (induction ps) auto

lemma potential_move_pipes [simp]: "potential (move_pipes g) = potential g"
  using unpassed_step [of "bird_x (bird g)" "pipes g"] by (simp add: potential_def)

lemma potential_bird_physics [simp]: "potential (bird_physics g) = potential g"
  by (simp add: potential_def)

lemma potential_collision [simp]: "potential (collision cfg g) = potential g"
  by (simp add: potential_def)

lemma spawn_due_bird_physics [simp]: "spawn_due env (bird_physics g) = spawn_due env g"
  by (simp add: spawn_due_def)

lemma potential_spawn_pipes:
  "spawn_pipes cfg env g = Inr g' \<Longrightarrow>
   potential g' = potential g + (if spawn_due env g then 1 else 0)"
  by (auto simp: spawn_pipes_Inr_iff potential_def split: if_splits)

lemma offscreen_passed:
  assumes "pipe_ok cfg (start_x cfg) hi p" and "0 \<le> WIDTH cfg" and "\<not> on_screen p"
  shows "pipe_passed p"
proof -
  from assms(3) have "of_int (pipe_x p + PIPE_WIDTH) < (0 :: rat)"
    by (simp add: on_screen_def PIPE_WIDTH_def)
  also from assms(2) have "0 \<le> start_x cfg" by (simp add: start_x_bounds)
  finally show ?thesis using assms(1) by (simp add: pipe_ok_def)
qed

text \<open>The sum of the score and the pipes ahead, after the pipes have moved.\<close>

lemma potential_after_spawn:
  assumes inv: "game_inv cfg g" and w: "0 \<le> WIDTH cfg"
    and sp: "spawn_pipes cfg env (bird_physics g) = Inr g1"
  shows "potential (remove_offscreen (move_pipes g1)) = potential g1"
proof -
  from inv have bx: "bird_x (bird g) = start_x cfg"
    by (simp add: game_inv_def bird_ok_def)
  from sp have b1: "bird g1 = bird (bird_physics g)" by (simp add: spawn_pipes_frame)
  have "pipes_ok cfg (start_x cfg) (WIDTH cfg + 10) (pipes g1)"
    using inv w sp by (rule pipes_ok_spawn_pipes)
  moreover have "WIDTH cfg + 10 = WIDTH cfg + 7 + PIPE_SPEED"
    by (simp add: PIPE_SPEED_def)
  ultimately have "pipes_ok cfg (start_x cfg) (WIDTH cfg + 7 + PIPE_SPEED) (pipes g1)"
    by (simp only:)
  then have "pipes_ok cfg (start_x cfg) (WIDTH cfg + 7) (map (step_pipe (start_x cfg)) (pipes g1))"
    by (rule pipes_ok_step)
  moreover define m where "m = move_pipes g1"
  ultimately have "pipes_ok cfg (start_x cfg) (WIDTH cfg + 7) (pipes m)"
    by (simp add: b1 bx)
  then have "list_all (\<lambda>p. \<not> on_screen p \<longrightarrow> pipe_passed p) (pipes m)"
    using w by (auto simp: pipes_ok_def list_all_iff intro: offscreen_passed)
  then have "potential (remove_offscreen m) = potential m"
    by (simp add: potential_def unpassed_filter)
  then show ?thesis by (simp add: m_def)
qed


lemma run_game_inv:
  assumes "game_inv cfg g" and "0 \<le> WIDTH cfg" and "run cfg envs g = Inr g'"
  shows "game_inv cfg g'"
  using assms(1,3) unfolding run_def
  by (rule for_each_invariant [where P = "game_inv cfg" and body = "frame cfg", rotated])
     (rule game_inv_frame [OF _ assms(2)])

lemma reset_is_boot:
  assumes "game_inv cfg g"
  shows "reset cfg t g = boot cfg t"
proof -
  from assms have "bird_x (bird g) = start_x cfg" "bird_w (bird g) = BIRD_W cfg"
    "bird_h (bird g) = BIRD_H cfg"
    by (simp_all add: game_inv_def bird_ok_def)
  then show ?thesis
    by (simp add: reset_def boot_def initial_game_def)
qed

lemma frame_idle:
  assumes "phase_of g \<noteq> Running" and "\<not> quits (events env)" and "\<not> any_primary (events env)"
  shows "frame cfg env g = Inr g"
  using assms by (simp add: frame_def handle_events_no_primary phase_of_eq_iff)

section \<open>Lemmas: the example state\<close>

lemma frame_demo_game: "frame demo_cfg spawn_env (boot demo_cfg 0) = Inr demo_game"
  by (simp add: fb_defs randint_def Let_def)

lemma game_inv_demo_game: "game_inv demo_cfg demo_game"
  by (rule game_inv_frame [OF game_inv_boot _ frame_demo_game]) simp

lemma reachable_demo_game: "reachable demo_cfg demo_game"
  by (rule reach_frame [OF reach_boot frame_demo_game])

section \<open>Properties of the loop\<close>

text \<open>C1. Every state the loop can reach from start-up satisfies the invariant: the flags
  \<open>running\<close> and \<open>game_over\<close> are never both set, the score is not negative, the
  bird keeps its start-up \<open>x\<close> and size and never rises faster than a flap, and the
  pipes are in spawn order with strictly increasing \<open>x\<close>, on screen, with a gap offset
  of the spawner's range and a \<open>passed\<close> flag that tells whether the bird is past
  their right edge.\<close>

theorem reachable_game_inv:
  assumes "reachable cfg g" and "0 \<le> WIDTH cfg"
  shows "game_inv cfg g"
  using assms
proof (induction rule: reachable.induct)
  case (reach_boot ticks)
  show ?case by (rule game_inv_boot)
next
  case (reach_frame g env g')
  then show ?case by (blast intro: game_inv_frame)
qed

theorem reachable_game_inv_witness:
  "\<exists>g. frame demo_cfg tap_env (boot demo_cfg 0) = Inr g \<and> reachable demo_cfg g \<and>
       0 \<le> WIDTH demo_cfg \<and> game_inv demo_cfg g"
proof -
  obtain g where g: "frame demo_cfg tap_env (boot demo_cfg 0) = Inr g"
    using frame_total [of demo_cfg tap_env "boot demo_cfg 0"] by (auto simp: tall_enough_def)
  then have r: "reachable demo_cfg g"
    by (rule reach_frame [OF reach_boot])
  have "game_inv demo_cfg g"
    using reachable_game_inv [OF r] by simp
  with g r show ?thesis by simp
qed

text \<open>C2. A pass of the game logic in the Running phase ends the game exactly when the
  bird, after it has moved, is lower than the top of the ground band or its rectangle
  overlaps a segment of a pipe still in the list; otherwise the game stays Running. In
  both cases the flags stay consistent.\<close>

theorem game_logic_outcome:
  assumes "phase_of g = Running" and "game_logic cfg env g = Inr g'"
  shows "game_over g' = hits cfg g' \<and> running g' = (\<not> hits cfg g') \<and>
         phase_of g' = (if hits cfg g' then GameOver else Running)"
proof -
  from assms obtain g1 where sp: "spawn_pipes cfg env (bird_physics g) = Inr g1"
    and g': "g' = collision cfg (remove_offscreen (move_pipes g1))"
    by (auto simp: game_logic_Inr_iff phase_of_eq_iff)
  from sp assms(1) have "running (remove_offscreen (move_pipes g1))"
    and "\<not> game_over (remove_offscreen (move_pipes g1))"
    by (simp_all add: spawn_pipes_frame phase_of_eq_iff)
  then show ?thesis
    unfolding g' by (simp add: collision_eq hits_def [symmetric])
qed

theorem game_logic_outcome_witness:
  "phase_of (flap (boot demo_cfg 0)) = Running \<and>
   (\<exists>g'. game_logic demo_cfg tap_env (flap (boot demo_cfg 0)) = Inr g' \<and>
         game_over g' = hits demo_cfg g' \<and> running g' = (\<not> hits demo_cfg g') \<and>
         phase_of g' = (if hits demo_cfg g' then GameOver else Running))"
proof -
  have p: "phase_of (flap (boot demo_cfg 0)) = Running"
    by (simp add: boot_def)
  obtain g' where g': "game_logic demo_cfg tap_env (flap (boot demo_cfg 0)) = Inr g'"
    using game_logic_total [of demo_cfg] by (auto simp: tall_enough_def)
  from game_logic_outcome [OF p g'] p g' show ?thesis by blast
qed

text \<open>C3. Score and pipes are conserved together. In a reachable state, a pass of the game
  logic in the Running phase leaves the sum of the score and the number of pipes not yet
  passed unchanged, except that it grows by one when the pass spawns a pipe. So a pipe is
  counted once, when the bird passes it, and no pipe leaves the list uncounted.\<close>

theorem score_conservation:
  assumes inv: "game_inv cfg g" and w: "0 \<le> WIDTH cfg"
    and run: "running g" "\<not> game_over g"
    and step: "game_logic cfg env g = Inr g'"
  shows "potential g' = potential g + (if spawn_due env g then 1 else 0)"
proof -
  from step run obtain g1 where sp: "spawn_pipes cfg env (bird_physics g) = Inr g1"
    and g': "g' = collision cfg (remove_offscreen (move_pipes g1))"
    by (auto simp: game_logic_Inr_iff)
  from inv w sp have "potential g' = potential g1"
    unfolding g' by (simp add: potential_after_spawn)
  with potential_spawn_pipes [OF sp] show ?thesis by simp
qed

theorem score_conservation_witness:
  "\<exists>g'. game_logic demo_cfg (tap_env\<lparr>ticks_check := 2000\<rparr>) (flap (boot demo_cfg 0)) = Inr g' \<and>
        potential g' = 1"
proof -
  let ?g = "flap (boot demo_cfg 0)" and ?env = "tap_env\<lparr>ticks_check := 2000\<rparr>"
  have inv: "game_inv demo_cfg ?g"
    by (rule game_inv_flap [OF game_inv_boot]) (simp add: boot_def)
  obtain g' where g': "game_logic demo_cfg ?env ?g = Inr g'"
    using game_logic_total [of demo_cfg] by (auto simp: tall_enough_def)
  from score_conservation [OF inv _ _ _ g'] have "potential g' = 1"
    by (simp add: boot_def potential_def spawn_due_def)
  with g' show ?thesis by blast
qed

text \<open>C4. The event loop implements the phase machine. Handling a queue of events and
  then reading the phase gives what the abstract machine computes from the phase before:
  \<open>QUIT\<close> stops the program and leaves the rest of the queue unread, a click, a tap,
  SPACE or UP leads from GameOver to Idle and from Idle or Running to Running, and any
  other event changes nothing.\<close>

theorem handle_events_refines:
  "map_sum id phase_of (handle_events cfg evs g) =
     for_each (\<lambda>et p. phase_on_event p (fst et)) evs (phase_of g)"
proof (induction evs arbitrary: g)
  case Nil
  show ?case by simp
next
  case (Cons et evs)
  obtain e t where et: "et = (e, t)" by (cases et)
  show ?case
  proof (cases "handle_event cfg (e, t) g")
    case (Inl h)
    with phase_of_handle_event [of cfg e t g] have "phase_on_event (phase_of g) e = Inl h"
      by simp
    with Inl show ?thesis by (simp add: et)
  next
    case (Inr g1)
    with phase_of_handle_event [of cfg e t g]
    have "phase_on_event (phase_of g) e = Inr (phase_of g1)"
      by simp
    with Inr Cons.IH [of g1] show ?thesis by (simp add: et)
  qed
qed

theorem handle_events_refines_witness:
  "map_sum id phase_of
     (handle_events demo_cfg [(KEYDOWN K_UP, 5), (OTHER_EVENT 3, 6), (MOUSEBUTTONDOWN, 7)]
        (crash (boot demo_cfg 0))) = Inr Running"
  using handle_events_refines [of demo_cfg
      "[(KEYDOWN K_UP, 5), (OTHER_EVENT 3, 6), (MOUSEBUTTONDOWN, 7)]" "crash (boot demo_cfg 0)"]
  by (simp add: phase_on_event_def)

text \<open>C5. No step of the program takes an edge the state machine does not have: one
  event or one pass of the game logic never leads from Idle to GameOver, from Running to
  Idle, or from GameOver to Running.\<close>

theorem steps_are_phase_steps:
  "(handle_event cfg et g = Inr g' \<longrightarrow> phase_step (phase_of g) (phase_of g')) \<and>
   (game_logic cfg env g = Inr g' \<longrightarrow> phase_step (phase_of g) (phase_of g'))"
proof (intro conjI impI)
  assume "handle_event cfg et g = Inr g'"
  then show "phase_step (phase_of g) (phase_of g')"
    using phase_of_handle_event [of cfg "fst et" "snd et" g]
    by (cases "phase_of g") (auto simp: phase_on_event_def split: if_splits)
next
  assume "game_logic cfg env g = Inr g'"
  then show "phase_step (phase_of g) (phase_of g')"
    using phase_of_game_logic [of cfg env g g']
    by (cases "phase_of g") (auto simp: phase_on_tick_def)
qed

theorem steps_are_phase_steps_witness:
  "handle_event demo_cfg (MOUSEBUTTONDOWN, 0) (boot demo_cfg 0) = Inr (flap (boot demo_cfg 0)) \<and>
   phase_step Idle Running \<and> \<not> phase_step Idle GameOver"
  using steps_are_phase_steps [of demo_cfg "(MOUSEBUTTONDOWN, 0)" "boot demo_cfg 0"
      "flap (boot demo_cfg 0)"]
  by (simp add: boot_def)

text \<open>C7. The game logic raises in one situation only: the game is Running, the spawn
  timer has run out, and the window is lower than 320 pixels, so that \<open>spawn_pipe\<close>
  asks \<open>random.randint\<close> for a value of an empty range. The error is \<open>ValueError\<close>,
  nothing catches it, and the program ends.\<close>

theorem game_logic_raises_iff:
  "game_logic cfg env g = Inl e \<longleftrightarrow>
     phase_of g = Running \<and> spawn_due env g \<and> HEIGHT cfg < 320 \<and> e = ValueError"
  by (auto simp: game_logic_Inl_iff phase_of_eq_iff tall_enough_def)

theorem game_logic_raises_iff_witness:
  "frame (mk_config 480 300 (34, 24)) (tap_env\<lparr>ticks_check := 1501\<rparr>)
     (boot (mk_config 480 300 (34, 24)) 0) = Inl ValueError"
  using game_logic_raises_iff [of "mk_config 480 300 (34, 24)" "tap_env\<lparr>ticks_check := 1501\<rparr>"
      "flap (boot (mk_config 480 300 (34, 24)) 0)" ValueError]
  by (simp add: frame_def boot_def spawn_due_def)

text \<open>C21. Outside the Running phase nothing moves until the player acts: over any
  number of frames without a click, tap, SPACE, UP or \<open>QUIT\<close>, the state in Idle or
  GameOver stays exactly what it was, whatever the clock and the generator do.\<close>

theorem idle_run_frozen:
  assumes "phase_of g \<noteq> Running"
    and "list_all (\<lambda>env. \<not> quits (events env) \<and> \<not> any_primary (events env)) envs"
  shows "run cfg envs g = Inr g"
  using assms by (induction envs) (simp_all add: frame_idle)

theorem idle_run_frozen_witness:
  "run demo_cfg [tap_env\<lparr>events := [], ticks_check := 5000\<rparr>,
                 tap_env\<lparr>events := [(KEYDOWN (K_OTHER 97), 1)], ticks_check := 9000\<rparr>]
     (crash (boot demo_cfg 0)) = Inr (crash (boot demo_cfg 0))"
  using idle_run_frozen [of "crash (boot demo_cfg 0)"
      "[tap_env\<lparr>events := [], ticks_check := 5000\<rparr>,
        tap_env\<lparr>events := [(KEYDOWN (K_OTHER 97), 1)], ticks_check := 9000\<rparr>]" demo_cfg]
  by simp

text \<open>C19. Restart. In a reachable state where the game is over, a click, a tap, SPACE or
  UP puts the game back into exactly the state it had at start-up, with the spawn timer
  restarted at the current clock reading: no pipes, score 0, the bird at mid-height with
  velocity 0, phase Idle.\<close>

theorem restart_after_game_over:
  assumes "game_inv cfg g" and "game_over g" and "is_primary e"
  shows "handle_event cfg (e, t) g = Inr (boot cfg t) \<and>
         pipes (boot cfg t) = [] \<and> score (boot cfg t) = 0 \<and>
         bird_y (bird (boot cfg t)) = of_int (HEIGHT cfg div 2) \<and>
         bird_vy (bird (boot cfg t)) = 0 \<and> phase_of (boot cfg t) = Idle \<and>
         last_spawn (boot cfg t) = t"
proof -
  from assms(3) have "\<not> is_quit e" by (cases e) simp_all
  with assms show ?thesis
    by (simp add: handle_event_cases reset_is_boot) (simp add: boot_def start_y_def)
qed

theorem restart_after_game_over_witness:
  "handle_event demo_cfg (KEYDOWN K_SPACE, 7000) (crash (flap (boot demo_cfg 0))) =
     Inr (boot demo_cfg 7000) \<and> score (boot demo_cfg 7000) = 0 \<and>
   bird_y (bird (boot demo_cfg 7000)) = 400 \<and> phase_of (boot demo_cfg 7000) = Idle"
proof -
  have "game_inv demo_cfg (crash (flap (boot demo_cfg 0)))"
    by (intro game_inv_crash game_inv_flap game_inv_boot) (simp add: boot_def)
  from restart_after_game_over [OF this, of "KEYDOWN K_SPACE" 7000] show ?thesis
    by simp
qed

text \<open>C25. Nothing stops a bird that has left the window through the top. In a reachable
  state in which the bird's rectangle lies above the window, the bird hits neither a pipe
  nor the ground, so a player who keeps flapping passes every pipe.\<close>

theorem above_window_is_safe:
  assumes inv: "game_inv cfg g" and tall: "tall_enough cfg"
    and above: "py_int (bird_y (bird g)) + bird_h (bird g) < 0"
  shows "\<not> hits cfg g"
proof -
  from above have b: "rect_bottom (brect g) < 0" by simp
  from inv have "\<forall>p \<in> set (pipes g). 0 \<le> pipe_top p + PIPE_GAP"
    by (auto simp: game_inv_def pipes_ok_def pipe_ok_def list_all_iff top_in_range_def
        top_min_def PIPE_GAP_def)
  with b have "\<not> hits_pipe cfg g"
    by (auto simp: hits_pipe_def list_ex_iff above_window_no_pipe_hit)
  moreover have "\<not> hits_ground cfg g"
  proof -
    have "bird_y (bird g) < 0 \<or> bird_h (bird g) < 0"
    proof (rule ccontr)
      assume "\<not> (bird_y (bird g) < 0 \<or> bird_h (bird g) < 0)"
      then have "0 \<le> bird_y (bird g)" "0 \<le> bird_h (bird g)" by simp_all
      then have "0 \<le> py_int (bird_y (bird g)) + bird_h (bird g)"
        by (simp add: py_int_nonneg)
      with above show False by simp
    qed
    have "bird_y (bird g) \<le> of_int (py_int (bird_y (bird g))) + 1"
      using py_int_close [of "bird_y (bird g)"] by linarith
    also have "\<dots> + of_int (bird_h (bird g)) \<le> 0"
      using above by (simp flip: of_int_add) 
    finally have "bird_y (bird g) + of_int (bird_h (bird g)) \<le> 0" by simp
    moreover from tall have "(0 :: rat) \<le> of_int (HEIGHT cfg - GROUND)"
      by (simp add: tall_enough_def GROUND_def)
    ultimately show ?thesis by (simp add: hits_ground_def)
  qed
  ultimately show ?thesis by (simp add: hits_def)
qed

theorem above_window_is_safe_witness:
  "\<exists>g. run demo_cfg (replicate 50 tap_env) (boot demo_cfg 0) = Inr g \<and>
       py_int (bird_y (bird g)) + bird_h (bird g) < 0 \<and> phase_of g = Running \<and>
       \<not> hits demo_cfg g"
proof -
  let ?g = "\<lparr>bird = \<lparr>bird_x = 432 / 5, bird_y = - (55 / 2), bird_vy = - (171 / 20),
                      bird_w = 34, bird_h = 24\<rparr>,
            pipes = [], score = 0, running = True, game_over = False, last_spawn = 0\<rparr>"
  have r: "run demo_cfg (replicate 50 tap_env) (boot demo_cfg 0) = Inr ?g"
    by (simp add: numeral_eq_Suc fb_defs Let_def)
  have "game_inv demo_cfg ?g"
    by (rule run_game_inv [OF game_inv_boot _ r]) simp
  then have "\<not> hits demo_cfg ?g"
    by (rule above_window_is_safe) (simp_all add: tall_enough_def)
  with r show ?thesis by simp
qed

end
