(* ===== verification/FB_Progress.thy ===== *)
theory FB_Progress
  imports FB_Loop "HOL-Library.Sublist"
begin

text \<open>
  Bounds and progress of the main loop of \<open>src/flappybird.py\<close>: the pipes of a reachable
  state are at least \<open>PIPE_SPEED\<close> apart, which bounds the length of the list and the
  growth of the score per frame, and a game left alone ends on the ground after a number
  of frames that the closed form of the free fall gives. While a game goes on, the pipes
  follow a fixed schedule: where a pipe is, when it is counted and when it is removed.
\<close>

section \<open>Definitions\<close>

text \<open>A frame without input: no \<open>QUIT\<close>, no click, no SPACE or UP.\<close>

definition quiet :: "frame_env \<Rightarrow> bool" where
  "quiet env \<longleftrightarrow> \<not> quits (events env) \<and> \<not> any_primary (events env)"

text \<open>
  Pipes are spawned one per frame at most and all move at the same speed, so two pipes of
  the list are at least one step apart.
\<close>

definition x_spaced :: "pipe list \<Rightarrow> bool" where
  "x_spaced ps \<longleftrightarrow> sorted_wrt (\<lambda>p q. pipe_x p + PIPE_SPEED \<le> pipe_x q) ps"

definition spaced_inv :: "config \<Rightarrow> game \<Rightarrow> bool" where
  "spaced_inv cfg g \<longleftrightarrow> game_inv cfg g \<and> x_spaced (pipes g)"

text \<open>
  The number of pipes that fit between the removal threshold and the spawn position when
  they are one step apart.
\<close>

definition max_pipes :: "config \<Rightarrow> nat" where
  "max_pipes cfg = nat ((WIDTH cfg + 106) div PIPE_SPEED + 1)"

text \<open>
  The number of frames after which a bird that started in the window of a game at most
  800 pixels high and was left alone is below the ground line:
  \<open>0.225 \<times> 80 \<times> 81 - 9 \<times> 80 = 738 > 720\<close>.
\<close>

definition fall_frames :: nat where
  "fall_frames = 80"

text \<open>
  A pipe after \<open>k\<close> passes of the move-and-score loop, for a bird at \<open>bx\<close>, and
  a run during which the game is in the Running phase before every frame and at the end.
\<close>

definition travel :: "pyfloat \<Rightarrow> nat \<Rightarrow> pipe \<Rightarrow> pipe" where
  "travel bx k p = (step_pipe bx ^^ k) p"

fun survives :: "config \<Rightarrow> frame_env list \<Rightarrow> game \<Rightarrow> bool" where
  "survives cfg [] g \<longleftrightarrow> phase_of g = Running"
| "survives cfg (env # envs) g \<longleftrightarrow>
     phase_of g = Running \<and>
     (case frame cfg env g of Inl e \<Rightarrow> False | Inr g' \<Rightarrow> survives cfg envs g')"

section \<open>Lemmas: spacing\<close>

lemma x_spaced_Nil [simp]: "x_spaced []"
  by (simp add: x_spaced_def)

lemma x_spaced_step [simp]: "x_spaced (map (step_pipe bx) ps) = x_spaced ps"
  by (simp add: x_spaced_def sorted_wrt_map le_diff_eq)

lemma x_spaced_filter: "x_spaced ps \<Longrightarrow> x_spaced (filter P ps)"
  by (simp add: x_spaced_def sorted_wrt_filter)

lemma x_spaced_snoc:
  "x_spaced (ps @ [p]) \<longleftrightarrow> x_spaced ps \<and> list_all (\<lambda>q. pipe_x q + PIPE_SPEED \<le> pipe_x p) ps"
  by (auto simp: x_spaced_def sorted_wrt_append list_all_iff)

text \<open>
  Pipes in a range that are pairwise at least \<open>d\<close> pixels apart: where the last one is,
  and how many there can be.
\<close>

lemma gap_last:
  assumes "sorted_wrt (\<lambda>p q. pipe_x p + d \<le> pipe_x q) ps"
    and "list_all (\<lambda>p. lo \<le> pipe_x p) ps" and "ps \<noteq> []"
  shows "lo + d * (int (length ps) - 1) \<le> pipe_x (last ps)"
  using assms
proof (induction ps arbitrary: lo)
  case Nil
  then show ?case by simp
next
  case (Cons p ps)
  show ?case
  proof (cases "ps = []")
    case True
    with Cons.prems show ?thesis by simp
  next
    case False
    from Cons.prems have "sorted_wrt (\<lambda>p q. pipe_x p + d \<le> pipe_x q) ps"
      and "list_all (\<lambda>q. pipe_x p + d \<le> pipe_x q) ps"
      by (simp_all add: list_all_iff)
    then have "pipe_x p + d + d * (int (length ps) - 1) \<le> pipe_x (last ps)"
      using False by (rule Cons.IH)
    moreover from Cons.prems have "lo \<le> pipe_x p" by simp
    ultimately show ?thesis using False by (simp add: algebra_simps)
  qed
qed

lemma gap_length:
  assumes "sorted_wrt (\<lambda>p q. pipe_x p + d \<le> pipe_x q) ps"
    and "list_all (\<lambda>p. lo \<le> pipe_x p \<and> pipe_x p \<le> hi) ps" and "lo \<le> hi" and "0 < d"
  shows "int (length ps) \<le> (hi - lo) div d + 1"
proof (cases "ps = []")
  case True
  with assms(3,4) show ?thesis by (simp add: pos_imp_zdiv_nonneg_iff)
next
  case False
  from assms(2) have lo: "list_all (\<lambda>p. lo \<le> pipe_x p) ps" and "\<forall>p \<in> set ps. pipe_x p \<le> hi"
    by (simp_all add: list_all_iff)
  with False have "pipe_x (last ps) \<le> hi" by simp
  with gap_last [OF assms(1) lo False]
  have "(int (length ps) - 1) * d \<le> hi - lo" by (simp add: mult.commute)
  with assms(4) have "int (length ps) - 1 \<le> (hi - lo) div d"
    by (simp add: pos_le_divide_eq zdiv_mono1 [of "(int (length ps) - 1) * d" "hi - lo" d, simplified])
  then show ?thesis by simp
qed

lemma x_spaced_length:
  assumes "x_spaced ps" and "list_all (\<lambda>p. lo \<le> pipe_x p \<and> pipe_x p \<le> hi) ps" and "lo \<le> hi"
  shows "int (length ps) \<le> (hi - lo) div PIPE_SPEED + 1"
  using assms by (intro gap_length) (simp_all add: x_spaced_def PIPE_SPEED_def)

text \<open>On a list whose elements are pairwise related, at most one element has a property
  that two related elements cannot both have.\<close>

lemma filter_sorted_wrt_le_one:
  assumes "sorted_wrt R xs" and "\<And>x y. P x \<Longrightarrow> P y \<Longrightarrow> \<not> R x y"
  shows "length (filter P xs) \<le> 1"
  using assms(1)
proof (induction xs)
  case Nil
  show ?case by simp
next
  case (Cons x xs)
  show ?case
  proof (cases "P x")
    case True
    with Cons.prems assms(2) have "\<forall>y \<in> set xs. \<not> P y" by auto
    then have "filter P xs = []" by (simp add: filter_empty_conv)
    with True show ?thesis by simp
  next
    case False
    with Cons show ?thesis by simp
  qed
qed

lemma counts_window:
  assumes "pipe_ok cfg bx hi p" and "counts bx p"
  shows "bx \<le> of_int (pipe_x p + PIPE_WIDTH)" and "of_int (pipe_x p - PIPE_SPEED + PIPE_WIDTH) < bx"
  using assms by (simp_all add: pipe_ok_def counts_iff not_less)

lemma counts_le_one:
  assumes "x_spaced ps" and "list_all (pipe_ok cfg bx hi) ps"
  shows "length (filter (counts bx) ps) \<le> 1"
proof -
  have "length (filter (\<lambda>p. pipe_ok cfg bx hi p \<and> counts bx p) ps) \<le> 1"
  proof (rule filter_sorted_wrt_le_one [OF assms(1) [unfolded x_spaced_def]])
    fix p q
    assume p: "pipe_ok cfg bx hi p \<and> counts bx p" and q: "pipe_ok cfg bx hi q \<and> counts bx q"
    from p have "of_int (pipe_x p - PIPE_SPEED + PIPE_WIDTH) < bx"
      by (intro counts_window(2) [of cfg bx hi]) simp_all
    also from q have "bx \<le> of_int (pipe_x q + PIPE_WIDTH)"
      by (intro counts_window(1) [of cfg bx hi]) simp_all
    finally have "pipe_x p - PIPE_SPEED + PIPE_WIDTH < pipe_x q + PIPE_WIDTH"
      by (simp only: of_int_less_iff)
    then show "\<not> pipe_x q + PIPE_SPEED \<le> pipe_x p" by simp
  qed
  moreover have "filter (\<lambda>p. pipe_ok cfg bx hi p \<and> counts bx p) ps = filter (counts bx) ps"
    using assms(2) by (auto simp: list_all_iff intro: filter_cong)
  ultimately show ?thesis by simp
qed

section \<open>Lemmas: the frames keep the spacing\<close>

lemma x_spaced_handle_event:
  assumes "x_spaced (pipes g)" and "handle_event cfg et g = Inr g'"
  shows "x_spaced (pipes g')"
  using assms
  by (cases et) (auto simp: handle_event_Inr_iff primary_action_def split: if_splits)

lemma x_spaced_handle_events:
  assumes "x_spaced (pipes g)" and "handle_events cfg evs g = Inr g'"
  shows "x_spaced (pipes g')"
  using assms unfolding handle_events_def
  by (rule for_each_invariant [where P = "\<lambda>g. x_spaced (pipes g)", rotated])
     (rule x_spaced_handle_event)

lemma x_spaced_spawn_pipes:
  assumes inv: "spaced_inv cfg g" and sp: "spawn_pipes cfg env (bird_physics g) = Inr g1"
  shows "x_spaced (pipes g1)"
proof (cases "spawn_due env (bird_physics g)")
  case False
  with sp have "pipes g1 = pipes g" by (auto simp: spawn_pipes_Inr_iff)
  with inv show ?thesis by (simp add: spaced_inv_def)
next
  case True
  with sp obtain t where ps: "pipes g1 = pipes g @ [new_pipe cfg t]"
    by (auto simp: spawn_pipes_Inr_iff)
  from inv have "\<forall>p \<in> set (pipes g). pipe_x p + PIPE_SPEED \<le> pipe_x (new_pipe cfg t)"
    by (fastforce simp: spaced_inv_def game_inv_def pipes_ok_def pipe_ok_def list_all_iff
        PIPE_SPEED_def)
  with inv show ?thesis
    unfolding ps by (simp only: x_spaced_snoc list_all_iff spaced_inv_def)
qed

text \<open>The pipes and the score after a pass of the game logic in the Running phase.\<close>

lemma game_logic_pipes:
  assumes "game_logic cfg env g = Inr g'" and "running g" and "\<not> game_over g"
  obtains g1 where "spawn_pipes cfg env (bird_physics g) = Inr g1"
    and "pipes g' = filter on_screen (map (step_pipe (bird_x (bird g))) (pipes g1))"
    and "score g' = score g + int (length (filter (counts (bird_x (bird g))) (pipes g1)))"
proof -
  from assms obtain g1 where sp: "spawn_pipes cfg env (bird_physics g) = Inr g1"
    and g': "g' = collision cfg (remove_offscreen (move_pipes g1))"
    by (auto simp: game_logic_Inr_iff)
  from sp have "bird g1 = bird (bird_physics g)" "score g1 = score g"
    by (simp_all add: spawn_pipes_frame)
  with sp g' that show ?thesis by simp
qed

lemma spaced_inv_logic:
  assumes inv: "spaced_inv cfg g" and w: "0 \<le> WIDTH cfg"
    and step: "game_logic cfg env g = Inr g'"
  shows "spaced_inv cfg g'"
proof -
  from inv w step have gi: "game_inv cfg g'"
    by (auto simp: spaced_inv_def intro: game_inv_logic)
  have "x_spaced (pipes g')"
  proof (cases "running g \<and> \<not> game_over g")
    case False
    with step inv show ?thesis by (auto simp: game_logic_Inr_iff spaced_inv_def)
  next
    case True
    with step obtain g1 where sp: "spawn_pipes cfg env (bird_physics g) = Inr g1"
      and ps: "pipes g' = filter on_screen (map (step_pipe (bird_x (bird g))) (pipes g1))"
      by (auto elim: game_logic_pipes)
    from inv sp have "x_spaced (pipes g1)" by (rule x_spaced_spawn_pipes)
    then show ?thesis unfolding ps by (simp add: x_spaced_filter)
  qed
  with gi show ?thesis by (simp add: spaced_inv_def)
qed

lemma spaced_inv_frame:
  assumes "spaced_inv cfg g" and "0 \<le> WIDTH cfg" and "frame cfg env g = Inr g'"
  shows "spaced_inv cfg g'"
proof -
  from assms(3) obtain g1 where ev: "handle_events cfg (events env) g = Inr g1"
    and lg: "game_logic cfg env g1 = Inr g'"
    by (auto simp: frame_Inr_iff)
  from assms(1) ev have "spaced_inv cfg g1"
    by (auto simp: spaced_inv_def intro: game_inv_handle_events x_spaced_handle_events)
  then show ?thesis using assms(2) lg by (rule spaced_inv_logic)
qed

lemma spaced_inv_boot: "spaced_inv cfg (boot cfg t)"
  by (simp add: spaced_inv_def game_inv_boot) (simp add: boot_def)

lemma reachable_spaced_inv:
  assumes "reachable cfg g" and "0 \<le> WIDTH cfg"
  shows "spaced_inv cfg g"
  using assms
proof (induction rule: reachable.induct)
  case (reach_boot ticks)
  show ?case by (rule spaced_inv_boot)
next
  case (reach_frame g env g')
  then show ?case by (blast intro: spaced_inv_frame)
qed

lemma spaced_inv_length:
  assumes "spaced_inv cfg g" and "0 \<le> WIDTH cfg"
  shows "length (pipes g) \<le> max_pipes cfg"
proof -
  from assms(1) have "list_all (\<lambda>p. - 99 \<le> pipe_x p \<and> pipe_x p \<le> WIDTH cfg + 7) (pipes g)"
    by (auto simp: spaced_inv_def game_inv_def pipes_ok_def pipe_ok_def list_all_iff
        on_screen_def)
  with assms have "int (length (pipes g)) \<le> (WIDTH cfg + 7 - (- 99)) div PIPE_SPEED + 1"
    by (intro x_spaced_length) (simp_all add: spaced_inv_def)
  moreover have "WIDTH cfg + 7 - (- 99) = WIDTH cfg + 106" by simp
  ultimately have "int (length (pipes g)) \<le> (WIDTH cfg + 106) div PIPE_SPEED + 1"
    by (simp only:)
  then show ?thesis unfolding max_pipes_def by linarith
qed

lemma game_logic_score:
  assumes inv: "spaced_inv cfg g" and w: "0 \<le> WIDTH cfg"
    and step: "game_logic cfg env g = Inr g'"
  shows "score g \<le> score g' \<and> score g' \<le> score g + 1"
proof (cases "running g \<and> \<not> game_over g")
  case False
  with step show ?thesis by (auto simp: game_logic_Inr_iff)
next
  case True
  with step obtain g1 where sp: "spawn_pipes cfg env (bird_physics g) = Inr g1"
    and sc: "score g' = score g + int (length (filter (counts (bird_x (bird g))) (pipes g1)))"
    by (auto elim: game_logic_pipes)
  from inv have bx: "bird_x (bird g) = start_x cfg"
    by (simp add: spaced_inv_def game_inv_def bird_ok_def)
  from inv w sp have "pipes_ok cfg (start_x cfg) (WIDTH cfg + 10) (pipes g1)"
    by (auto simp: spaced_inv_def intro: pipes_ok_spawn_pipes)
  then have "list_all (pipe_ok cfg (start_x cfg) (WIDTH cfg + 10)) (pipes g1)"
    by (simp add: pipes_ok_def)
  with x_spaced_spawn_pipes [OF inv sp]
  have "length (filter (counts (start_x cfg)) (pipes g1)) \<le> 1"
    by (rule counts_le_one)
  with sc bx show ?thesis by simp
qed

section \<open>Lemmas: frames without input\<close>

lemma frame_quiet: "quiet env \<Longrightarrow> frame cfg env g = game_logic cfg env g"
  by (simp add: frame_def quiet_def handle_events_no_primary)

lemma run_quiet_frozen:
  assumes "list_all quiet envs" and "phase_of g \<noteq> Running"
  shows "run cfg envs g = Inr g"
  using assms by (induction envs) (simp_all add: frame_quiet phase_of_eq_iff)

lemma run_quiet_total:
  assumes "tall_enough cfg" and "list_all quiet envs"
  shows "\<exists>g'. run cfg envs g = Inr g'"
  unfolding run_def using assms
  by (intro for_each_total frame_total) (auto simp: list_all_iff quiet_def)

lemma bird_physics_cong: "bird g = bird h \<Longrightarrow> bird (bird_physics g) = bird (bird_physics h)"
  by (simp add: bird_physics_def Let_def)

lemma bird_fall_cong: "bird g = bird h \<Longrightarrow> bird (fall k g) = bird (fall k h)"
proof (induction k)
  case 0
  then show ?case by simp
next
  case (Suc k)
  then have "bird (fall k g) = bird (fall k h)" by simp
  then have "bird (bird_physics (fall k g)) = bird (bird_physics (fall k h))"
    by (rule bird_physics_cong)
  then show ?case by simp
qed

lemma fall_Suc_shift: "fall (Suc k) g = fall k (bird_physics g)"
  by (simp add: fall_def funpow_swap1)

lemma run_quiet_running:
  assumes "list_all quiet envs" and "run cfg envs g = Inr g'" and "phase_of g' = Running"
  shows "bird g' = bird (fall (length envs) g)"
  using assms
proof (induction envs arbitrary: g)
  case Nil
  then show ?case by simp
next
  case (Cons env envs)
  have run: "phase_of g = Running"
  proof (rule ccontr)
    assume "phase_of g \<noteq> Running"
    with Cons.prems(1) have "run cfg (env # envs) g = Inr g" by (rule run_quiet_frozen)
    with Cons.prems(2,3) \<open>phase_of g \<noteq> Running\<close> show False by simp
  qed
  from Cons.prems obtain g1 where g1: "game_logic cfg env g = Inr g1"
    and rest: "run cfg envs g1 = Inr g'"
    by (auto simp: frame_quiet and_then_eq_Inr_iff)
  from g1 run have "bird g1 = bird (bird_physics g)"
    by (simp add: game_logic_bird phase_of_eq_iff)
  then have "bird (fall (length envs) g1) = bird (fall (length envs) (bird_physics g))"
    by (rule bird_fall_cong)
  moreover from Cons.prems rest have "bird g' = bird (fall (length envs) g1)"
    by (intro Cons.IH) simp_all
  ultimately show ?case by (simp only: length_Cons fall_Suc_shift)
qed

text \<open>A state that a frame leaves Running is clear of the ground and of the pipes.\<close>

lemma frame_running_clear:
  assumes "frame cfg env g = Inr g'" and "phase_of g' = Running"
  shows "\<not> hits cfg g'"
proof -
  from assms(1) obtain g1 where "game_logic cfg env g1 = Inr g'"
    by (auto simp: frame_Inr_iff)
  then have "phase_of g' = phase_on_tick (hits cfg g') (phase_of g1)"
    by (rule phase_of_game_logic)
  with assms(2) show ?thesis by (auto simp: phase_on_tick_def split: if_splits)
qed

lemma hits_ground_cong: "bird g = bird h \<Longrightarrow> hits_ground cfg g = hits_ground cfg h"
  by (simp add: hits_ground_def)

lemma quiet_fall_ends:
  assumes tall: "tall_enough cfg" and q: "list_all quiet envs" and ne: "envs \<noteq> []"
    and ground: "hits_ground cfg (fall (length envs) g)"
  shows "\<exists>g'. run cfg envs g = Inr g' \<and> phase_of g' \<noteq> Running"
proof -
  from tall q obtain g' where r: "run cfg envs g = Inr g'"
    using run_quiet_total by blast
  have "phase_of g' \<noteq> Running"
  proof
    assume run: "phase_of g' = Running"
    with q r have "bird g' = bird (fall (length envs) g)" by (rule run_quiet_running)
    with ground have "hits cfg g'"
      using hits_ground_cong [of g' "fall (length envs) g" cfg] by (simp add: hits_def)
    moreover from ne obtain es e where "envs = es @ [e]" by (cases envs rule: rev_cases) auto
    with r obtain g1 where "frame cfg e g1 = Inr g'" by (auto simp: run_snoc_Inr_iff)
    then have "\<not> hits cfg g'" using run by (rule frame_running_clear)
    ultimately show False by simp
  qed
  with r show ?thesis by blast
qed

lemma run_quiet_not_idle:
  assumes "list_all quiet envs" and "run cfg envs g = Inr g'" and "phase_of g \<noteq> Idle"
  shows "phase_of g' \<noteq> Idle"
  using assms
proof (induction envs arbitrary: g)
  case Nil
  then show ?case by simp
next
  case (Cons env envs)
  from Cons.prems obtain g1 where g1: "game_logic cfg env g = Inr g1"
    and rest: "run cfg envs g1 = Inr g'"
    by (auto simp: frame_quiet and_then_eq_Inr_iff)
  from g1 have "phase_of g1 = phase_on_tick (hits cfg g1) (phase_of g)"
    by (rule phase_of_game_logic)
  with Cons.prems(3) have "phase_of g1 \<noteq> Idle" by (simp add: phase_on_tick_def)
  with Cons.prems(1) rest show ?case by (intro Cons.IH [of g1]) simp_all
qed

lemma fall_frames_enough:
  assumes "0 \<le> bird_y (bird g)" and "of_int FLAP \<le> bird_vy (bird g)"
    and "0 \<le> bird_h (bird g)" and "HEIGHT cfg \<le> 800"
  shows "hits_ground cfg (fall fall_frames g)"
proof -
  have "bird_y (bird (fall fall_frames g)) = bird_y (bird g) + 80 * bird_vy (bird g) + 1458"
    by (simp add: fall_y fall_frames_def GRAVITY_def)
  moreover from assms(2) have "- 720 \<le> 80 * bird_vy (bird g)"
    by (simp add: FLAP_def)
  moreover from assms(4) have "(of_int (HEIGHT cfg - GROUND) :: rat) \<le> 720"
    by (simp add: GROUND_def)
  moreover from assms(3) have "(0 :: rat) \<le> of_int (bird_h (bird g))" by simp
  ultimately show ?thesis
    using assms(1) unfolding hits_ground_def fall_frame by linarith
qed

lemma handle_events_score:
  assumes "handle_events cfg evs g = Inr g1"
  shows "score g1 = score g \<or> score g1 = 0"
proof -
  have body: "score s' = score g \<or> score s' = 0"
    if "score s = score g \<or> score s = 0" and "handle_event cfg et s = Inr s'" for et s s'
    using that
    by (cases et) (auto simp: handle_event_Inr_iff primary_action_def split: if_splits)
  have start: "score g = score g \<or> score g = 0" by simp
  from body start assms [unfolded handle_events_def] show ?thesis
    by (rule for_each_invariant [where P = "\<lambda>s. score s = score g \<or> score s = 0"])
qed

section \<open>Lemmas: trajectories\<close>

lemma travel_simps [simp]:
  "travel bx 0 p = p"
  "travel bx (Suc k) p = step_pipe bx (travel bx k p)"
  by (simp_all add: travel_def)

lemma travel_Suc_comp: "travel bx (Suc k) = travel bx k \<circ> step_pipe bx"
  by (rule ext) (simp add: travel_def funpow_swap1)

lemma travel_x: "pipe_x (travel bx k p) = pipe_x p - PIPE_SPEED * int k"
  by (induction k) (simp_all add: algebra_simps)

lemma travel_top [simp]: "pipe_top (travel bx k p) = pipe_top p"
  by (induction k) simp_all

lemma travel_passed:
  "pipe_passed (travel bx k p) \<longleftrightarrow>
     pipe_passed p \<or> (0 < k \<and> of_int (pipe_x p - PIPE_SPEED * int k + PIPE_WIDTH) < bx)"
proof (induction k)
  case 0
  show ?case by simp
next
  case (Suc k)
  have "of_int (pipe_x p - PIPE_SPEED * int k + PIPE_WIDTH) < bx \<Longrightarrow>
        of_int (pipe_x p - PIPE_SPEED * int (Suc k) + PIPE_WIDTH) < bx"
    by (simp add: PIPE_SPEED_def)
  with Suc show ?case
    by (auto simp: counts_iff travel_x algebra_simps)
qed

lemma on_screen_step: "on_screen (step_pipe bx p) \<Longrightarrow> on_screen p"
  by (simp add: on_screen_def PIPE_SPEED_def)

lemma on_screen_travel: "on_screen (travel bx k p) \<Longrightarrow> on_screen p"
  by (simp add: on_screen_def travel_x PIPE_SPEED_def)

lemma filter_travel_filter:
  "filter on_screen (map (travel bx k) (filter on_screen ps)) =
   filter on_screen (map (travel bx k) ps)"
  by (induction ps) (auto dest: on_screen_travel)

lemma prefix_filter_map:
  "prefix xs ys \<Longrightarrow> prefix (filter P (map f xs)) (filter P (map f ys))"
  by (auto simp: prefix_def)

text \<open>The pipes after a frame that starts in the Running phase.\<close>

lemma frame_running_pipes:
  assumes "frame cfg env g = Inr g'" and "phase_of g = Running"
  shows "prefix (filter on_screen (map (step_pipe (bird_x (bird g))) (pipes g))) (pipes g')"
    and "bird_x (bird g') = bird_x (bird g)" and "list_all on_screen (pipes g')"
proof -
  from assms obtain g0 where ev: "handle_events cfg (events env) g = Inr g0"
    and lg: "game_logic cfg env g0 = Inr g'"
    by (auto simp: frame_Inr_iff)
  from ev have "\<not> quits (events env)"
    using handle_events_Inl_iff [of cfg "events env" g SysExit] by auto
  with assms(2) ev have g0: "g0 = (if any_primary (events env) then flap g else g)"
    by (simp add: handle_events_not_over phase_of_eq_iff)
  with assms(2) have r0: "running g0" "\<not> game_over g0" and p0: "pipes g0 = pipes g"
    and b0: "bird_x (bird g0) = bird_x (bird g)"
    by (simp_all add: phase_of_eq_iff)
  from lg r0 obtain g1 where sp: "spawn_pipes cfg env (bird_physics g0) = Inr g1"
    and ps: "pipes g' = filter on_screen (map (step_pipe (bird_x (bird g0))) (pipes g1))"
    by (auto elim: game_logic_pipes)
  from sp have "prefix (pipes g) (pipes g1)"
    by (auto simp: spawn_pipes_Inr_iff p0 split: if_splits)
  then obtain rest where "pipes g1 = pipes g @ rest" by (auto simp: prefix_def)
  with ps b0 show "prefix (filter on_screen (map (step_pipe (bird_x (bird g))) (pipes g))) (pipes g')"
    by simp
  from lg r0 have "bird g' = bird (bird_physics g0)" by (simp add: game_logic_bird)
  with b0 show "bird_x (bird g') = bird_x (bird g)" by simp
  from ps show "list_all on_screen (pipes g')" by (simp add: list_all_iff)
qed

lemma survives_trajectory:
  assumes "survives cfg envs g" and "run cfg envs g = Inr g'" and "list_all on_screen (pipes g)"
  shows "prefix (filter on_screen (map (travel (bird_x (bird g)) (length envs)) (pipes g)))
           (pipes g') \<and> bird_x (bird g') = bird_x (bird g)"
  using assms
proof (induction envs arbitrary: g)
  case Nil
  then show ?case by (simp add: list_all_iff)
next
  case (Cons env envs)
  let ?bx = "bird_x (bird g)" and ?n = "length envs"
  from Cons.prems obtain g1 where f: "frame cfg env g = Inr g1"
    and s1: "survives cfg envs g1" and r1: "run cfg envs g1 = Inr g'"
    and run: "phase_of g = Running"
    by (auto simp: and_then_eq_Inr_iff split: sum.splits)
  note fr = frame_running_pipes [OF f run]
  from Cons.IH [OF s1 r1 fr(3)] fr(2)
  have ih: "prefix (filter on_screen (map (travel ?bx ?n) (pipes g1))) (pipes g')"
    and bx: "bird_x (bird g') = ?bx"
    by simp_all
  have "filter on_screen (map (travel ?bx (Suc ?n)) (pipes g)) =
        filter on_screen (map (travel ?bx ?n) (filter on_screen (map (step_pipe ?bx) (pipes g))))"
    by (simp add: filter_travel_filter travel_Suc_comp)
  also have "prefix \<dots> (filter on_screen (map (travel ?bx ?n) (pipes g1)))"
    using fr(1) by (rule prefix_filter_map)
  finally have "prefix (filter on_screen (map (travel ?bx (Suc ?n)) (pipes g))) (pipes g')"
    using ih by (rule prefix_order.trans)
  with bx show ?case by (simp del: travel_simps)
qed

lemma new_pipe_not_passed_yet:
  assumes "0 \<le> WIDTH cfg"
  shows "\<not> of_int (WIDTH cfg + 80) < start_x cfg"
proof -
  from assms have "start_x cfg \<le> of_int (WIDTH cfg)" by (simp add: start_x_bounds)
  also have "\<dots> \<le> of_int (WIDTH cfg + 80)" by simp
  finally show ?thesis by (simp add: not_less)
qed

section \<open>Properties: bounds and progress\<close>

text \<open>C9. A game left alone ends. From a state of the Running phase with the bird in or
  below the window, on a window between 320 and 800 pixels high, 80 frames without input
  end the game: whatever the pipes do, gravity takes the bird below the ground line by
  then, and without input a finished game stays finished. The run itself does not stop.\<close>

theorem left_alone_game_ends:
  assumes inv: "game_inv cfg g" and cfg: "config_ok cfg" and tall: "tall_enough cfg"
    and run: "phase_of g = Running" and y: "0 \<le> bird_y (bird g)"
    and q: "list_all quiet envs" and n: "fall_frames \<le> length envs"
  shows "\<exists>g'. run cfg envs g = Inr g' \<and> phase_of g' = GameOver"
proof -
  let ?a = "take fall_frames envs" and ?b = "drop fall_frames envs"
  from n have len: "length ?a = fall_frames" by simp
  from q have qa: "list_all quiet ?a" and qb: "list_all quiet ?b"
    by (auto simp: list_all_iff dest: in_set_takeD in_set_dropD)
  from inv cfg y have "hits_ground cfg (fall fall_frames g)"
    by (intro fall_frames_enough) (simp_all add: game_inv_def bird_ok_def config_ok_def)
  then have ground: "hits_ground cfg (fall (length ?a) g)" by (simp only: len)
  from len have ne: "?a \<noteq> []" by (auto simp: fall_frames_def)
  from quiet_fall_ends [OF tall qa ne ground]
  obtain g1 where a: "run cfg ?a g = Inr g1" and "phase_of g1 \<noteq> Running" by blast
  moreover have "phase_of g1 \<noteq> Idle"
    using qa a by (rule run_quiet_not_idle) (simp add: run)
  ultimately have over: "phase_of g1 = GameOver" by (cases "phase_of g1") simp_all
  with qb have "run cfg ?b g1 = Inr g1" by (intro run_quiet_frozen) simp_all
  with a have "run cfg envs g = Inr g1" using run_append [of cfg ?a ?b g] by simp
  with over show ?thesis by simp
qed

theorem left_alone_game_ends_witness:
  "\<exists>g'. run demo_cfg (replicate 100 idle_env) demo_game = Inr g' \<and> phase_of g' = GameOver"
  using left_alone_game_ends [OF game_inv_demo_game, of "replicate 100 idle_env"]
  by (simp add: config_ok_def tall_enough_def list_all_iff quiet_def any_primary_def
      fall_frames_def)

text \<open>C16. A reachable state of the Running phase is clear: the bird is not below the
  ground line and its rectangle overlaps no pipe segment. A collision is never carried
  into the next frame.\<close>

theorem running_states_clear:
  assumes "reachable cfg g" and "phase_of g = Running"
  shows "\<not> hits cfg g"
  using assms
proof (cases rule: reachable.cases)
  case (reach_boot ticks)
  with assms(2) show ?thesis by (simp add: boot_def)
next
  case (reach_frame g0 env)
  then show ?thesis using assms(2) by (intro frame_running_clear)
qed

theorem running_states_clear_witness:
  "reachable demo_cfg demo_game \<and> phase_of demo_game = Running \<and> \<not> hits demo_cfg demo_game"
  using running_states_clear [OF reachable_demo_game] reachable_demo_game by simp

text \<open>C28. The pipe list is bounded. In every reachable state two pipes of the list are
  at least \<open>PIPE_SPEED\<close> pixels apart, so the list never holds more than
  \<open>(WIDTH + 106) div 3 + 1\<close> pipes, 196 on the widest window.\<close>

theorem pipes_bounded:
  assumes "reachable cfg g" and "0 \<le> WIDTH cfg"
  shows "x_spaced (pipes g) \<and> length (pipes g) \<le> max_pipes cfg"
  using reachable_spaced_inv [OF assms] assms(2)
  by (simp add: spaced_inv_length) (simp add: spaced_inv_def)

theorem pipes_bounded_witness:
  "x_spaced (pipes demo_game) \<and> length (pipes demo_game) \<le> 196"
  using pipes_bounded [OF reachable_demo_game] by (simp add: max_pipes_def PIPE_SPEED_def)

text \<open>C27. The score moves by single steps. Over one frame from a reachable state the
  score grows by at most one, and it does not decrease unless the game was over and is
  restarted: the bird passes at most one pipe per frame.\<close>

theorem score_single_steps:
  assumes r: "reachable cfg g" and w: "0 \<le> WIDTH cfg" and f: "frame cfg env g = Inr g'"
  shows "score g' \<le> score g + 1 \<and> (\<not> game_over g \<longrightarrow> score g \<le> score g')"
proof -
  from f obtain g1 where ev: "handle_events cfg (events env) g = Inr g1"
    and lg: "game_logic cfg env g1 = Inr g'"
    by (auto simp: frame_Inr_iff)
  from r w have inv: "spaced_inv cfg g" by (rule reachable_spaced_inv)
  with ev have "spaced_inv cfg g1"
    by (auto simp: spaced_inv_def intro: game_inv_handle_events x_spaced_handle_events)
  then have step: "score g1 \<le> score g' \<and> score g' \<le> score g1 + 1"
    using w lg by (rule game_logic_score)
  from inv have "0 \<le> score g" by (simp add: spaced_inv_def game_inv_def)
  with handle_events_score [OF ev] step have "score g' \<le> score g + 1" by auto
  moreover have "score g \<le> score g'" if "\<not> game_over g"
  proof -
    from ev have "\<not> quits (events env)"
      using handle_events_Inl_iff [of cfg "events env" g SysExit] by auto
    with that ev have "score g1 = score g"
      by (auto simp: handle_events_not_over split: if_splits)
    with step show ?thesis by simp
  qed
  ultimately show ?thesis by simp
qed

theorem score_single_steps_witness:
  "\<exists>g'. frame demo_cfg tap_env demo_game = Inr g' \<and> score g' \<le> 1 \<and> 0 \<le> score g'"
proof -
  obtain g' where f: "frame demo_cfg tap_env demo_game = Inr g'"
    using frame_total [of demo_cfg tap_env demo_game] by (auto simp: tall_enough_def)
  from score_single_steps [OF reachable_demo_game _ f] f show ?thesis by simp
qed

text \<open>C29. Pipes travel. While the game stays in the Running phase, whatever the player
  does, the pipes that were in the list \<open>k\<close> frames ago and have not reached
  \<open>x = -100\<close> are the first pipes of the list, in the same order, each moved left by
  \<open>k\<close> steps; pipes spawned since follow them.\<close>

theorem pipes_trajectory:
  assumes "game_inv cfg g" and "survives cfg envs g" and "run cfg envs g = Inr g'"
  shows "prefix (filter on_screen (map (travel (start_x cfg) (length envs)) (pipes g)))
           (pipes g')"
proof -
  from assms(1) have "list_all on_screen (pipes g)" and "bird_x (bird g) = start_x cfg"
    by (simp_all add: game_inv_def bird_ok_def)
  with survives_trajectory [OF assms(2,3)] show ?thesis by simp
qed

theorem pipes_trajectory_witness:
  "\<exists>g'. run demo_cfg [tap_env, tap_env] demo_game = Inr g' \<and>
        prefix [\<lparr>pipe_x = 481, pipe_top = 40, pipe_passed = False\<rparr>] (pipes g')"
proof -
  have s: "survives demo_cfg [tap_env, tap_env] demo_game"
    by (simp add: fb_defs Let_def)
  obtain g' where r: "run demo_cfg [tap_env, tap_env] demo_game = Inr g'"
    using run_quiet_total [of demo_cfg "[]" demo_game] frame_total [of demo_cfg tap_env]
    by (simp add: fb_defs Let_def)
  from pipes_trajectory [OF game_inv_demo_game s r] r show ?thesis
    by (auto simp: numeral_2_eq_2 step_pipe_def counts_iff on_screen_def PIPE_SPEED_def
        PIPE_WIDTH_def move_pipe_def)
qed

text \<open>C30. The schedule of a pipe. A pipe spawned at \<open>WIDTH + 10\<close> is, after \<open>k\<close>
  steps, at \<open>WIDTH + 10 - 3 k\<close>; it is flagged as passed from the first step with
  \<open>WIDTH + 80 - 3 k < 0.18 WIDTH\<close> on and stays in the list as long as
  \<open>3 k < WIDTH + 110\<close>, so it is counted before it is removed. On the window 480 wide
  a pipe is counted at its step 158 and removed at its step 197.\<close>

theorem pipe_schedule:
  assumes "0 \<le> WIDTH cfg"
  shows "pipe_x (travel (start_x cfg) k (new_pipe cfg t)) = WIDTH cfg + 10 - PIPE_SPEED * int k \<and>
         (pipe_passed (travel (start_x cfg) k (new_pipe cfg t)) \<longleftrightarrow>
            of_int (WIDTH cfg + 80 - PIPE_SPEED * int k) < start_x cfg) \<and>
         (on_screen (travel (start_x cfg) k (new_pipe cfg t)) \<longleftrightarrow>
            PIPE_SPEED * int k < WIDTH cfg + 110) \<and>
         (on_screen (travel (start_x cfg) k (new_pipe cfg t)) \<or>
            pipe_passed (travel (start_x cfg) k (new_pipe cfg t)))"
proof -
  let ?p = "travel (start_x cfg) k (new_pipe cfg t)"
  have x: "pipe_x ?p = WIDTH cfg + 10 - PIPE_SPEED * int k" by (simp add: travel_x)
  have e: "WIDTH cfg + 10 - PIPE_SPEED * int k + PIPE_WIDTH = WIDTH cfg + 80 - PIPE_SPEED * int k"
    by (simp add: PIPE_WIDTH_def)
  have "pipe_passed ?p \<longleftrightarrow>
        0 < k \<and> of_int (WIDTH cfg + 10 - PIPE_SPEED * int k + PIPE_WIDTH) < start_x cfg"
    by (simp only: travel_passed new_pipe_fields simp_thms)
  then have "pipe_passed ?p \<longleftrightarrow>
        0 < k \<and> of_int (WIDTH cfg + 80 - PIPE_SPEED * int k) < start_x cfg"
    by (simp only: e)
  moreover have "\<not> of_int (WIDTH cfg + 80 - PIPE_SPEED * int k) < start_x cfg" if "k = 0"
    using new_pipe_not_passed_yet [OF assms] that by simp
  ultimately have p: "pipe_passed ?p \<longleftrightarrow>
      of_int (WIDTH cfg + 80 - PIPE_SPEED * int k) < start_x cfg"
    by (cases "k = 0") auto
  have o: "on_screen ?p \<longleftrightarrow> PIPE_SPEED * int k < WIDTH cfg + 110"
    by (auto simp: on_screen_def x)
  have "pipe_passed ?p" if "\<not> on_screen ?p"
  proof -
    from that o have "WIDTH cfg + 80 - PIPE_SPEED * int k \<le> - 30" by simp
    then have "(of_int (WIDTH cfg + 80 - PIPE_SPEED * int k) :: rat) \<le> of_int (- 30)"
      by (simp only: of_int_le_iff)
    also have "\<dots> < 0" by simp
    also from assms have "0 \<le> start_x cfg" by (simp add: start_x_bounds)
    finally show ?thesis by (simp only: p)
  qed
  with x p o show ?thesis by blast
qed

theorem pipe_schedule_witness:
  "\<not> pipe_passed (travel (start_x demo_cfg) 157 (new_pipe demo_cfg 40)) \<and>
   pipe_passed (travel (start_x demo_cfg) 158 (new_pipe demo_cfg 40)) \<and>
   on_screen (travel (start_x demo_cfg) 196 (new_pipe demo_cfg 40)) \<and>
   \<not> on_screen (travel (start_x demo_cfg) 197 (new_pipe demo_cfg 40))"
  using pipe_schedule [of demo_cfg 157 40] pipe_schedule [of demo_cfg 158 40]
    pipe_schedule [of demo_cfg 196 40] pipe_schedule [of demo_cfg 197 40]
  by (simp add: PIPE_SPEED_def)

end
