(* ===== verification/FB_Render.thy ===== *)
theory FB_Render
  imports FB_Loop
begin

text \<open>
  The drawing part of the main loop of \<open>src/flappybird.py\<close>: \<open>draw_pipe\<close>, the blits of
  background, pipes, bird and score, the two overlay prompts, and the loop with its
  drawing as \<open>play\<close>. The screen is the list of blits made since the background was
  drawn; \<open>pygame.display.update()\<close> presents it. The lemmas show that drawing never
  raises on a reachable state, that it produces the scene the specification describes,
  and that what is drawn as a pipe is what the bird collides with.
\<close>

section \<open>Surfaces\<close>

datatype font = font | smallfont

type_synonym colour = "int \<times> int \<times> int"

text \<open>
  A surface is one of the three images loaded at start-up or the result of one of the
  library calls the program makes on surfaces: \<open>pygame.transform.flip\<close>,
  \<open>pygame.transform.smoothscale\<close> (constructor \<open>scaled\<close>) and \<open>Font.render\<close>.
\<close>

datatype surface =
    bg_img
  | bird_img
  | pipe_img
  | flip surface bool bool
  | scaled surface int int
  | render font string bool colour

text \<open>
  What the program cannot compute and the loaded files decide: the size of the pipe
  sprite and the size of a rendered text.
\<close>

record assets =
  pipe_size :: "int \<times> int"
  text_size :: "font \<Rightarrow> string \<Rightarrow> int \<times> int"

fun get_size :: "config \<Rightarrow> assets \<Rightarrow> surface \<Rightarrow> int \<times> int" where
  "get_size cfg a bg_img = (WIDTH cfg, HEIGHT cfg)"
| "get_size cfg a bird_img = (BIRD_W cfg, BIRD_H cfg)"
| "get_size cfg a pipe_img = pipe_size a"
| "get_size cfg a (flip s fx fy) = get_size cfg a s"
| "get_size cfg a (scaled s w h) = (w, h)"
| "get_size cfg a (render f s aa c) = text_size a f s"

definition get_width :: "config \<Rightarrow> assets \<Rightarrow> surface \<Rightarrow> int" where
  "get_width cfg a s = fst (get_size cfg a s)"

text \<open>\<open>smoothscale\<close> raises \<open>ValueError\<close> on a negative size.\<close>

definition smoothscale :: "surface \<Rightarrow> int \<times> int \<Rightarrow> surface result" where
  "smoothscale s sz =
     (if fst sz < 0 \<or> snd sz < 0 then Inl ValueError else Inr (scaled s (fst sz) (snd sz)))"

section \<open>The screen\<close>

datatype blit_cmd = Blit (blit_src: surface) (blit_x: pyfloat) (blit_y: pyfloat)

type_synonym screen = "blit_cmd list"

definition blit :: "surface \<Rightarrow> pyfloat \<times> pyfloat \<Rightarrow> screen \<Rightarrow> screen" where
  "blit s dest scr = scr @ [Blit s (fst dest) (snd dest)]"

section \<open>str\<close>

text \<open>Python's \<open>str\<close> on an integer: decimal digits, most significant first, and a sign.\<close>

definition digit_char :: "nat \<Rightarrow> char" where
  "digit_char d = ''0123456789'' ! d"

fun digits :: "nat \<Rightarrow> string" where
  "digits n = (if n < 10 then [digit_char n] else digits (n div 10) @ [digit_char (n mod 10)])"

declare digits.simps [simp del]

definition str :: "int \<Rightarrow> string" where
  "str i = (if i < 0 then CHR ''-'' # digits (nat (- i)) else digits (nat i))"

section \<open>Drawing\<close>

definition draw_pipe :: "config \<Rightarrow> pipe \<Rightarrow> screen \<Rightarrow> screen result" where
  "draw_pipe cfg p scr =
     (let x = pipe_x p; top = pipe_top p; bottom_y = top + PIPE_GAP
      in and_then (smoothscale (flip pipe_img False True) (PIPE_WIDTH, top))
           (\<lambda>top_img.
              let scr1 = blit top_img (of_int x, 0) scr;
                  bottom_h = HEIGHT cfg - GROUND - bottom_y
              in and_then (smoothscale pipe_img (PIPE_WIDTH, bottom_h))
                   (\<lambda>bottom_img. Inr (blit bottom_img (of_int x, of_int bottom_y) scr1))))"

definition centred :: "config \<Rightarrow> assets \<Rightarrow> surface \<Rightarrow> pyfloat" where
  "centred cfg a s = of_int (WIDTH cfg div 2 - get_width cfg a s div 2)"

definition white :: colour where
  "white = (255, 255, 255)"

definition draw_bird :: "game \<Rightarrow> screen \<Rightarrow> screen" where
  "draw_bird g scr = blit bird_img (bird_x (bird g), bird_y (bird g)) scr"

definition draw_score :: "config \<Rightarrow> assets \<Rightarrow> game \<Rightarrow> screen \<Rightarrow> screen" where
  "draw_score cfg a g scr =
     (let score_surf = render font (str (score g)) True white
      in blit score_surf (centred cfg a score_surf, 20) scr)"

definition draw_start_prompt :: "config \<Rightarrow> assets \<Rightarrow> game \<Rightarrow> screen \<Rightarrow> screen" where
  "draw_start_prompt cfg a g scr =
     (if \<not> running g \<and> \<not> game_over g
      then let t = render smallfont ''Tap or press SPACE to start'' True white
           in blit t (centred cfg a t, of_int (HEIGHT cfg div 2)) scr
      else scr)"

definition draw_game_over :: "config \<Rightarrow> assets \<Rightarrow> game \<Rightarrow> screen \<Rightarrow> screen" where
  "draw_game_over cfg a g scr =
     (if game_over g
      then let t = render font ''GAME OVER'' True (255, 100, 100);
               scr1 = blit t (centred cfg a t, of_int (HEIGHT cfg div 2 - 40)) scr;
               t2 = render smallfont ''Tap or SPACE to Restart'' True white
           in blit t2 (centred cfg a t2, of_int (HEIGHT cfg div 2 + 10)) scr1
      else scr)"

definition draw :: "config \<Rightarrow> assets \<Rightarrow> game \<Rightarrow> screen result" where
  "draw cfg a g =
     and_then (for_each (draw_pipe cfg) (pipes g) (blit bg_img (0, 0) []))
       (\<lambda>scr. Inr (draw_game_over cfg a g (draw_start_prompt cfg a g
                 (draw_score cfg a g (draw_bird g scr)))))"

lemmas render_defs [fb_defs] =
  get_width_def smoothscale_def blit_def str_def draw_pipe_def centred_def white_def
  draw_bird_def draw_score_def draw_start_prompt_def draw_game_over_def draw_def

section \<open>The loop with its drawing\<close>

text \<open>
  One iteration of \<open>while True\<close>: events, game logic, drawing, \<open>display.update()\<close>.
  The state of a run is the game and the frames presented so far.
\<close>

definition frame_present ::
  "config \<Rightarrow> assets \<Rightarrow> frame_env \<Rightarrow> game \<times> screen list \<Rightarrow> (game \<times> screen list) result" where
  "frame_present cfg a env s =
     and_then (frame cfg env (fst s))
       (\<lambda>g'. and_then (draw cfg a g') (\<lambda>scr. Inr (g', snd s @ [scr])))"

definition play ::
  "config \<Rightarrow> assets \<Rightarrow> frame_env list \<Rightarrow> game \<times> screen list \<Rightarrow> (game \<times> screen list) result" where
  "play cfg a = for_each (frame_present cfg a)"

lemmas play_defs [fb_defs] = frame_present_def play_def

text \<open>The assets of the examples: a pipe sprite of 52 by 320 pixels and a fixed-pitch font.\<close>

abbreviation demo_assets :: assets where
  "demo_assets \<equiv> \<lparr>pipe_size = (52, 320), text_size = (\<lambda>f s. (20 * int (length s), 30))\<rparr>"

section \<open>Specification: the scene\<close>

text \<open>
  What a frame shows, back to front: the background, the two segments of each pipe in
  spawn order, the bird, the score, and the overlay of the phase.
\<close>

definition segments :: "config \<Rightarrow> pipe \<Rightarrow> screen" where
  "segments cfg p =
     [Blit (scaled (flip pipe_img False True) PIPE_WIDTH (pipe_top p)) (of_int (pipe_x p)) 0,
      Blit (scaled pipe_img PIPE_WIDTH (bottom_h cfg p)) (of_int (pipe_x p)) (of_int (bottom_y p))]"

definition label :: "config \<Rightarrow> assets \<Rightarrow> surface \<Rightarrow> int \<Rightarrow> blit_cmd" where
  "label cfg a s y = Blit s (centred cfg a s) (of_int y)"

definition overlay :: "config \<Rightarrow> assets \<Rightarrow> phase \<Rightarrow> screen" where
  "overlay cfg a ph =
     (case ph of
        Idle \<Rightarrow> [label cfg a (render smallfont ''Tap or press SPACE to start'' True white)
                   (HEIGHT cfg div 2)]
      | Running \<Rightarrow> []
      | GameOver \<Rightarrow>
          [label cfg a (render font ''GAME OVER'' True (255, 100, 100)) (HEIGHT cfg div 2 - 40),
           label cfg a (render smallfont ''Tap or SPACE to Restart'' True white)
             (HEIGHT cfg div 2 + 10)])"

definition bird_blit :: "game \<Rightarrow> blit_cmd" where
  "bird_blit g = Blit bird_img (bird_x (bird g)) (bird_y (bird g))"

definition scene :: "config \<Rightarrow> assets \<Rightarrow> game \<Rightarrow> screen" where
  "scene cfg a g =
     Blit bg_img 0 0 # concat (map (segments cfg) (pipes g)) @
     [bird_blit g, label cfg a (render font (str (score g)) True white) 20] @
     overlay cfg a (phase_of g)"

text \<open>The pixels a blit covers: the surface's size at the truncated destination.\<close>

definition area :: "config \<Rightarrow> assets \<Rightarrow> blit_cmd \<Rightarrow> rect" where
  "area cfg a b =
     Rect (blit_x b) (blit_y b) (of_int (fst (get_size cfg a (blit_src b))))
       (of_int (snd (get_size cfg a (blit_src b))))"

definition drawable :: "config \<Rightarrow> pipe \<Rightarrow> bool" where
  "drawable cfg p \<longleftrightarrow> 0 \<le> pipe_top p \<and> 0 \<le> bottom_h cfg p"

text \<open>Reading a decimal numeral back.\<close>

definition digit_val :: "char \<Rightarrow> nat" where
  "digit_val c = of_char c - 48"

definition num_of :: "string \<Rightarrow> nat" where
  "num_of cs = foldl (\<lambda>n c. 10 * n + digit_val c) 0 cs"

definition int_of_str :: "string \<Rightarrow> int" where
  "int_of_str cs = (case cs of [] \<Rightarrow> 0
     | c # cs' \<Rightarrow> if c = CHR ''-'' then - int (num_of cs') else int (num_of cs))"

text \<open>
  What a player reads as the score on a frame: the texts in the large font and in white,
  each read as a decimal numeral. The other texts of the program are in the small font or
  in red.
\<close>

fun score_texts :: "screen \<Rightarrow> string list" where
  "score_texts [] = []"
| "score_texts (Blit (render f s aa c) x y # scr) =
     (if f = font \<and> c = white then s # score_texts scr else score_texts scr)"
| "score_texts (b # scr) = score_texts scr"

definition shown_scores :: "screen \<Rightarrow> int list" where
  "shown_scores scr = map int_of_str (score_texts scr)"

section \<open>Lemmas: str\<close>

lemma digit_val_digit_char [simp]: "d < 10 \<Longrightarrow> digit_val (digit_char d) = d"
proof -
  assume "d < 10"
  then have "d \<in> {0, 1, 2, 3, 4, 5, 6, 7, 8, 9}" by auto
  then show ?thesis by (auto simp: digit_val_def digit_char_def)
qed

lemma digit_char_not_minus [simp]: "d < 10 \<Longrightarrow> digit_char d \<noteq> CHR ''-''"
proof -
  assume "d < 10"
  then have "d \<in> {0, 1, 2, 3, 4, 5, 6, 7, 8, 9}" by auto
  then show ?thesis by (auto simp: digit_char_def)
qed

lemma num_of_snoc [simp]: "num_of (cs @ [c]) = 10 * num_of cs + digit_val c"
  by (simp add: num_of_def)

lemma num_of_single [simp]: "num_of [c] = digit_val c"
  by (simp add: num_of_def)

lemma num_of_digits [simp]: "num_of (digits n) = n"
proof (induction n rule: digits.induct)
  case (1 n)
  show ?case
  proof (cases "n < 10")
    case True
    then show ?thesis by (simp add: digits.simps [of n])
  next
    case False
    with 1 show ?thesis by (simp add: digits.simps [of n])
  qed
qed

lemma digits_not_Nil [simp]: "digits n \<noteq> []"
  by (subst digits.simps) simp

lemma hd_digits_not_minus [simp]: "hd (digits n) \<noteq> CHR ''-''"
proof (induction n rule: digits.induct)
  case (1 n)
  show ?case
  proof (cases "n < 10")
    case True
    then show ?thesis by (simp add: digits.simps [of n])
  next
    case False
    with 1 show ?thesis by (simp add: digits.simps [of n])
  qed
qed

text \<open>Reading the numeral that \<open>str\<close> produces gives the number back.\<close>

lemma int_of_str_str [simp]: "int_of_str (str i) = i"
proof (cases "i < 0")
  case True
  then show ?thesis by (simp add: int_of_str_def str_def)
next
  case False
  obtain c cs where d: "digits (nat i) = c # cs" by (cases "digits (nat i)") simp_all
  with hd_digits_not_minus [of "nat i"] have "c \<noteq> CHR ''-''" by simp
  moreover have "num_of (c # cs) = nat i" using num_of_digits [of "nat i"] d by simp
  ultimately show ?thesis using False d by (simp add: int_of_str_def str_def)
qed

section \<open>Lemmas: drawing\<close>

lemma smoothscale_eq:
  "smoothscale s (w, h) = (if 0 \<le> w \<and> 0 \<le> h then Inr (scaled s w h) else Inl ValueError)"
  by (auto simp: smoothscale_def)

lemma draw_pipe_eq:
  "draw_pipe cfg p scr =
     (if drawable cfg p then Inr (scr @ segments cfg p) else Inl ValueError)"
  by (simp add: draw_pipe_def smoothscale_eq drawable_def segments_def blit_def Let_def
      bottom_h_def bottom_y_def PIPE_WIDTH_def)

lemma draw_pipes_eq:
  "for_each (draw_pipe cfg) ps scr =
     (if list_all (drawable cfg) ps then Inr (scr @ concat (map (segments cfg) ps))
      else Inl ValueError)"
  by (induction ps arbitrary: scr) (simp_all add: draw_pipe_eq)

lemma draw_overlays:
  "draw_game_over cfg a g (draw_start_prompt cfg a g scr) = scr @ overlay cfg a (phase_of g)"
  by (simp add: draw_game_over_def draw_start_prompt_def overlay_def phase_of_def blit_def
      label_def Let_def)

lemma draw_eq:
  "draw cfg a g =
     (if list_all (drawable cfg) (pipes g) then Inr (scene cfg a g) else Inl ValueError)"
  by (simp add: draw_def draw_pipes_eq draw_overlays scene_def draw_score_def draw_bird_def
      bird_blit_def label_def blit_def Let_def)

text \<open>Only the score is a text in the large white font.\<close>

lemma score_texts_append: "score_texts (xs @ ys) = score_texts xs @ score_texts ys"
  by (induction xs rule: score_texts.induct) simp_all

lemma score_texts_segments [simp]: "score_texts (concat (map (segments cfg) ps)) = []"
  by (induction ps) (simp_all add: segments_def score_texts_append)

lemma score_texts_overlay [simp]: "score_texts (overlay cfg a ph) = []"
  by (cases ph) (simp_all add: overlay_def label_def white_def)

lemma top_in_range_drawable: "top_in_range cfg p \<Longrightarrow> drawable cfg p"
  using top_in_range_segments [of cfg p] by (simp add: drawable_def)

lemma game_inv_drawable: "game_inv cfg g \<Longrightarrow> list_all (drawable cfg) (pipes g)"
  by (auto simp: game_inv_def pipes_ok_def pipe_ok_def list_all_iff top_in_range_drawable)

lemma area_segments:
  "map (area cfg a) (segments cfg p) = [top_rect p, bottom_rect cfg p]"
  by (simp add: area_def segments_def top_rect_def bottom_rect_def bottom_h_def bottom_y_def)

lemma area_bird_blit: "bird_ok cfg (bird g) \<Longrightarrow> area cfg a (bird_blit g) = brect g"
  by (simp add: area_def bird_blit_def brect_def bird_ok_def)

lemma list_ex_segments:
  "list_ex (\<lambda>b. rect_overlap br (area cfg a b)) (concat (map (segments cfg) ps)) \<longleftrightarrow>
   list_ex (pipe_hit cfg br) ps"
proof (induction ps)
  case Nil
  show ?case by simp
next
  case (Cons p ps)
  have "list_ex (\<lambda>b. rect_overlap br (area cfg a b)) (segments cfg p) \<longleftrightarrow> pipe_hit cfg br p"
    using area_segments [of cfg a p] by (simp add: segments_def pipe_hit_def)
  with Cons show ?case by simp
qed

lemma centred_within_one:
  "\<bar>2 * centred cfg a s + of_int (get_width cfg a s) - of_int (WIDTH cfg)\<bar> \<le> 1"
proof -
  have "\<bar>2 * (WIDTH cfg div 2 - get_width cfg a s div 2) + get_width cfg a s - WIDTH cfg\<bar> \<le> 1"
    by presburger
  then have "\<bar>of_int (2 * (WIDTH cfg div 2 - get_width cfg a s div 2)
      + get_width cfg a s - WIDTH cfg) :: rat\<bar> \<le> 1"
    by (simp only: flip: of_int_abs)
  then show ?thesis by (simp add: centred_def)
qed

section \<open>Lemmas: the loop with its drawing\<close>

lemma frame_present_eq:
  assumes "game_inv cfg g" and "0 \<le> WIDTH cfg"
  shows "frame_present cfg a env (g, out) =
     and_then (frame cfg env g) (\<lambda>g'. Inr (g', out @ [scene cfg a g']))"
proof (cases "frame cfg env g")
  case (Inl e)
  then show ?thesis by (simp add: frame_present_def)
next
  case (Inr g')
  with assms have "game_inv cfg g'" by (simp add: game_inv_frame [of cfg g env g'])
  with Inr show ?thesis by (simp add: frame_present_def draw_eq game_inv_drawable)
qed

lemma play_Nil [simp]: "play cfg a [] s = Inr s"
  by (simp add: play_def)

lemma play_Cons [simp]:
  "play cfg a (env # envs) s = and_then (frame_present cfg a env s) (play cfg a envs)"
  by (simp add: play_def)

lemma play_run:
  assumes "game_inv cfg g" and "0 \<le> WIDTH cfg"
  shows "map_sum id fst (play cfg a envs (g, out)) = run cfg envs g"
  using assms
proof (induction envs arbitrary: g out)
  case Nil
  show ?case by simp
next
  case (Cons env envs)
  show ?case
  proof (cases "frame cfg env g")
    case (Inl e)
    with Cons.prems show ?thesis by (simp add: frame_present_eq)
  next
    case (Inr g')
    with Cons.prems have "game_inv cfg g'" by (simp add: game_inv_frame [of cfg g env g'])
    with Cons.IH Inr Cons.prems show ?thesis by (simp add: frame_present_eq)
  qed
qed

lemma play_frames:
  assumes "game_inv cfg g" and "0 \<le> WIDTH cfg" and "play cfg a envs (g, out) = Inr (g', out')"
  shows "length out' = length out + length envs \<and> (envs \<noteq> [] \<longrightarrow> last out' = scene cfg a g')"
  using assms
proof (induction envs arbitrary: g out)
  case Nil
  then show ?case by simp
next
  case (Cons env envs)
  from Cons.prems obtain g1 where f: "frame cfg env g = Inr g1"
    and rest: "play cfg a envs (g1, out @ [scene cfg a g1]) = Inr (g', out')"
    by (auto simp: frame_present_eq and_then_eq_Inr_iff)
  from Cons.prems(1,2) f have inv: "game_inv cfg g1" by (rule game_inv_frame)
  show ?case
  proof (cases envs)
    case Nil
    with rest show ?thesis by auto
  next
    case (Cons e es)
    with Cons.IH [OF inv Cons.prems(2) rest] show ?thesis by simp
  qed
qed

section \<open>Properties of the renderer\<close>

text \<open>C11. Drawing implements the scene of the specification. On a state that satisfies
  the invariant, drawing does not raise and the frame it presents is, back to front, the
  background, the two segments of each pipe in spawn order, the bird, the centred score,
  and the overlay of the phase: the start prompt in Idle, nothing in Running, the two
  game-over lines in GameOver.\<close>

theorem draw_refines_scene:
  assumes "game_inv cfg g"
  shows "draw cfg a g = Inr (scene cfg a g)"
  using assms by (simp add: draw_eq game_inv_drawable)

theorem draw_refines_scene_witness:
  "draw demo_cfg demo_assets demo_game =
     Inr [Blit bg_img 0 0,
          Blit (scaled (flip pipe_img False True) 70 40) 487 0,
          Blit (scaled pipe_img 70 520) 487 200,
          Blit bird_img (432 / 5) (7829 / 20),
          Blit (render font ''0'' True (255, 255, 255)) 230 20]"
  using draw_refines_scene [OF game_inv_demo_game, of demo_assets]
  by (simp add: scene_def segments_def bird_blit_def label_def overlay_def centred_def
      get_width_def str_def digits.simps digit_char_def white_def bottom_h_def bottom_y_def
      PIPE_WIDTH_def PIPE_GAP_def GROUND_def)

text \<open>C34. Drawing raises exactly when some pipe of the list has a segment of negative
  height, and then with the \<open>ValueError\<close> of \<open>smoothscale\<close>; nothing else in the
  drawing code can stop the program.\<close>

theorem draw_raises_iff:
  "draw cfg a g = Inl e \<longleftrightarrow> e = ValueError \<and> list_ex (\<lambda>p. \<not> drawable cfg p) (pipes g)"
  by (auto simp: draw_eq list_all_iff list_ex_iff)

text \<open>C17. Drawing changes neither the game nor the course of the loop. From a state that
  satisfies the invariant, the loop with its drawing stops or continues exactly as the
  loop without it and ends in the same state; it presents one frame per iteration, and
  the last frame presented is the scene of the final state.\<close>

theorem play_refines_run:
  assumes "game_inv cfg g" and "0 \<le> WIDTH cfg"
  shows "map_sum id fst (play cfg a envs (g, out)) = run cfg envs g \<and>
         (\<forall>g' out'. play cfg a envs (g, out) = Inr (g', out') \<longrightarrow>
            length out' = length out + length envs \<and>
            (envs \<noteq> [] \<longrightarrow> last out' = scene cfg a g'))"
  using assms by (simp add: play_run play_frames)

theorem play_refines_run_witness:
  "map_sum id fst (play demo_cfg demo_assets [spawn_env, tap_env] (boot demo_cfg 0, [])) =
     run demo_cfg [spawn_env, tap_env] (boot demo_cfg 0) \<and>
   (\<exists>g' out'. play demo_cfg demo_assets [spawn_env, tap_env] (boot demo_cfg 0, []) = Inr (g', out') \<and>
      length out' = 2 \<and> last out' = scene demo_cfg demo_assets g')"
proof -
  obtain g' where r: "run demo_cfg [spawn_env, tap_env] (boot demo_cfg 0) = Inr g'"
    using frame_total [of demo_cfg tap_env demo_game]
    by (auto simp: frame_demo_game tall_enough_def)
  note p = play_refines_run [OF game_inv_boot, of demo_cfg demo_assets "[spawn_env, tap_env]" 0 "[]"]
  from p r obtain out' where
    "play demo_cfg demo_assets [spawn_env, tap_env] (boot demo_cfg 0, []) = Inr (g', out')"
    by (cases "play demo_cfg demo_assets [spawn_env, tap_env] (boot demo_cfg 0, [])") auto
  with p show ?thesis by auto
qed

text \<open>C23. What is drawn is what is hit. In a state that satisfies the invariant, the bird
  hits a pipe exactly when the pixels of the bird's sprite and the pixels of a drawn pipe
  segment share a grid point: the rectangles of the collision check are the areas of the
  blits.\<close>

theorem drawn_is_hit:
  assumes "game_inv cfg g"
  shows "hits_pipe cfg g \<longleftrightarrow>
     list_ex (\<lambda>b. rect_overlap (area cfg a (bird_blit g)) (area cfg a b))
       (concat (map (segments cfg) (pipes g)))"
proof -
  from assms have "area cfg a (bird_blit g) = brect g"
    by (simp add: area_bird_blit game_inv_def)
  then show ?thesis by (simp add: list_ex_segments hits_pipe_def)
qed

theorem drawn_is_hit_witness:
  "\<not> hits_pipe demo_cfg demo_game \<and>
   \<not> list_ex (\<lambda>b. rect_overlap (area demo_cfg demo_assets (bird_blit demo_game))
                    (area demo_cfg demo_assets b))
       (concat (map (segments demo_cfg) (pipes demo_game)))"
proof -
  have "\<not> hits_pipe demo_cfg demo_game"
    by (simp add: hits_pipe_def pipe_hit_iff in_column_def)
  with drawn_is_hit [OF game_inv_demo_game, of demo_assets] show ?thesis by simp
qed

text \<open>The score and the overlay texts are centred: for every text of a frame, the
  middle of the text is within half a pixel of the middle of the window, whatever the
  font makes of its width.\<close>

theorem labels_centred:
  "\<forall>b \<in> set (label cfg a (render font (str (score g)) True white) 20 # overlay cfg a ph).
     \<bar>2 * blit_x b + of_int (get_width cfg a (blit_src b)) - of_int (WIDTH cfg)\<bar> \<le> 1"
  by (cases ph) (simp_all add: overlay_def label_def centred_within_one)

theorem labels_centred_witness:
  "map blit_x (label demo_cfg demo_assets (render font (str 12) True white) 20 #
               overlay demo_cfg demo_assets GameOver) = [220, 150, 10] \<and>
   map (\<lambda>b. get_width demo_cfg demo_assets (blit_src b))
     (label demo_cfg demo_assets (render font (str 12) True white) 20 #
      overlay demo_cfg demo_assets GameOver) = [40, 180, 460]"
  using labels_centred [of demo_cfg demo_assets "demo_game\<lparr>score := 12\<rparr>" GameOver]
  by (simp add: overlay_def label_def centred_def get_width_def str_def digits.simps)

text \<open>C24. The frame shows the score. Every frame that the program draws holds exactly one
  text in the large white font, and reading that text as a decimal numeral gives the
  score of the state drawn: \<open>draw_score\<close> renders \<open>str(score)\<close> of the current
  score, \<open>str\<close> loses no digit and no sign, and no overlay text can be taken for a
  score.\<close>

theorem score_shown:
  assumes "draw cfg a g = Inr scr"
  shows "shown_scores scr = [score g]"
proof -
  from assms have "scr = scene cfg a g" by (simp add: draw_eq split: if_splits)
  then show ?thesis
    by (simp add: shown_scores_def scene_def score_texts_append bird_blit_def label_def
        int_of_str_str)
qed

theorem score_shown_witness:
  "\<exists>scr. draw demo_cfg demo_assets
           (demo_game\<lparr>score := 12, running := False, game_over := True\<rparr>) = Inr scr \<and>
         score_texts scr = [''12''] \<and> shown_scores scr = [12]"
proof -
  let ?g = "demo_game\<lparr>score := 12, running := False, game_over := True\<rparr>"
  obtain scr where d: "draw demo_cfg demo_assets ?g = Inr scr"
    and t: "score_texts scr = [''12'']"
    by (simp add: fb_defs Let_def digits.simps digit_char_def)
  from score_shown [OF d] have "shown_scores scr = [12]" by simp
  with d t show ?thesis by blast
qed

end
