(* ===== verification/FB_Clock.thy ===== *)
theory FB_Clock
  imports FB_Progress FB_Render
begin

text \<open>
  Frame pacing of \<open>src/flappybird.py\<close>: the \<open>pygame.time.Clock\<close> created at start-up
  and the call \<open>clock.tick(FPS)\<close> that opens every iteration of the main loop, the loop
  with its clock, and what the clock means for the game: the physics runs once per frame
  and the spawn timer runs on wall-clock time, so the distance between two pipes is the
  number of frames that fit into 1.5 seconds.
\<close>

section \<open>The clock\<close>

record clock =
  last_tick :: int

text \<open>\<open>pygame.time.Clock()\<close> at time \<open>now\<close>.\<close>

definition Clock :: "int \<Rightarrow> clock" where
  "Clock now = \<lparr>last_tick = now\<rparr>"

text \<open>
  \<open>clock.tick(framerate)\<close>, entered at time \<open>now\<close>: when less than
  \<open>1000 // framerate\<close> milliseconds have passed since the last tick, it sleeps for the
  rest, and the sleep may last longer than asked by \<open>late\<close>. It returns the
  milliseconds since the last tick and remembers the time.
\<close>

definition tick :: "int \<Rightarrow> int \<Rightarrow> int \<Rightarrow> clock \<Rightarrow> int \<times> clock" where
  "tick framerate now late c =
     (let endtime = 1000 div framerate;
          rawpassed = now - last_tick c;
          delay = max 0 (endtime - rawpassed);
          nowtime = now + delay + late
      in (nowtime - last_tick c, c\<lparr>last_tick := nowtime\<rparr>))"

section \<open>The loop with its clock\<close>

text \<open>
  What one iteration reads from outside, now with the time at which it enters
  \<open>clock.tick\<close> and the lateness of the sleep.
\<close>

record timed_env = frame_env +
  arrival :: int
  oversleep :: int

definition timed_frame ::
  "config \<Rightarrow> assets \<Rightarrow> timed_env \<Rightarrow> clock \<times> game \<times> screen list \<Rightarrow>
     (clock \<times> game \<times> screen list) result" where
  "timed_frame cfg a te s =
     (let (dt, c) = tick FPS (arrival te) (oversleep te) (fst s)
      in and_then (frame_present cfg a (frame_env.truncate te) (snd s)) (\<lambda>s'. Inr (c, s')))"

definition timed_play ::
  "config \<Rightarrow> assets \<Rightarrow> timed_env list \<Rightarrow> clock \<times> game \<times> screen list \<Rightarrow>
     (clock \<times> game \<times> screen list) result" where
  "timed_play cfg a = for_each (timed_frame cfg a)"

lemmas clock_defs [fb_defs] = Clock_def tick_def timed_frame_def timed_play_def

section \<open>Specification\<close>

text \<open>The time after a tick.\<close>

definition tick_end :: "clock \<Rightarrow> timed_env \<Rightarrow> int" where
  "tick_end c te = last_tick (snd (tick FPS (arrival te) (oversleep te) c))"

text \<open>
  Time does not run backwards: the loop arrives at the tick after the last tick, the sleep
  is not shorter than asked, and the readings of the frame follow the tick in the order in
  which the code takes them.
\<close>

definition readings_ok :: "clock \<Rightarrow> timed_env \<Rightarrow> bool" where
  "readings_ok c te \<longleftrightarrow>
     last_tick c \<le> arrival te \<and> 0 \<le> oversleep te \<and>
     list_all (\<lambda>et. tick_end c te \<le> snd et \<and> snd et \<le> ticks_check te) (events te) \<and>
     tick_end c te \<le> ticks_check te \<and> ticks_check te \<le> ticks_stamp te"

fun timeline_ok :: "clock \<Rightarrow> timed_env list \<Rightarrow> bool" where
  "timeline_ok c [] \<longleftrightarrow> True"
| "timeline_ok c (te # tes) \<longleftrightarrow>
     readings_ok c te \<and>
     (case tes of [] \<Rightarrow> True | te' # _ \<Rightarrow> ticks_stamp te \<le> arrival te') \<and>
     timeline_ok \<lparr>last_tick = tick_end c te\<rparr> tes"

text \<open>
  A clock that is steady up to \<open>d\<close> milliseconds: from one spawn test to the next no
  more than \<open>d\<close> pass, and the two readings of a frame are in order.
\<close>

fun steady :: "int \<Rightarrow> int \<Rightarrow> frame_env list \<Rightarrow> bool" where
  "steady d prev [] \<longleftrightarrow> True"
| "steady d prev (env # envs) \<longleftrightarrow>
     ticks_check env - prev \<le> d \<and> ticks_check env \<le> ticks_stamp env \<and>
     steady d (ticks_check env) envs"

text \<open>The least distance between two pipes under a clock steady up to \<open>d\<close>.\<close>

definition min_gap :: "int \<Rightarrow> int" where
  "min_gap d = (1500 * PIPE_SPEED) div d + 1"

definition gapped :: "int \<Rightarrow> pipe list \<Rightarrow> bool" where
  "gapped d ps \<longleftrightarrow> sorted_wrt (\<lambda>p q. pipe_x p + min_gap d \<le> pipe_x q) ps"

text \<open>
  The invariant behind the distance: while the game runs, the newest pipe has moved at
  least \<open>PIPE_SPEED\<close> pixels for every \<open>d\<close> milliseconds since it was spawned.
\<close>

definition timing_inv :: "config \<Rightarrow> int \<Rightarrow> int \<Rightarrow> game \<Rightarrow> bool" where
  "timing_inv cfg d now g \<longleftrightarrow>
     game_inv cfg g \<and> gapped d (pipes g) \<and>
     (phase_of g = Idle \<longrightarrow> pipes g = []) \<and>
     (phase_of g = Running \<longrightarrow> pipes g \<noteq> [] \<longrightarrow>
        PIPE_SPEED * (now - last_spawn g) \<le> d * (WIDTH cfg + 7 - pipe_x (last (pipes g))))"

text \<open>The frame of the examples in which the player clicks at time \<open>t\<close>.\<close>

abbreviation tap_at :: "int \<Rightarrow> frame_env" where
  "tap_at t \<equiv> \<lparr>events = [(MOUSEBUTTONDOWN, t)], ticks_check = t, ticks_stamp = t, entropy = 0\<rparr>"

text \<open>A frame without input, entered at \<open>a\<close>, with its readings at \<open>t\<close>.\<close>

abbreviation idle_at :: "int \<Rightarrow> int \<Rightarrow> timed_env" where
  "idle_at a t \<equiv>
     \<lparr>events = [], ticks_check = t, ticks_stamp = t, entropy = 0, arrival = a, oversleep = 0\<rparr>"

section \<open>Lemmas: the clock\<close>

lemma clock_update [simp]: "c\<lparr>last_tick := t\<rparr> = \<lparr>last_tick = t\<rparr>"
  by (cases c) simp

lemma tick_fields:
  assumes "0 < framerate"
  shows "last_tick (snd (tick framerate now late c)) =
           max now (last_tick c + 1000 div framerate) + late"
    and "fst (tick framerate now late c) =
           max now (last_tick c + 1000 div framerate) + late - last_tick c"
  by (simp_all add: tick_def Let_def max_def)

lemma tick_end_eq: "tick_end c te = max (arrival te) (last_tick c + 16) + oversleep te"
  by (simp add: tick_end_def tick_fields FPS_def)

lemma truncate_fields [simp]:
  "events (frame_env.truncate te) = events te"
  "ticks_check (frame_env.truncate te) = ticks_check te"
  "ticks_stamp (frame_env.truncate te) = ticks_stamp te"
  "entropy (frame_env.truncate te) = entropy te"
  by (simp_all add: frame_env.truncate_def)

lemma timed_frame_eq:
  "timed_frame cfg a te (c, s) =
     and_then (frame_present cfg a (frame_env.truncate te) s)
       (\<lambda>s'. Inr (\<lparr>last_tick = tick_end c te\<rparr>, s'))"
  by (simp add: timed_frame_def tick_end_def tick_def Let_def)

lemma timed_play_Nil [simp]: "timed_play cfg a [] s = Inr s"
  by (simp add: timed_play_def)

lemma timed_play_Cons [simp]:
  "timed_play cfg a (te # tes) s = and_then (timed_frame cfg a te s) (timed_play cfg a tes)"
  by (simp add: timed_play_def)

text \<open>The clock does not influence the game: without it the loop is \<open>play\<close>.\<close>

lemma timed_play_eq:
  "timed_play cfg a tes (c, s) =
     and_then (play cfg a (map frame_env.truncate tes) s)
       (\<lambda>s'. Inr (foldl (\<lambda>c te. \<lparr>last_tick = tick_end c te\<rparr>) c tes, s'))"
proof (induction tes arbitrary: c s)
  case Nil
  show ?case by simp
next
  case (Cons te tes)
  show ?case
  proof (cases "frame_present cfg a (frame_env.truncate te) s")
    case (Inl e)
    then show ?thesis by (simp add: timed_frame_eq)
  next
    case (Inr s')
    with Cons show ?thesis by (simp add: timed_frame_eq)
  qed
qed

lemma timeline_clock:
  assumes "timeline_ok c tes"
  shows "last_tick c + 16 * int (length tes) \<le>
         last_tick (foldl (\<lambda>c te. \<lparr>last_tick = tick_end c te\<rparr>) c tes)"
  using assms
proof (induction tes arbitrary: c)
  case Nil
  show ?case by simp
next
  case (Cons te tes)
  then have "0 \<le> oversleep te" and ok: "timeline_ok \<lparr>last_tick = tick_end c te\<rparr> tes"
    by (simp_all add: readings_ok_def)
  then have "last_tick c + 16 \<le> tick_end c te" by (simp add: tick_end_eq)
  with Cons.IH [OF ok] show ?case by simp
qed

text \<open>In a timeline that is in order the spawn tests do not go back in time.\<close>

lemma timeline_monotone:
  assumes "timeline_ok c (te # te' # tes)"
  shows "ticks_check te \<le> ticks_check te'"
proof -
  from assms have 1: "ticks_check te \<le> ticks_stamp te" "ticks_stamp te \<le> arrival te'"
    and 2: "readings_ok \<lparr>last_tick = tick_end c te\<rparr> te'"
    by (simp_all add: readings_ok_def)
  from 2 have "max (arrival te') (tick_end c te + 16) + oversleep te' \<le> ticks_check te'"
    and "0 \<le> oversleep te'"
    by (simp_all add: readings_ok_def tick_end_eq [of "\<lparr>last_tick = tick_end c te\<rparr>"])
  then have "arrival te' \<le> ticks_check te'" by linarith
  with 1 show ?thesis by simp
qed

section \<open>Lemmas: pipes under a steady clock\<close>

lemma gapped_Nil [simp]: "gapped d []"
  by (simp add: gapped_def)

lemma gapped_step [simp]: "gapped d (map (step_pipe bx) ps) = gapped d ps"
  by (simp add: gapped_def sorted_wrt_map)

lemma gapped_filter: "gapped d ps \<Longrightarrow> gapped d (filter P ps)"
  by (simp add: gapped_def sorted_wrt_filter)

lemma gapped_snoc:
  "gapped d (ps @ [p]) \<longleftrightarrow> gapped d ps \<and> list_all (\<lambda>q. pipe_x q + min_gap d \<le> pipe_x p) ps"
  by (auto simp: gapped_def sorted_wrt_append list_all_iff)

lemma x_sorted_le_last:
  assumes "x_sorted ps" and "p \<in> set ps"
  shows "pipe_x p \<le> pipe_x (last ps)"
  using assms
proof (induction ps rule: rev_induct)
  case Nil
  then show ?case by simp
next
  case (snoc q ps)
  then show ?case by (auto simp: x_sorted_snoc list_all_iff less_imp_le)
qed

lemma last_filter_last:
  assumes "ps \<noteq> []" and "P (last ps)"
  shows "last (filter P ps) = last ps"
  using assms by (induction ps rule: rev_induct) simp_all

lemma last_filter_on_screen:
  assumes "x_sorted ps" and "filter on_screen ps \<noteq> []"
  shows "last (filter on_screen ps) = last ps"
proof -
  from assms(2) obtain p where p: "p \<in> set ps" "on_screen p"
    by (auto simp: filter_empty_conv)
  then have ne: "ps \<noteq> []" by auto
  from assms(1) p(1) have "pipe_x p \<le> pipe_x (last ps)" by (rule x_sorted_le_last)
  with p(2) have "on_screen (last ps)" by (simp add: on_screen_def)
  with ne show ?thesis by (rule last_filter_last)
qed

lemma gap_from_product:
  fixes d y :: int
  assumes "0 < d" and "1500 * PIPE_SPEED < d * y"
  shows "min_gap d \<le> y"
proof (rule ccontr)
  assume "\<not> min_gap d \<le> y"
  then have "y \<le> (1500 * PIPE_SPEED) div d" by (simp add: min_gap_def)
  with assms(1) have "d * y \<le> d * ((1500 * PIPE_SPEED) div d)" by simp
  also from assms(1) have "\<dots> \<le> 1500 * PIPE_SPEED"
    using mult_div_mod_eq [of d "1500 * PIPE_SPEED"] pos_mod_sign [of d "1500 * PIPE_SPEED"]
    by linarith
  finally show False using assms(2) by simp
qed

section \<open>Lemmas: the frames keep the timing invariant\<close>

lemma timing_inv_primary_action:
  assumes "timing_inv cfg d now g"
  shows "timing_inv cfg d now (primary_action cfg t g)"
proof (cases "game_over g")
  case True
  with assms show ?thesis by (simp add: timing_inv_def game_inv_reset)
next
  case False
  with assms have "phase_of g = Idle \<or> phase_of g = Running" by (simp add: phase_of_def)
  with assms False show ?thesis
    by (auto simp: timing_inv_def game_inv_flap)
qed

lemma timing_inv_handle_event:
  assumes "timing_inv cfg d now g" and "handle_event cfg et g = Inr g'"
  shows "timing_inv cfg d now g'"
  using assms
  by (cases et) (auto simp: handle_event_Inr_iff timing_inv_primary_action split: if_splits)

lemma timing_inv_handle_events:
  assumes "timing_inv cfg d now g" and "handle_events cfg evs g = Inr g'"
  shows "timing_inv cfg d now g'"
  using assms unfolding handle_events_def
  by (rule for_each_invariant [where P = "timing_inv cfg d now", rotated])
     (rule timing_inv_handle_event)

text \<open>The newest pipe after a pass of the game logic that did not spawn.\<close>

lemma timing_after_move:
  assumes srt: "x_sorted ps" and ne: "filter on_screen (map (step_pipe bx) ps) \<noteq> []"
    and old: "PIPE_SPEED * (now - ls) \<le> d * (hi - pipe_x (last ps))"
    and st: "t - now \<le> d"
  shows "PIPE_SPEED * (t - ls) \<le>
         d * (hi - pipe_x (last (filter on_screen (map (step_pipe bx) ps))))"
proof -
  from ne have ps: "ps \<noteq> []" by auto
  from srt have "x_sorted (map (step_pipe bx) ps)" by simp
  then have "last (filter on_screen (map (step_pipe bx) ps)) = last (map (step_pipe bx) ps)"
    using ne by (rule last_filter_on_screen)
  with ps have x: "pipe_x (last (filter on_screen (map (step_pipe bx) ps))) =
      pipe_x (last ps) - PIPE_SPEED"
    by (simp add: last_map)
  from st have "PIPE_SPEED * (t - ls) \<le> PIPE_SPEED * (now - ls) + PIPE_SPEED * d"
    by (simp add: PIPE_SPEED_def)
  also from old have "\<dots> \<le> d * (hi - pipe_x (last ps)) + PIPE_SPEED * d" by simp
  also have "\<dots> = d * (hi - (pipe_x (last ps) - PIPE_SPEED))" by (simp add: algebra_simps)
  finally show ?thesis by (simp only: x)
qed

text \<open>The distance of a pipe that is spawned to the pipes before it.\<close>

lemma timing_at_spawn:
  assumes d: "0 < d" and srt: "x_sorted ps" and p: "p \<in> set ps"
    and old: "PIPE_SPEED * (now - ls) \<le> d * (hi - pipe_x (last ps))"
    and st: "t - now \<le> d" and due: "1500 < t - ls"
  shows "pipe_x p + min_gap d \<le> hi + PIPE_SPEED"
proof -
  from st have "PIPE_SPEED * (t - ls) \<le> PIPE_SPEED * (now - ls) + PIPE_SPEED * d"
    by (simp add: PIPE_SPEED_def)
  also from old have "\<dots> \<le> d * (hi - pipe_x (last ps)) + PIPE_SPEED * d" by simp
  also have "\<dots> = d * (hi + PIPE_SPEED - pipe_x (last ps))" by (simp add: algebra_simps)
  finally have "PIPE_SPEED * (t - ls) \<le> d * (hi + PIPE_SPEED - pipe_x (last ps))" .
  moreover from due have "1500 * PIPE_SPEED < PIPE_SPEED * (t - ls)"
    by (simp add: PIPE_SPEED_def)
  ultimately have "1500 * PIPE_SPEED < d * (hi + PIPE_SPEED - pipe_x (last ps))" by simp
  with d have "min_gap d \<le> hi + PIPE_SPEED - pipe_x (last ps)" by (rule gap_from_product)
  moreover from srt p have "pipe_x p \<le> pipe_x (last ps)" by (rule x_sorted_le_last)
  ultimately show ?thesis by simp
qed

lemma timing_inv_logic:
  assumes inv: "timing_inv cfg d now g" and d: "0 < d" and w: "0 \<le> WIDTH cfg"
    and st: "ticks_check env - now \<le> d" and ord: "ticks_check env \<le> ticks_stamp env"
    and step: "game_logic cfg env g = Inr g'"
  shows "timing_inv cfg d (ticks_check env) g'"
proof (cases "running g \<and> \<not> game_over g")
  case False
  with step have "g' = g" "phase_of g \<noteq> Running"
    by (auto simp: game_logic_Inr_iff phase_of_eq_iff)
  with inv show ?thesis by (simp add: timing_inv_def)
next
  case True
  let ?bx = "bird_x (bird g)" and ?t = "ticks_check env"
  from inv have gi: "game_inv cfg g" and gap: "gapped d (pipes g)"
    and old: "pipes g \<noteq> [] \<Longrightarrow>
      PIPE_SPEED * (now - last_spawn g) \<le> d * (WIDTH cfg + 7 - pipe_x (last (pipes g)))"
    using True by (simp_all add: timing_inv_def phase_of_eq_iff)
  from step True obtain g1 where sp: "spawn_pipes cfg env (bird_physics g) = Inr g1"
    and g': "g' = collision cfg (remove_offscreen (move_pipes g1))"
    and ps': "pipes g' = filter on_screen (map (step_pipe ?bx) (pipes g1))"
    by (auto simp: game_logic_Inr_iff spawn_pipes_frame)
  from g' have ls': "last_spawn g' = last_spawn g1" by simp
  from gi w step have gi': "game_inv cfg g'" by (rule game_inv_logic)
  from step have "phase_of g' = phase_on_tick (hits cfg g') (phase_of g)"
    by (rule phase_of_game_logic)
  with True have not_idle: "phase_of g' \<noteq> Idle"
    by (simp add: phase_on_tick_def phase_of_eq_iff)
  from gi w sp have "pipes_ok cfg (start_x cfg) (WIDTH cfg + 10) (pipes g1)"
    by (rule pipes_ok_spawn_pipes)
  then have srt1: "x_sorted (pipes g1)" by (simp add: pipes_ok_def)
  from gi have srt: "x_sorted (pipes g)" by (simp add: game_inv_def pipes_ok_def)
  have "gapped d (pipes g') \<and>
        (pipes g' \<noteq> [] \<longrightarrow>
           PIPE_SPEED * (?t - last_spawn g') \<le> d * (WIDTH cfg + 7 - pipe_x (last (pipes g'))))"
  proof (cases "spawn_due env (bird_physics g)")
    case False
    with sp have same: "pipes g1 = pipes g" "last_spawn g1 = last_spawn g"
      by (auto simp: spawn_pipes_Inr_iff)
    have "PIPE_SPEED * (?t - last_spawn g) \<le> d * (WIDTH cfg + 7 - pipe_x (last (pipes g')))"
      if "pipes g' \<noteq> []"
    proof -
      from that have ne: "filter on_screen (map (step_pipe ?bx) (pipes g)) \<noteq> []"
        by (simp add: ps' same)
      then have "pipes g \<noteq> []" by auto
      with srt ne old st show ?thesis
        unfolding ps' same by (intro timing_after_move) simp_all
    qed
    with gap show ?thesis by (simp add: ps' ls' same gapped_filter)
  next
    case due: True
    with sp obtain t where ps1: "pipes g1 = pipes g @ [new_pipe cfg t]"
      and ls1: "last_spawn g1 = ticks_stamp env"
      by (auto simp: spawn_pipes_Inr_iff)
    from due have late: "1500 < ?t - last_spawn g" by (simp add: spawn_due_def)
    have "pipe_x q + min_gap d \<le> pipe_x (new_pipe cfg t)" if "q \<in> set (pipes g)" for q
    proof -
      from that have "pipes g \<noteq> []" by auto
      with d srt that old st late
      have "pipe_x q + min_gap d \<le> WIDTH cfg + 7 + PIPE_SPEED"
        by (intro timing_at_spawn [where ls = "last_spawn g" and now = now and t = ?t]) simp_all
      then show ?thesis by (simp add: PIPE_SPEED_def)
    qed
    with gap have "gapped d (pipes g1)" by (simp add: ps1 gapped_snoc list_all_iff)
    then have 1: "gapped d (pipes g')" by (simp add: ps' gapped_filter)
    from w have on: "on_screen (step_pipe ?bx (new_pipe cfg t))"
      by (simp add: on_screen_def PIPE_SPEED_def)
    then have "last (pipes g') = step_pipe ?bx (new_pipe cfg t)"
      by (simp add: ps' ps1)
    then have "pipe_x (last (pipes g')) = WIDTH cfg + 7" by (simp add: PIPE_SPEED_def)
    moreover from ord have "PIPE_SPEED * (?t - ticks_stamp env) \<le> 0"
      by (simp add: PIPE_SPEED_def)
    ultimately have "PIPE_SPEED * (?t - last_spawn g') \<le>
        d * (WIDTH cfg + 7 - pipe_x (last (pipes g')))"
      by (simp add: ls' ls1)
    with 1 show ?thesis by simp
  qed
  with gi' not_idle show ?thesis by (simp add: timing_inv_def)
qed

lemma timing_inv_frame:
  assumes "timing_inv cfg d now g" and "0 < d" and "0 \<le> WIDTH cfg"
    and "ticks_check env - now \<le> d" and "ticks_check env \<le> ticks_stamp env"
    and "frame cfg env g = Inr g'"
  shows "timing_inv cfg d (ticks_check env) g'"
proof -
  from assms(6) obtain g1 where ev: "handle_events cfg (events env) g = Inr g1"
    and lg: "game_logic cfg env g1 = Inr g'"
    by (auto simp: frame_Inr_iff)
  from assms(1) ev have "timing_inv cfg d now g1" by (rule timing_inv_handle_events)
  then show ?thesis using assms(2-5) lg by (rule timing_inv_logic)
qed

lemma timing_inv_boot: "timing_inv cfg d now (boot cfg t)"
  by (simp add: timing_inv_def game_inv_boot) (simp add: boot_def)

lemma timing_inv_run:
  assumes "timing_inv cfg d now g" and "0 < d" and "0 \<le> WIDTH cfg"
    and "steady d now envs" and "run cfg envs g = Inr g'"
  shows "\<exists>t. timing_inv cfg d t g'"
  using assms(1,4,5)
proof (induction envs arbitrary: now g)
  case Nil
  then show ?case by auto
next
  case (Cons env envs)
  from Cons.prems(3) obtain g1 where f: "frame cfg env g = Inr g1"
    and r: "run cfg envs g1 = Inr g'"
    by (auto simp: and_then_eq_Inr_iff)
  from Cons.prems(1,2) f assms(2,3) have "timing_inv cfg d (ticks_check env) g1"
    by (intro timing_inv_frame [of cfg d now g env g1]) simp_all
  moreover from Cons.prems(2) have "steady d (ticks_check env) envs" by simp
  ultimately show ?case using r by (rule Cons.IH)
qed

section \<open>Properties of the clock\<close>

text \<open>C18. The clock only paces. The loop with its clock stops or goes on as the loop
  without it, with the same game and the same frames presented; and when time does not
  run backwards, \<open>n\<close> iterations take at least \<open>16 n\<close> milliseconds, so the game
  never runs faster than 62.5 frames per second.\<close>

theorem clock_only_paces:
  "map_sum id snd (timed_play cfg a tes (c, s)) = play cfg a (map frame_env.truncate tes) s \<and>
   (timeline_ok c tes \<longrightarrow>
      (\<forall>c' s'. timed_play cfg a tes (c, s) = Inr (c', s') \<longrightarrow>
         last_tick c + 16 * int (length tes) \<le> last_tick c'))"
proof -
  have "map_sum id snd (timed_play cfg a tes (c, s)) = play cfg a (map frame_env.truncate tes) s"
    by (cases "play cfg a (map frame_env.truncate tes) s") (simp_all add: timed_play_eq)
  moreover have "last_tick c + 16 * int (length tes) \<le> last_tick c'"
    if "timeline_ok c tes" and "timed_play cfg a tes (c, s) = Inr (c', s')" for c' s'
    using that timeline_clock [of c tes] by (auto simp: timed_play_eq and_then_eq_Inr_iff)
  ultimately show ?thesis by blast
qed

theorem clock_only_paces_witness:
  "\<exists>c' s'. timed_play demo_cfg demo_assets [idle_at 5 16, idle_at 20 33]
            (Clock 0, boot demo_cfg 0, []) = Inr (c', s') \<and> last_tick c' = 32"
proof -
  let ?tes = "[idle_at 5 16, idle_at 20 33]"
  obtain c' s' where tp: "timed_play demo_cfg demo_assets ?tes (Clock 0, boot demo_cfg 0, []) =
      Inr (c', s')" and c': "last_tick c' \<le> 32"
    by (simp add: fb_defs Let_def frame_env.truncate_def)
  have "timeline_ok (Clock 0) ?tes"
    by (simp add: readings_ok_def tick_end_eq Clock_def)
  with clock_only_paces [of demo_cfg demo_assets ?tes "Clock 0" "(boot demo_cfg 0, [])"] tp
  have "32 \<le> last_tick c'" by (simp add: Clock_def)
  with tp c' show ?thesis by auto
qed

text \<open>C14. Under a steady clock the pipes keep their distance. When from one spawn test
  to the next at most \<open>d\<close> milliseconds pass, two pipes of any state the loop reaches
  from start-up are at least \<open>4500 div d + 1\<close> pixels apart: 265 pixels at 17 ms per
  frame, which leaves 195 pixels between two pipes 70 pixels wide.\<close>

theorem steady_clock_spacing:
  assumes "0 < d" and "0 \<le> WIDTH cfg" and "steady d now envs"
    and "run cfg envs (boot cfg t0) = Inr g"
  shows "sorted_wrt (\<lambda>p q. pipe_x p + (4500 div d + 1) \<le> pipe_x q) (pipes g)"
proof -
  from timing_inv_run [OF timing_inv_boot assms] have "gapped d (pipes g)"
    by (auto simp: timing_inv_def)
  then show ?thesis by (simp add: gapped_def min_gap_def PIPE_SPEED_def)
qed

theorem steady_clock_spacing_witness:
  "\<exists>g. run demo_cfg [tap_at 1000, tap_at 2000, tap_at 3000, tap_at 4000] (boot demo_cfg 0) = Inr g \<and>
       map pipe_x (pipes g) = [481, 487] \<and>
       sorted_wrt (\<lambda>p q. pipe_x p + 5 \<le> pipe_x q) (pipes g)"
proof -
  let ?envs = "[tap_at 1000, tap_at 2000, tap_at 3000, tap_at 4000]"
  obtain g where r: "run demo_cfg ?envs (boot demo_cfg 0) = Inr g"
    and x: "map pipe_x (pipes g) = [481, 487]"
    by (simp add: fb_defs randint_def Let_def)
  from steady_clock_spacing [of 1000 demo_cfg 0 ?envs 0 g] r
  have s: "sorted_wrt (\<lambda>p q. pipe_x p + 5 \<le> pipe_x q) (pipes g)" by simp
  show ?thesis by (rule exI [of _ g]) (simp only: r x s simp_thms)
qed

text \<open>C26. Slow frames crowd the pipes. The pipes move once per frame and the spawn timer
  runs on the clock, so when the spawn timer has run out again in the frame after a spawn,
  the new pipe is only one step of \<open>PIPE_SPEED\<close> pixels behind the last one: the two
  pipes, 70 pixels wide, overlap.\<close>

theorem slow_frames_crowd_pipes:
  assumes inv: "game_inv cfg g" and w: "0 \<le> WIDTH cfg" and run: "phase_of g = Running"
    and ne: "pipes g \<noteq> []" and fresh: "pipe_x (last (pipes g)) = WIDTH cfg + 7"
    and due: "spawn_due env g" and f: "frame cfg env g = Inr g'"
  shows "\<exists>ps p q. pipes g' = ps @ [p, q] \<and> pipe_x q - pipe_x p = PIPE_SPEED"
proof -
  from f obtain g0 where ev: "handle_events cfg (events env) g = Inr g0"
    and lg: "game_logic cfg env g0 = Inr g'"
    by (auto simp: frame_Inr_iff)
  from ev have "\<not> quits (events env)"
    using handle_events_Inl_iff [of cfg "events env" g SysExit] by auto
  with run ev have g0: "g0 = (if any_primary (events env) then flap g else g)"
    by (simp add: handle_events_not_over phase_of_eq_iff)
  with run have r0: "running g0" "\<not> game_over g0" and same: "pipes g0 = pipes g"
    "last_spawn g0 = last_spawn g"
    by (simp_all add: phase_of_eq_iff)
  let ?bx = "bird_x (bird g0)"
  from lg r0 obtain g1 where sp: "spawn_pipes cfg env (bird_physics g0) = Inr g1"
    and ps': "pipes g' = filter on_screen (map (step_pipe ?bx) (pipes g1))"
    by (auto elim: game_logic_pipes)
  from due same have "spawn_due env (bird_physics g0)" by (simp add: spawn_due_def)
  with sp obtain t where ps1: "pipes g1 = pipes g0 @ [new_pipe cfg t]"
    by (auto simp: spawn_pipes_Inr_iff)
  from ne have split: "pipes g = butlast (pipes g) @ [last (pipes g)]" by simp
  let ?p = "step_pipe ?bx (last (pipes g))" and ?q = "step_pipe ?bx (new_pipe cfg t)"
  from w fresh have "on_screen ?p" "on_screen ?q"
    by (simp_all add: on_screen_def PIPE_SPEED_def)
  then have "pipes g' = filter on_screen (map (step_pipe ?bx) (butlast (pipes g))) @ [?p, ?q]"
    unfolding ps' ps1 same by (subst split) simp
  moreover from fresh have "pipe_x ?q - pipe_x ?p = PIPE_SPEED" by (simp add: PIPE_SPEED_def)
  ultimately show ?thesis by blast
qed

theorem slow_frames_crowd_pipes_witness:
  "\<exists>g' ps p q. frame demo_cfg (tap_at 4000) demo_game = Inr g' \<and>
      pipes g' = ps @ [p, q] \<and> pipe_x p = 484 \<and> pipe_x q = 487"
proof -
  obtain g' where f: "frame demo_cfg (tap_at 4000) demo_game = Inr g'"
    and x: "map pipe_x (pipes g') = [484, 487]"
    by (simp add: fb_defs randint_def Let_def)
  from slow_frames_crowd_pipes [OF game_inv_demo_game _ _ _ _ _ f]
  obtain ps p q where "pipes g' = ps @ [p, q]"
    by (auto simp: spawn_due_def)
  with f x show ?thesis by auto
qed

end
