(* ===== verification/FB_Startup.thy ===== *)
theory FB_Startup
  imports FB_Clock
begin

text \<open>
  Start-up of \<open>src/flappybird.py\<close>: the module's top level before the main loop. It
  reads the display size, opens the window, loads the three images and the two fonts, and
  leaves the values that the rest of the program only reads. The platform (the display and
  the files of the working directory) is a record; each call that can fail at start-up
  returns the exception that ends the program there. The lemmas say when start-up fails
  and with what, and what a successful start-up guarantees to the loop.
\<close>

section \<open>The platform\<close>

text \<open>An image file is missing, is not an image, or is an image of some size.\<close>

datatype image_file = Missing | Corrupt | Image "int \<times> int"

record platform =
  current_w :: int
  current_h :: int
  files :: "string \<Rightarrow> image_file"
  sys_font :: "font \<Rightarrow> string \<Rightarrow> int \<times> int"
  ticks_clock :: int
  ticks_reset :: int

section \<open>Library calls of start-up\<close>

text \<open>\<open>pygame.display.set_mode\<close> refuses a negative size with \<open>pygame.error\<close>.\<close>

definition set_mode :: "int \<times> int \<Rightarrow> unit result" where
  "set_mode sz = (if fst sz < 0 \<or> snd sz < 0 then Inl PygameError else Inr ())"

text \<open>
  \<open>pygame.image.load\<close> raises \<open>FileNotFoundError\<close> for a missing file and
  \<open>pygame.error\<close> for a file it cannot decode; otherwise the surface has the size of
  the image (\<open>convert\<close> and \<open>convert_alpha\<close> keep it).
\<close>

definition load :: "platform \<Rightarrow> string \<Rightarrow> (int \<times> int) result" where
  "load pf name =
     (case files pf name of
        Missing \<Rightarrow> Inl FileNotFoundError
      | Corrupt \<Rightarrow> Inl PygameError
      | Image sz \<Rightarrow> Inr sz)"

text \<open>\<open>pygame.transform.scale\<close>: the new size, or \<open>ValueError\<close> when it is negative.\<close>

definition scale :: "int \<times> int \<Rightarrow> int \<times> int \<Rightarrow> (int \<times> int) result" where
  "scale img sz = (if fst sz < 0 \<or> snd sz < 0 then Inl ValueError else Inr sz)"

section \<open>Start-up\<close>

text \<open>
  The module's top level up to the fonts. The result is what the rest of the program reads:
  the window and sprite sizes, the sizes that the pipe image and the fonts decide, and the
  clock, created at \<open>ticks_clock\<close>.
\<close>

definition startup :: "platform \<Rightarrow> (config \<times> assets \<times> clock) result" where
  "startup pf =
     (let width = min 480 (current_w pf); height = min 800 (current_h pf)
      in and_then (set_mode (width, height))
           (\<lambda>screen. let clock = Clock (ticks_clock pf)
            in and_then (load pf ''background.png'')
           (\<lambda>bg_file. and_then (scale bg_file (width, height))
           (\<lambda>bg_img. and_then (load pf ''bird.png'')
           (\<lambda>bird_img. and_then (load pf ''pipe.png'')
           (\<lambda>pipe_img.
              Inr (\<lparr>WIDTH = width, HEIGHT = height,
                     BIRD_W = fst bird_img, BIRD_H = snd bird_img\<rparr>,
                   \<lparr>pipe_size = pipe_img, text_size = sys_font pf\<rparr>,
                   clock)))))))"

lemmas startup_defs [fb_defs] = set_mode_def load_def scale_def startup_def

section \<open>Specification\<close>

text \<open>The display has a size, and the three files are images of at least one pixel.\<close>

definition is_image :: "platform \<Rightarrow> string \<Rightarrow> bool" where
  "is_image pf name \<longleftrightarrow> (case files pf name of Image sz \<Rightarrow> True | _ \<Rightarrow> False)"

definition image_size :: "platform \<Rightarrow> string \<Rightarrow> int \<times> int" where
  "image_size pf name = (case files pf name of Image sz \<Rightarrow> sz | _ \<Rightarrow> (0, 0))"

definition display_ok :: "platform \<Rightarrow> bool" where
  "display_ok pf \<longleftrightarrow> 0 \<le> current_w pf \<and> 0 \<le> current_h pf"

definition platform_ok :: "platform \<Rightarrow> bool" where
  "platform_ok pf \<longleftrightarrow>
     display_ok pf \<and>
     list_all (is_image pf) [''background.png'', ''bird.png'', ''pipe.png'']"

text \<open>
  The exception of the first call that fails, in the order of the calls: the display,
  then the files \<open>background.png\<close>, \<open>bird.png\<close>, \<open>pipe.png\<close>.
\<close>

definition file_error :: "image_file \<Rightarrow> halt option" where
  "file_error f =
     (case f of Missing \<Rightarrow> Some FileNotFoundError | Corrupt \<Rightarrow> Some PygameError
      | Image sz \<Rightarrow> None)"

fun first_error :: "halt option list \<Rightarrow> halt option" where
  "first_error [] = None"
| "first_error (None # es) = first_error es"
| "first_error (Some e # es) = Some e"

definition startup_error :: "platform \<Rightarrow> halt option" where
  "startup_error pf =
     first_error
       [if display_ok pf then None else Some PygameError,
        file_error (files pf ''background.png''),
        file_error (files pf ''bird.png''),
        file_error (files pf ''pipe.png'')]"

text \<open>What a successful start-up returns.\<close>

definition config_of :: "platform \<Rightarrow> config" where
  "config_of pf = mk_config (current_w pf) (current_h pf) (image_size pf ''bird.png'')"

definition assets_of :: "platform \<Rightarrow> assets" where
  "assets_of pf = \<lparr>pipe_size = image_size pf ''pipe.png'', text_size = sys_font pf\<rparr>"

text \<open>The platform of the examples: a large display and three images.\<close>

definition demo_files :: "string \<Rightarrow> image_file" where
  "demo_files name =
     (if name = ''background.png'' then Image (288, 512)
      else if name = ''bird.png'' then Image (34, 24)
      else if name = ''pipe.png'' then Image (52, 320)
      else Missing)"

abbreviation demo_platform :: platform where
  "demo_platform \<equiv>
     \<lparr>current_w = 1920, current_h = 1080, files = demo_files,
      sys_font = (\<lambda>f s. (20 * int (length s), 30)), ticks_clock = 0, ticks_reset = 0\<rparr>"

section \<open>Lemmas\<close>

lemma set_mode_eq: "set_mode (w, h) = (if 0 \<le> w \<and> 0 \<le> h then Inr () else Inl PygameError)"
  by (auto simp: set_mode_def)

lemma scale_eq: "scale img (w, h) = (if 0 \<le> w \<and> 0 \<le> h then Inr (w, h) else Inl ValueError)"
  by (auto simp: scale_def)

lemma load_eq:
  "load pf name = (case file_error (files pf name) of Some e \<Rightarrow> Inl e
     | None \<Rightarrow> Inr (image_size pf name))"
  by (simp add: load_def file_error_def image_size_def split: image_file.splits)

lemma file_error_None_iff: "file_error (files pf name) = None \<longleftrightarrow> is_image pf name"
  by (simp add: file_error_def is_image_def split: image_file.splits)

lemma display_ok_min:
  "display_ok pf \<longleftrightarrow> 0 \<le> min 480 (current_w pf) \<and> 0 \<le> min 800 (current_h pf)"
  by (auto simp: display_ok_def)

lemma first_error_None_iff: "first_error es = None \<longleftrightarrow> list_all (\<lambda>e. e = None) es"
  by (induction es rule: first_error.induct) simp_all

lemma startup_error_None_iff: "startup_error pf = None \<longleftrightarrow> platform_ok pf"
  by (simp add: startup_error_def platform_ok_def first_error_None_iff file_error_None_iff)

text \<open>Start-up in one equation: the first error, or the configuration and the assets.\<close>

lemma startup_eq:
  "startup pf =
     (case startup_error pf of
        Some e \<Rightarrow> Inl e
      | None \<Rightarrow> Inr (config_of pf, assets_of pf, Clock (ticks_clock pf)))"
  by (simp add: startup_def startup_error_def set_mode_eq scale_eq load_eq mk_config_def
      config_of_def assets_of_def display_ok_min Let_def split: option.splits)

lemma startup_ok:
  "platform_ok pf \<Longrightarrow> startup pf = Inr (config_of pf, assets_of pf, Clock (ticks_clock pf))"
  by (simp add: startup_eq startup_error_None_iff [symmetric])

lemma startup_Inl_iff: "startup pf = Inl e \<longleftrightarrow> startup_error pf = Some e"
  by (simp add: startup_eq split: option.splits)

lemma startup_error_kind:
  "startup_error pf = Some e \<Longrightarrow> e = PygameError \<or> e = FileNotFoundError"
  by (auto simp: startup_error_def file_error_def split: if_splits image_file.splits)

lemma config_of_bounds:
  assumes "display_ok pf"
  shows "0 \<le> WIDTH (config_of pf)" "WIDTH (config_of pf) \<le> 480"
    "0 \<le> HEIGHT (config_of pf)" "HEIGHT (config_of pf) \<le> 800"
  using assms by (simp_all add: config_of_def display_ok_def)

lemma tall_enough_config_of: "tall_enough (config_of pf) \<longleftrightarrow> 320 \<le> current_h pf"
  by (simp add: config_of_def tall_enough_mk_config)

section \<open>Properties of start-up\<close>

text \<open>C13. Start-up fails in the order of its calls and not otherwise. It ends the program
  with \<open>pygame.error\<close> when the display reports a negative size, else with the error
  of the first of \<open>background.png\<close>, \<open>bird.png\<close>, \<open>pipe.png\<close> that is missing
  (\<open>FileNotFoundError\<close>) or not an image (\<open>pygame.error\<close>); it never ends with
  \<open>ValueError\<close>. When nothing fails, the window is the display capped at 480 by 800,
  the bird has the size of its sprite, and the clock starts at the time it was created.\<close>

theorem startup_outcome:
  "(startup pf = Inl e \<longleftrightarrow> startup_error pf = Some e) \<and>
   (startup pf = Inl e \<longrightarrow> e = PygameError \<or> e = FileNotFoundError) \<and>
   (startup pf = Inr r \<longleftrightarrow>
      platform_ok pf \<and>
      r = (\<lparr>WIDTH = min 480 (current_w pf), HEIGHT = min 800 (current_h pf),
            BIRD_W = fst (image_size pf ''bird.png''),
            BIRD_H = snd (image_size pf ''bird.png'')\<rparr>,
           \<lparr>pipe_size = image_size pf ''pipe.png'', text_size = sys_font pf\<rparr>,
           \<lparr>last_tick = ticks_clock pf\<rparr>))"
proof -
  have "startup pf = Inr r \<longleftrightarrow>
      platform_ok pf \<and> r = (config_of pf, assets_of pf, Clock (ticks_clock pf))"
    by (auto simp: startup_eq startup_error_None_iff [symmetric] split: option.splits)
  then show ?thesis
    by (auto simp: startup_Inl_iff config_of_def assets_of_def Clock_def mk_config_def
        dest: startup_error_kind)
qed

theorem startup_outcome_witness:
  "startup demo_platform = Inr (demo_cfg, demo_assets, Clock 0) \<and>
   startup (demo_platform\<lparr>current_w := - 1\<rparr>) = Inl PygameError \<and>
   startup (demo_platform\<lparr>files := demo_files(''bird.png'' := Missing)\<rparr>) =
     Inl FileNotFoundError"
  using startup_outcome [of demo_platform PygameError "(demo_cfg, demo_assets, Clock 0)"]
    startup_outcome [of "demo_platform\<lparr>current_w := - 1\<rparr>" PygameError]
    startup_outcome [of "demo_platform\<lparr>files := demo_files(''bird.png'' := Missing)\<rparr>"
      FileNotFoundError]
  by (simp add: platform_ok_def display_ok_def is_image_def image_size_def demo_files_def
      startup_error_def file_error_def Clock_def mk_config_def)

end
