(* ===== verification/FB_Main.thy ===== *)
theory FB_Main
  imports FB_Startup
begin

text \<open>
  The whole of \<open>src/flappybird.py\<close> as one function: start-up, the first call of
  \<open>reset()\<close>, and the main loop with its clock and its drawing, on a platform and a
  list of frames supplied by the environment. The theorems compose those of the
  components: what the program does is start-up followed by the game, and on a platform
  that has the images and a display of ordinary height it can only end by a \<open>QUIT\<close>.
\<close>

section \<open>The program\<close>

text \<open>
  The whole module: start-up, the module-level state, the call of \<open>reset()\<close> at
  \<open>ticks_reset\<close>, and the main loop with its clock on the frames that the
  environment supplies.
\<close>

definition main :: "platform \<Rightarrow> timed_env list \<Rightarrow> (clock \<times> game \<times> screen list) result" where
  "main pf tes =
     and_then (startup pf)
       (\<lambda>(cfg, a, c). timed_play cfg a tes (c, boot cfg (ticks_reset pf), []))"

lemmas main_defs [fb_defs] = main_def

section \<open>Lemmas\<close>

text \<open>The program after a successful start-up, without its clock and its drawing.\<close>

lemma main_ok:
  assumes "platform_ok pf"
  shows "map_sum id (fst \<circ> snd) (main pf tes) =
         run (config_of pf) (map frame_env.truncate tes) (boot (config_of pf) (ticks_reset pf))"
proof -
  let ?cfg = "config_of pf" and ?g = "boot (config_of pf) (ticks_reset pf)"
  from assms have w: "0 \<le> WIDTH ?cfg" by (simp add: platform_ok_def config_of_bounds)
  have "map_sum id fst (play ?cfg (assets_of pf) (map frame_env.truncate tes) (?g, [])) =
        run ?cfg (map frame_env.truncate tes) ?g"
    using game_inv_boot w by (rule play_run)
  moreover have "map_sum id (fst \<circ> snd) (main pf tes) =
      map_sum id fst (play ?cfg (assets_of pf) (map frame_env.truncate tes) (?g, []))"
    by (cases "play ?cfg (assets_of pf) (map frame_env.truncate tes) (?g, [])")
       (simp_all add: main_def startup_ok [OF assms] timed_play_eq)
  ultimately show ?thesis by simp
qed

lemma map_sum_Inl_iff: "map_sum f g r = Inl e \<longleftrightarrow> (\<exists>e'. r = Inl e' \<and> e = f e')"
  by (cases r) auto

section \<open>Properties of the program\<close>

text \<open>C12. The program is start-up followed by the game. When start-up succeeds, the
  program stops or goes on exactly as the loop without clock and drawing does on the same
  events and readings, from the start-up state, and ends in the same game state: neither
  the clock nor the renderer can change the course of a game.\<close>

theorem main_is_startup_then_run:
  "map_sum id (fst \<circ> snd) (main pf tes) =
     and_then (startup pf)
       (\<lambda>(cfg, a, c). run cfg (map frame_env.truncate tes) (boot cfg (ticks_reset pf)))"
proof (cases "platform_ok pf")
  case True
  then show ?thesis by (simp add: main_ok startup_ok)
next
  case False
  then obtain e where "startup pf = Inl e"
    by (cases "startup_error pf") (auto simp: startup_eq startup_error_None_iff [symmetric])
  then show ?thesis by (simp add: main_def)
qed

text \<open>C6. On a platform with its three images and a display at least 320 pixels high, the
  program ends in one way only: if and only if some frame's event queue holds a
  \<open>QUIT\<close>, and then with \<open>sys.exit()\<close>. No sequence of inputs, clock readings and
  random numbers makes it raise.\<close>

theorem main_stops_iff:
  assumes "platform_ok pf" and "320 \<le> current_h pf"
  shows "main pf tes = Inl e \<longleftrightarrow> list_ex (\<lambda>te. quits (events te)) tes \<and> e = SysExit"
proof -
  from assms(2) have "tall_enough (config_of pf)" by (simp add: tall_enough_config_of)
  then have "run (config_of pf) (map frame_env.truncate tes)
      (boot (config_of pf) (ticks_reset pf)) = Inl e \<longleftrightarrow>
      list_ex (\<lambda>env. quits (events env)) (map frame_env.truncate tes) \<and> e = SysExit"
    by (rule run_tall_Inl_iff)
  moreover have "main pf tes = Inl e \<longleftrightarrow>
      map_sum id (fst \<circ> snd) (main pf tes) = Inl e"
    by (simp add: map_sum_Inl_iff)
  ultimately show ?thesis
    by (simp add: main_ok [OF assms(1)] list_ex_iff)
qed

theorem main_stops_iff_witness:
  "main demo_platform [idle_at 5 16, (idle_at 20 33)\<lparr>events := [(QUIT, 33)]\<rparr>, idle_at 40 50] =
     Inl SysExit"
  using main_stops_iff [of demo_platform
      "[idle_at 5 16, (idle_at 20 33)\<lparr>events := [(QUIT, 33)]\<rparr>, idle_at 40 50]" SysExit]
  by (simp add: platform_ok_def display_ok_def is_image_def demo_files_def)

end
