(* ===== verification/FB_Types.thy ===== *)
theory FB_Types
  imports FB_Loop
begin

text \<open>
  The numbers of \<open>src/flappybird.py\<close> with their Python types. The other theories read
  every entry of the dictionary \<open>bird\<close> as a rational; in the program
  \<open>bird["y"]\<close> and \<open>bird["vy"]\<close> are \<open>int\<close> after a reset and \<open>float\<close> once
  the physics has run, and \<open>bird["x"]\<close> is a \<open>float\<close> from the start. This theory
  models the values with their types and the loop on them, every block of the game logic
  included, and shows that the types follow the phase of the game and that forgetting
  them gives the loop of \<open>FB_Loop\<close>. The entries of a pipe and the other globals are
  \<open>int\<close> or \<open>bool\<close> in every assignment and keep the types of the records.
\<close>

section \<open>Python numbers\<close>

datatype pyval = PyInt int | PyFloat pyfloat

datatype pytype = TInt | TFloat

fun type_of :: "pyval \<Rightarrow> pytype" where
  "type_of (PyInt i) = TInt"
| "type_of (PyFloat q) = TFloat"

text \<open>The number a value stands for.\<close>

fun val :: "pyval \<Rightarrow> pyfloat" where
  "val (PyInt i) = of_int i"
| "val (PyFloat q) = q"

text \<open>
  \<open>a + b\<close> and \<open>a * b\<close>: an \<open>int\<close> when both operands are, else the operands are
  converted and the result is a \<open>float\<close>. \<open>a // 2\<close> keeps the type of \<open>a\<close> and
  rounds down. \<open>a < b\<close> compares the numbers, whatever their types.
\<close>

fun py_add :: "pyval \<Rightarrow> pyval \<Rightarrow> pyval" where
  "py_add (PyInt i) (PyInt j) = PyInt (i + j)"
| "py_add a b = PyFloat (val a + val b)"

fun py_sub :: "pyval \<Rightarrow> pyval \<Rightarrow> pyval" where
  "py_sub (PyInt i) (PyInt j) = PyInt (i - j)"
| "py_sub a b = PyFloat (val a - val b)"

fun py_mul :: "pyval \<Rightarrow> pyval \<Rightarrow> pyval" where
  "py_mul (PyInt i) (PyInt j) = PyInt (i * j)"
| "py_mul a b = PyFloat (val a * val b)"

fun floordiv2 :: "pyval \<Rightarrow> pyval" where
  "floordiv2 (PyInt i) = PyInt (i div 2)"
| "floordiv2 (PyFloat q) = PyFloat (of_int \<lfloor>q / 2\<rfloor>)"

definition py_less :: "pyval \<Rightarrow> pyval \<Rightarrow> bool" where
  "py_less a b \<longleftrightarrow> val a < val b"

text \<open>An argument of \<open>pygame.Rect\<close>: an \<open>int\<close> as it is, a \<open>float\<close> truncated.\<close>

fun rect_arg :: "pyval \<Rightarrow> int" where
  "rect_arg (PyInt i) = i"
| "rect_arg (PyFloat q) = py_int q"

section \<open>The state with typed numbers\<close>

text \<open>
  The dictionary \<open>bird\<close>. Its entries \<open>"w"\<close> and \<open>"h"\<close> are the two \<open>int\<close>s of
  \<open>bird_img.get_size()\<close> and are never assigned again.
\<close>

record dyn_bird =
  dyn_x :: pyval
  dyn_y :: pyval
  dyn_vy :: pyval
  dyn_w :: int
  dyn_h :: int

record dyn_game =
  d_bird :: dyn_bird
  d_pipes :: "pipe list"
  d_score :: int
  d_running :: bool
  d_game_over :: bool
  d_last_spawn :: int

definition dyn_initial :: "config \<Rightarrow> dyn_game" where
  "dyn_initial cfg =
     \<lparr>d_bird = \<lparr>dyn_x = py_mul (PyInt (WIDTH cfg)) (PyFloat (18 / 100)),
                dyn_y = floordiv2 (PyInt (HEIGHT cfg)),
                dyn_vy = PyInt 0, dyn_w = BIRD_W cfg, dyn_h = BIRD_H cfg\<rparr>,
      d_pipes = [], d_score = 0, d_running = False, d_game_over = False, d_last_spawn = 0\<rparr>"

section \<open>Writes to the bird\<close>

definition dyn_reset :: "config \<Rightarrow> int \<Rightarrow> dyn_game \<Rightarrow> dyn_game" where
  "dyn_reset cfg ticks s =
     s\<lparr>d_pipes := [], d_score := 0,
       d_bird := (d_bird s)\<lparr>dyn_y := floordiv2 (PyInt (HEIGHT cfg)), dyn_vy := PyInt 0\<rparr>,
       d_running := False, d_game_over := False, d_last_spawn := ticks\<rparr>"

definition dyn_flap :: "dyn_game \<Rightarrow> dyn_game" where
  "dyn_flap s = s\<lparr>d_bird := (d_bird s)\<lparr>dyn_vy := PyInt FLAP\<rparr>, d_running := True\<rparr>"

definition dyn_primary_action :: "config \<Rightarrow> int \<Rightarrow> dyn_game \<Rightarrow> dyn_game" where
  "dyn_primary_action cfg ticks s =
     (if d_game_over s then dyn_reset cfg ticks s else dyn_flap s)"

fun dyn_handle_event :: "config \<Rightarrow> event \<times> int \<Rightarrow> dyn_game \<Rightarrow> dyn_game result" where
  "dyn_handle_event cfg (QUIT, ticks) s = Inl SysExit"
| "dyn_handle_event cfg (MOUSEBUTTONDOWN, ticks) s = Inr (dyn_primary_action cfg ticks s)"
| "dyn_handle_event cfg (KEYDOWN k, ticks) s =
     (if k = K_SPACE \<or> k = K_UP then Inr (dyn_primary_action cfg ticks s) else Inr s)"
| "dyn_handle_event cfg (OTHER_EVENT n, ticks) s = Inr s"

definition dyn_handle_events :: "config \<Rightarrow> (event \<times> int) list \<Rightarrow> dyn_game \<Rightarrow> dyn_game result" where
  "dyn_handle_events cfg = for_each (dyn_handle_event cfg)"

definition dyn_physics :: "dyn_game \<Rightarrow> dyn_game" where
  "dyn_physics s =
     (let vy = py_add (dyn_vy (d_bird s)) (PyFloat GRAVITY)
      in s\<lparr>d_bird := (d_bird s)\<lparr>dyn_vy := vy, dyn_y := py_add (dyn_y (d_bird s)) vy\<rparr>\<rparr>)"

section \<open>The game logic on typed numbers\<close>

text \<open>\<open>spawn_pipe()\<close> and the block "spawn pipes": the bird is not involved.\<close>

definition dyn_spawn_pipe :: "config \<Rightarrow> nat \<Rightarrow> dyn_game \<Rightarrow> dyn_game result" where
  "dyn_spawn_pipe cfg n s =
     and_then (randint top_min (top_max cfg) n)
       (\<lambda>t. Inr (s\<lparr>d_pipes := d_pipes s @ [new_pipe cfg t]\<rparr>))"

definition dyn_spawn_pipes :: "config \<Rightarrow> frame_env \<Rightarrow> dyn_game \<Rightarrow> dyn_game result" where
  "dyn_spawn_pipes cfg env s =
     (if ticks_check env - d_last_spawn s > 1500
      then and_then (dyn_spawn_pipe cfg (entropy env) s)
             (\<lambda>s'. Inr (s'\<lparr>d_last_spawn := ticks_stamp env\<rparr>))
      else Inr s)"

text \<open>
  The block "move and score": the pass test compares the \<open>int\<close>
  \<open>p["x"] + PIPE_WIDTH\<close> with the \<open>float\<close> \<open>bird["x"]\<close>.
\<close>

definition dyn_newly_passed :: "dyn_bird \<Rightarrow> pipe \<Rightarrow> bool" where
  "dyn_newly_passed b p \<longleftrightarrow>
     \<not> pipe_passed p \<and> py_less (py_add (PyInt (pipe_x p)) (PyInt PIPE_WIDTH)) (dyn_x b)"

fun dyn_move_and_score :: "dyn_bird \<Rightarrow> pipe list \<Rightarrow> int \<Rightarrow> pipe list \<times> int" where
  "dyn_move_and_score b [] sc = ([], sc)"
| "dyn_move_and_score b (p # ps) sc =
     (let p' = move_pipe p in
      if dyn_newly_passed b p'
      then (case dyn_move_and_score b ps (sc + 1) of
              (ps', sc') \<Rightarrow> (p'\<lparr>pipe_passed := True\<rparr> # ps', sc'))
      else (case dyn_move_and_score b ps sc of (ps', sc') \<Rightarrow> (p' # ps', sc')))"

definition dyn_move_pipes :: "dyn_game \<Rightarrow> dyn_game" where
  "dyn_move_pipes s =
     (case dyn_move_and_score (d_bird s) (d_pipes s) (d_score s) of
        (ps, sc) \<Rightarrow> s\<lparr>d_pipes := ps, d_score := sc\<rparr>)"

definition dyn_remove_offscreen :: "dyn_game \<Rightarrow> dyn_game" where
  "dyn_remove_offscreen s = s\<lparr>d_pipes := filter on_screen (d_pipes s)\<rparr>"

text \<open>
  The block "collision": the ground test adds the \<open>int\<close> \<open>bird["h"]\<close> to
  \<open>bird["y"]\<close>, and \<open>pygame.Rect\<close> converts the bird's position.
\<close>

definition dyn_crash :: "dyn_game \<Rightarrow> dyn_game" where
  "dyn_crash s = s\<lparr>d_game_over := True, d_running := False\<rparr>"

definition dyn_hits_ground :: "config \<Rightarrow> dyn_bird \<Rightarrow> bool" where
  "dyn_hits_ground cfg b \<longleftrightarrow>
     py_less (py_sub (PyInt (HEIGHT cfg)) (PyInt GROUND)) (py_add (dyn_y b) (PyInt (dyn_h b)))"

definition dyn_ground_check :: "config \<Rightarrow> dyn_game \<Rightarrow> dyn_game" where
  "dyn_ground_check cfg s = (if dyn_hits_ground cfg (d_bird s) then dyn_crash s else s)"

definition dyn_brect :: "dyn_bird \<Rightarrow> rect" where
  "dyn_brect b =
     \<lparr>rect_left = rect_arg (dyn_x b), rect_top = rect_arg (dyn_y b),
      rect_width = dyn_w b, rect_height = dyn_h b\<rparr>"

fun dyn_collide_pipes :: "config \<Rightarrow> rect \<Rightarrow> pipe list \<Rightarrow> dyn_game \<Rightarrow> dyn_game" where
  "dyn_collide_pipes cfg br [] s = s"
| "dyn_collide_pipes cfg br (p # ps) s =
     dyn_collide_pipes cfg br ps (if pipe_hit cfg br p then dyn_crash s else s)"

definition dyn_pipe_check :: "config \<Rightarrow> dyn_game \<Rightarrow> dyn_game" where
  "dyn_pipe_check cfg s = dyn_collide_pipes cfg (dyn_brect (d_bird s)) (d_pipes s) s"

definition dyn_collision :: "config \<Rightarrow> dyn_game \<Rightarrow> dyn_game" where
  "dyn_collision cfg s = dyn_pipe_check cfg (dyn_ground_check cfg s)"

section \<open>The loop with typed numbers\<close>

definition dyn_game_logic :: "config \<Rightarrow> frame_env \<Rightarrow> dyn_game \<Rightarrow> dyn_game result" where
  "dyn_game_logic cfg env s =
     (if d_running s \<and> \<not> d_game_over s
      then and_then (dyn_spawn_pipes cfg env (dyn_physics s))
             (\<lambda>s1. Inr (dyn_collision cfg (dyn_remove_offscreen (dyn_move_pipes s1))))
      else Inr s)"

definition dyn_frame :: "config \<Rightarrow> frame_env \<Rightarrow> dyn_game \<Rightarrow> dyn_game result" where
  "dyn_frame cfg env s =
     and_then (dyn_handle_events cfg (events env) s) (dyn_game_logic cfg env)"

definition dyn_boot :: "config \<Rightarrow> int \<Rightarrow> dyn_game" where
  "dyn_boot cfg ticks = dyn_reset cfg ticks (dyn_initial cfg)"

definition dyn_run :: "config \<Rightarrow> frame_env list \<Rightarrow> dyn_game \<Rightarrow> dyn_game result" where
  "dyn_run cfg = for_each (dyn_frame cfg)"

lemmas types_defs [fb_defs] =
  py_less_def dyn_initial_def dyn_reset_def dyn_flap_def dyn_primary_action_def
  dyn_handle_events_def dyn_physics_def dyn_spawn_pipe_def dyn_spawn_pipes_def
  dyn_newly_passed_def dyn_move_pipes_def dyn_remove_offscreen_def dyn_crash_def
  dyn_hits_ground_def dyn_ground_check_def dyn_brect_def dyn_pipe_check_def
  dyn_collision_def dyn_game_logic_def dyn_frame_def dyn_boot_def dyn_run_def

section \<open>Forgetting the types\<close>

definition erase_bird :: "dyn_bird \<Rightarrow> bird" where
  "erase_bird b =
     \<lparr>bird_x = val (dyn_x b), bird_y = val (dyn_y b), bird_vy = val (dyn_vy b),
      bird_w = dyn_w b, bird_h = dyn_h b\<rparr>"

definition erase :: "dyn_game \<Rightarrow> game" where
  "erase s =
     \<lparr>bird = erase_bird (d_bird s), pipes = d_pipes s, score = d_score s,
      running = d_running s, game_over = d_game_over s, last_spawn = d_last_spawn s\<rparr>"

section \<open>Typing\<close>

text \<open>
  The types of the bird's entries in a phase: \<open>"x"\<close> is a \<open>float\<close>; \<open>"y"\<close> and
  \<open>"vy"\<close> are \<open>int\<close>s in \<open>Idle\<close> and \<open>float\<close>s in the other two phases.
\<close>

definition entry_type :: "phase \<Rightarrow> pytype" where
  "entry_type ph = (if ph = Idle then TInt else TFloat)"

definition bird_typing :: "phase \<Rightarrow> dyn_bird \<Rightarrow> bool" where
  "bird_typing ph b \<longleftrightarrow>
     type_of (dyn_x b) = TFloat \<and> type_of (dyn_y b) = entry_type ph \<and>
     type_of (dyn_vy b) = entry_type ph"

definition dyn_phase :: "dyn_game \<Rightarrow> phase" where
  "dyn_phase s = phase_of (erase s)"

definition well_typed :: "dyn_game \<Rightarrow> bool" where
  "well_typed s \<longleftrightarrow> bird_typing (dyn_phase s) (d_bird s)"

text \<open>
  Between two events of one frame a flap may have left an \<open>int\<close> in \<open>"vy"\<close> of a
  running game; the typing that holds there says nothing about \<open>Running\<close>.
\<close>

definition mid_frame_typed :: "dyn_game \<Rightarrow> bool" where
  "mid_frame_typed s \<longleftrightarrow>
     type_of (dyn_x (d_bird s)) = TFloat \<and>
     (dyn_phase s \<noteq> Running \<longrightarrow> well_typed s)"

section \<open>Lemmas: numbers\<close>

lemma val_py_add [simp]: "val (py_add a b) = val a + val b"
  by (cases "(a, b)" rule: py_add.cases) simp_all

lemma val_py_sub [simp]: "val (py_sub a b) = val a - val b"
  by (cases "(a, b)" rule: py_sub.cases) simp_all

lemma val_py_mul [simp]: "val (py_mul a b) = val a * val b"
  by (cases "(a, b)" rule: py_mul.cases) simp_all

lemma val_floordiv2_int [simp]: "val (floordiv2 (PyInt i)) = of_int (i div 2)"
  by simp

lemma type_of_py_add:
  "type_of (py_add a b) = (if type_of a = TInt \<and> type_of b = TInt then TInt else TFloat)"
  by (cases "(a, b)" rule: py_add.cases) simp_all

lemma type_of_py_mul:
  "type_of (py_mul a b) = (if type_of a = TInt \<and> type_of b = TInt then TInt else TFloat)"
  by (cases "(a, b)" rule: py_mul.cases) simp_all

lemma type_of_floordiv2 [simp]: "type_of (floordiv2 a) = type_of a"
  by (cases a) simp_all

lemma py_add_float [simp]:
  "type_of (py_add a (PyFloat q)) = TFloat" "type_of (py_add (PyFloat q) a) = TFloat"
  by (cases a; simp)+

lemma type_of_add_TFloat: "type_of b = TFloat \<Longrightarrow> type_of (py_add a b) = TFloat"
  by (simp add: type_of_py_add)

lemma rect_arg_val: "rect_arg a = py_int (val a)"
  by (cases a) simp_all

section \<open>Lemmas: the reads\<close>

lemma dyn_newly_passed_erase:
  "dyn_newly_passed b p = newly_passed (bird_x (erase_bird b)) p"
  by (simp add: dyn_newly_passed_def newly_passed_def py_less_def erase_bird_def)

lemma dyn_hits_ground_erase: "dyn_hits_ground cfg (d_bird s) = hits_ground cfg (erase s)"
  by (simp add: dyn_hits_ground_def hits_ground_def py_less_def erase_def erase_bird_def)

lemma dyn_brect_erase: "dyn_brect (d_bird s) = brect (erase s)"
  by (simp add: dyn_brect_def brect_def Rect_def rect_arg_val erase_def erase_bird_def)

section \<open>Lemmas: erasure\<close>

lemma erase_fields [simp]:
  "bird (erase s) = erase_bird (d_bird s)"
  "pipes (erase s) = d_pipes s"
  "score (erase s) = d_score s"
  "running (erase s) = d_running s"
  "game_over (erase s) = d_game_over s"
  "last_spawn (erase s) = d_last_spawn s"
  by (simp_all add: erase_def)

lemma erase_initial [simp]: "erase (dyn_initial cfg) = initial_game cfg"
  by (simp add: erase_def erase_bird_def dyn_initial_def initial_game_def start_x_def start_y_def)

lemma erase_reset [simp]: "erase (dyn_reset cfg t s) = reset cfg t (erase s)"
  by (simp add: erase_def erase_bird_def dyn_reset_def reset_def start_y_def)

lemma erase_flap [simp]: "erase (dyn_flap s) = flap (erase s)"
  by (simp add: erase_def erase_bird_def dyn_flap_def flap_def)

lemma erase_primary_action [simp]:
  "erase (dyn_primary_action cfg t s) = primary_action cfg t (erase s)"
  by (simp add: dyn_primary_action_def primary_action_def)

lemma erase_physics [simp]: "erase (dyn_physics s) = bird_physics (erase s)"
  by (simp add: erase_def erase_bird_def dyn_physics_def bird_physics_def Let_def)

lemma erase_boot [simp]: "erase (dyn_boot cfg t) = boot cfg t"
  by (simp add: dyn_boot_def boot_def)

lemma erase_handle_event:
  "map_sum id erase (dyn_handle_event cfg et s) = handle_event cfg et (erase s)"
  by (cases "(cfg, et, s)" rule: dyn_handle_event.cases) simp_all

lemma erase_handle_events:
  "map_sum id erase (dyn_handle_events cfg evs s) = handle_events cfg evs (erase s)"
  unfolding dyn_handle_events_def handle_events_def
  by (rule for_each_map_sum) (rule erase_handle_event)

lemma erase_spawn_pipes:
  "map_sum id erase (dyn_spawn_pipes cfg env s) = spawn_pipes cfg env (erase s)"
  by (cases "randint top_min (top_max cfg) (entropy env)")
     (simp_all add: dyn_spawn_pipes_def dyn_spawn_pipe_def spawn_pipes_def spawn_pipe_def
       spawn_due_def erase_def)

lemma erase_move_and_score:
  "dyn_move_and_score b ps sc = move_and_score (bird_x (erase_bird b)) ps sc"
  by (induction ps arbitrary: sc) (simp_all add: dyn_newly_passed_erase Let_def)

lemma erase_move_pipes [simp]: "erase (dyn_move_pipes s) = move_pipes (erase s)"
  by (simp add: dyn_move_pipes_def move_pipes_def erase_move_and_score erase_def
      split: prod.splits)

lemma erase_remove_offscreen [simp]:
  "erase (dyn_remove_offscreen s) = remove_offscreen (erase s)"
  by (simp add: dyn_remove_offscreen_def remove_offscreen_def erase_def)

lemma erase_crash [simp]: "erase (dyn_crash s) = crash (erase s)"
  by (simp add: dyn_crash_def crash_def erase_def)

lemma erase_ground_check [simp]: "erase (dyn_ground_check cfg s) = ground_check cfg (erase s)"
  by (simp add: dyn_ground_check_def ground_check_def dyn_hits_ground_erase)

lemma erase_collide_pipes:
  "erase (dyn_collide_pipes cfg br ps s) = collide_pipes cfg br ps (erase s)"
  by (induction ps arbitrary: s) simp_all

lemma erase_pipe_check [simp]: "erase (dyn_pipe_check cfg s) = pipe_check cfg (erase s)"
  by (simp add: dyn_pipe_check_def pipe_check_def erase_collide_pipes dyn_brect_erase)

lemma erase_collision [simp]: "erase (dyn_collision cfg s) = collision cfg (erase s)"
  by (simp add: dyn_collision_def collision_def)

lemma erase_game_logic:
  "map_sum id erase (dyn_game_logic cfg env s) = game_logic cfg env (erase s)"
proof -
  have "spawn_pipes cfg env (bird_physics (erase s)) =
        map_sum id erase (dyn_spawn_pipes cfg env (dyn_physics s))"
    by (simp add: erase_spawn_pipes)
  then show ?thesis
    by (cases "dyn_spawn_pipes cfg env (dyn_physics s)")
       (simp_all add: dyn_game_logic_def game_logic_def)
qed

lemma erase_frame: "map_sum id erase (dyn_frame cfg env s) = frame cfg env (erase s)"
proof -
  have "frame cfg env (erase s) =
        and_then (map_sum id erase (dyn_handle_events cfg (events env) s)) (game_logic cfg env)"
    by (simp add: frame_def erase_handle_events)
  then show ?thesis
    by (cases "dyn_handle_events cfg (events env) s")
       (simp_all add: dyn_frame_def erase_game_logic)
qed

lemma erase_run: "map_sum id erase (dyn_run cfg envs s) = run cfg envs (erase s)"
  unfolding dyn_run_def run_def by (rule for_each_map_sum) (rule erase_frame)

section \<open>Lemmas: typing\<close>

lemma dyn_phase_simps [simp]:
  "dyn_phase (dyn_reset cfg t s) = Idle"
  "dyn_phase (dyn_flap s) = (if d_game_over s then GameOver else Running)"
  by (simp_all add: dyn_phase_def phase_of_def dyn_reset_def dyn_flap_def)

lemma dyn_phase_eq_iff:
  "dyn_phase s = GameOver \<longleftrightarrow> d_game_over s"
  "dyn_phase s = Running \<longleftrightarrow> d_running s \<and> \<not> d_game_over s"
  "dyn_phase s = Idle \<longleftrightarrow> \<not> d_running s \<and> \<not> d_game_over s"
  by (simp_all add: dyn_phase_def phase_of_eq_iff)

lemma well_typed_boot: "well_typed (dyn_boot cfg t)"
  by (simp add: well_typed_def bird_typing_def entry_type_def dyn_boot_def)
     (simp add: dyn_reset_def dyn_initial_def)

lemma well_typed_mid: "well_typed s \<Longrightarrow> mid_frame_typed s"
  by (simp add: mid_frame_typed_def well_typed_def bird_typing_def)

lemma mid_frame_primary_action:
  "mid_frame_typed s \<Longrightarrow> mid_frame_typed (dyn_primary_action cfg t s)"
  by (simp add: mid_frame_typed_def well_typed_def bird_typing_def entry_type_def
      dyn_primary_action_def dyn_phase_eq_iff)
     (simp add: dyn_reset_def dyn_flap_def)

lemma mid_frame_handle_event:
  "mid_frame_typed s \<Longrightarrow> dyn_handle_event cfg et s = Inr s' \<Longrightarrow> mid_frame_typed s'"
  by (cases "(cfg, et, s)" rule: dyn_handle_event.cases)
     (auto simp: mid_frame_primary_action split: if_splits)

lemma mid_frame_handle_events:
  "mid_frame_typed s \<Longrightarrow> dyn_handle_events cfg evs s = Inr s' \<Longrightarrow> mid_frame_typed s'"
  unfolding dyn_handle_events_def
  by (rule for_each_invariant [where P = mid_frame_typed]) (auto intro: mid_frame_handle_event)

text \<open>The physics leaves two \<open>float\<close>s, whatever it finds.\<close>

lemma dyn_physics_types:
  "type_of (dyn_vy (d_bird (dyn_physics s))) = TFloat"
  "type_of (dyn_y (d_bird (dyn_physics s))) = TFloat"
  "dyn_x (d_bird (dyn_physics s)) = dyn_x (d_bird s)"
  by (simp_all add: dyn_physics_def Let_def type_of_add_TFloat)

text \<open>After the physics no block of the game logic writes the bird.\<close>

lemma dyn_collide_pipes_bird [simp]: "d_bird (dyn_collide_pipes cfg br ps s) = d_bird s"
  by (induction ps arbitrary: s) (simp_all add: dyn_crash_def)

lemma dyn_logic_bird:
  assumes "dyn_game_logic cfg env s = Inr s'" and "d_running s" and "\<not> d_game_over s"
  shows "d_bird s' = d_bird (dyn_physics s)"
proof -
  from assms obtain s1 where "dyn_spawn_pipes cfg env (dyn_physics s) = Inr s1"
    and s': "s' = dyn_collision cfg (dyn_remove_offscreen (dyn_move_pipes s1))"
    by (auto simp: dyn_game_logic_def and_then_eq_Inr_iff)
  then have "d_bird s1 = d_bird (dyn_physics s)"
    by (auto simp: dyn_spawn_pipes_def dyn_spawn_pipe_def and_then_eq_Inr_iff split: if_splits)
  then show ?thesis unfolding s'
    by (simp add: dyn_collision_def dyn_pipe_check_def dyn_ground_check_def dyn_crash_def
        dyn_remove_offscreen_def dyn_move_pipes_def split: prod.splits)
qed

lemma well_typed_game_logic:
  assumes "mid_frame_typed s" and "dyn_game_logic cfg env s = Inr s'"
  shows "well_typed s'"
proof (cases "d_running s \<and> \<not> d_game_over s")
  case False
  with assms have "s' = s" and "dyn_phase s \<noteq> Running"
    by (simp_all add: dyn_game_logic_def dyn_phase_eq_iff)
  with assms(1) show ?thesis by (simp add: mid_frame_typed_def)
next
  case True
  with assms(2) have b: "d_bird s' = d_bird (dyn_physics s)" by (simp add: dyn_logic_bird)
  from assms(2) have g: "game_logic cfg env (erase s) = Inr (erase s')"
    using erase_game_logic [of cfg env s] by simp
  from True have "phase_of (erase s') \<noteq> Idle"
    using phase_of_game_logic [OF g] by (simp add: phase_on_tick_def)
  then have "dyn_phase s' \<noteq> Idle" by (simp add: dyn_phase_def)
  with assms(1) b show ?thesis
    by (simp add: well_typed_def bird_typing_def entry_type_def dyn_physics_types
        mid_frame_typed_def)
qed

lemma well_typed_frame:
  assumes "well_typed s" and "dyn_frame cfg env s = Inr s'"
  shows "well_typed s'"
proof -
  from assms(2) obtain t where "dyn_handle_events cfg (events env) s = Inr t"
    and "dyn_game_logic cfg env t = Inr s'"
    by (auto simp: dyn_frame_def and_then_eq_Inr_iff)
  with assms(1) show ?thesis
    by (blast intro: well_typed_game_logic mid_frame_handle_events well_typed_mid)
qed

lemma well_typed_run: "well_typed s \<Longrightarrow> dyn_run cfg envs s = Inr s' \<Longrightarrow> well_typed s'"
  unfolding dyn_run_def
  by (rule for_each_invariant [where P = well_typed]) (auto intro: well_typed_frame)

section \<open>Properties of the types\<close>

text \<open>C15. The types follow the phase. After any number of frames from start-up,
  \<open>bird["x"]\<close> is a \<open>float\<close>, and \<open>bird["y"]\<close> and \<open>bird["vy"]\<close> are \<open>int\<close>s
  when the game waits for its first flap and \<open>float\<close>s when it runs or is over: a running
  game never shows an \<open>int\<close> left by \<open>reset()\<close> or by a flap at the end of a frame.\<close>

theorem types_follow_phase:
  assumes "dyn_run cfg envs (dyn_boot cfg t) = Inr s"
  shows "type_of (dyn_x (d_bird s)) = TFloat \<and>
         type_of (dyn_y (d_bird s)) = type_of (dyn_vy (d_bird s)) \<and>
         (type_of (dyn_y (d_bird s)) = TInt \<longleftrightarrow> phase_of (erase s) = Idle)"
proof -
  from well_typed_boot assms have "well_typed s" by (rule well_typed_run)
  then show ?thesis
    by (auto simp: well_typed_def bird_typing_def entry_type_def dyn_phase_def)
qed

theorem types_follow_phase_witness:
  "dyn_run demo_cfg [idle_env, tap_env] (dyn_boot demo_cfg 0) =
     Inr \<lparr>d_bird = \<lparr>dyn_x = PyFloat (432 / 5), dyn_y = PyFloat (7829 / 20),
                    dyn_vy = PyFloat (- (171 / 20)), dyn_w = 34, dyn_h = 24\<rparr>,
          d_pipes = [], d_score = 0, d_running = True, d_game_over = False,
          d_last_spawn = 0\<rparr> \<and>
   dyn_run demo_cfg [idle_env] (dyn_boot demo_cfg 0) =
     Inr \<lparr>d_bird = \<lparr>dyn_x = PyFloat (432 / 5), dyn_y = PyInt 400,
                    dyn_vy = PyInt 0, dyn_w = 34, dyn_h = 24\<rparr>,
          d_pipes = [], d_score = 0, d_running = False, d_game_over = False,
          d_last_spawn = 0\<rparr>"
  using types_follow_phase [of demo_cfg "[idle_env, tap_env]" 0]
    types_follow_phase [of demo_cfg "[idle_env]" 0]
  by (simp add: fb_defs Let_def)

end
