(* ===== verification/FB_Strategy.thy ===== *)
theory FB_Strategy
  imports FB_Main
begin

text \<open>
  A player who never loses. In the 480 by 800 window a flap every 39 frames makes the
  bird's height periodic: the flap gives the velocity \<open>-9\<close>, gravity adds \<open>0.45\<close> per
  frame, and 39 frames later the bird is back where it was, having risen no more than
  85.5 pixels. When every gap starts at \<open>y = 280\<close> the bird stays inside it, so the game
  goes on for ever and the score grows without bound. No code is modelled here: the
  theory holds the player (\<open>pilot\<close>), the invariant of the game under this player
  (\<open>piloted\<close>) and the proof that the loop of \<open>FB_Loop\<close> keeps it.
\<close>

section \<open>The player\<close>

text \<open>
  Frame \<open>j\<close> of the game, counted from 0: it ends 16 ms after the frame before, it holds
  a click when \<open>j\<close> is a multiple of 39, and its random number gives the gap offset 280.
\<close>

definition pilot_env :: "nat \<Rightarrow> frame_env" where
  "pilot_env j =
     \<lparr>events = (if j mod 39 = 0 then [(MOUSEBUTTONDOWN, 16 * int (Suc j))] else []),
      ticks_check = 16 * int (Suc j), ticks_stamp = 16 * int (Suc j), entropy = 240\<rparr>"

definition pilot :: "nat \<Rightarrow> frame_env list" where
  "pilot n = map pilot_env [0..<n]"

text \<open>
  The same frames on the program's clock: the loop is back at \<open>clock.tick\<close> at once,
  the tick sleeps for the full 16 ms, and the readings of the frame are taken as it ends.
\<close>

definition pilot_timed :: "nat \<Rightarrow> timed_env" where
  "pilot_timed j =
     frame_env.extend (pilot_env j) (timed_env.fields (16 * int j) 0)"

definition timed_pilot :: "nat \<Rightarrow> timed_env list" where
  "timed_pilot n = map pilot_timed [0..<n]"

text \<open>The number of frames since the last flap, after \<open>j\<close> frames: between 1 and 39.\<close>

definition since_flap :: "nat \<Rightarrow> nat" where
  "since_flap j = (j - 1) mod 39 + 1"

text \<open>The height the bird has lost \<open>i\<close> frames after a flap (negative: it has risen).\<close>

definition hover :: "nat \<Rightarrow> pyfloat" where
  "hover i = (9 / 40) * of_nat i * (of_nat i + 1) - 9 * of_nat i"

text \<open>
  The game after \<open>j\<close> frames of this player: running, the bird on its periodic path, every
  gap at 280, the spawn timer restarted every 94 frames, and as many pipes spawned.
\<close>

definition piloted :: "nat \<Rightarrow> game \<Rightarrow> bool" where
  "piloted j g \<longleftrightarrow>
     spaced_inv demo_cfg g \<and> running g \<and> \<not> game_over g \<and>
     bird_vy (bird g) = GRAVITY * of_nat (since_flap j) + of_int FLAP \<and>
     bird_y (bird g) = 400 + hover (since_flap j) \<and>
     list_all (\<lambda>p. pipe_top p = 280) (pipes g) \<and>
     last_spawn g = 1504 * int (j div 94) \<and>
     potential g = int (j div 94)"

section \<open>Lemmas: the bird's path\<close>

lemma since_flap_range: "1 \<le> since_flap j \<and> since_flap j \<le> 39"
  by (simp add: since_flap_def)

lemma since_flap_Suc:
  "1 \<le> j \<Longrightarrow> since_flap (Suc j) = (if j mod 39 = 0 then 1 else since_flap j + 1)"
  unfolding since_flap_def by (cases j) (auto simp: mod_Suc)

lemma since_flap_before_flap: "1 \<le> j \<Longrightarrow> j mod 39 = 0 \<Longrightarrow> since_flap j = 39"
  unfolding since_flap_def by (cases j) (auto simp: mod_Suc split: if_splits)

lemma hover_Suc: "hover (Suc i) = hover i + (GRAVITY * of_nat (Suc i) + of_int FLAP)"
  by (simp add: hover_def GRAVITY_def FLAP_def field_simps)

lemma hover_period [simp]: "hover 0 = 0" "hover 39 = 0"
  by (simp_all add: hover_def GRAVITY_def FLAP_def)

text \<open>The path stays within 85.5 pixels above its start.\<close>

lemma hover_bounds:
  assumes "1 \<le> i" and "i \<le> 39"
  shows "- (171 / 2) \<le> hover i \<and> hover i \<le> 0"
proof -
  define k where "k = int i"
  have h: "hover i = (9 / 40) * of_int (k * k - 39 * k)"
    by (simp add: hover_def k_def algebra_simps)
  from assms have "0 \<le> k" "k \<le> 39" by (simp_all add: k_def)
  then have "k * (k - 39) \<le> 0" by (intro mult_nonneg_nonpos) simp_all
  then have up: "k * k - 39 * k \<le> 0" by (simp add: algebra_simps)
  have "0 \<le> (k - 19) * (k - 20)"
  proof (cases "k \<le> 19")
    case True
    then show ?thesis by (intro mult_nonpos_nonpos) simp_all
  next
    case False
    then show ?thesis by (intro mult_nonneg_nonneg) simp_all
  qed
  then have lo: "- 380 \<le> k * k - 39 * k" by (simp add: algebra_simps)
  from lo have "(of_int (- 380) :: rat) \<le> of_int (k * k - 39 * k)" by (simp only: of_int_le_iff)
  moreover from up have "(of_int (k * k - 39 * k) :: rat) \<le> of_int 0" by (simp only: of_int_le_iff)
  ultimately show ?thesis unfolding h by simp
qed

section \<open>Lemmas: the spawn timer\<close>

lemma pilot_div_Suc: "Suc j div 94 = (if j mod 94 = 93 then j div 94 + 1 else j div 94)"
  by (simp add: div_Suc mod_Suc)

lemma split_94: "int j = 94 * int (j div 94) + int (j mod 94)"
  by (simp add: zdiv_int zmod_int)

text \<open>The timer runs out in every 94th frame, 1504 ms after it was restarted.\<close>

lemma pilot_spawn_due:
  assumes "last_spawn g = 1504 * int (j div 94)"
  shows "spawn_due (pilot_env j) g \<longleftrightarrow> j mod 94 = 93"
proof -
  have "j mod 94 < 94" by simp
  with split_94 [of j] assms show ?thesis
    by (simp add: spawn_due_def pilot_env_def del: of_nat_Suc add: of_nat_Suc [where ?'a = int])
       linarith
qed

lemma pilot_timer_restart: "j mod 94 = 93 \<Longrightarrow> 16 * int (Suc j) = 1504 * int (Suc j div 94)"
  using split_94 [of j] by (simp add: pilot_div_Suc)

section \<open>Lemmas: one frame\<close>

text \<open>The events of a frame: a flap in a running game, or nothing.\<close>

lemma pilot_events:
  assumes "running g" and "\<not> game_over g"
  shows "handle_events demo_cfg (events (pilot_env j)) g =
         Inr (if j mod 39 = 0 then flap g else g)"
  using assms by (simp add: pilot_env_def primary_action_def)

text \<open>The bird one frame on.\<close>

lemma pilot_bird:
  assumes "piloted j g" and "1 \<le> j"
  defines "g0 \<equiv> (if j mod 39 = 0 then flap g else g)"
  shows "bird_vy (bird (bird_physics g0)) = GRAVITY * of_nat (since_flap (Suc j)) + of_int FLAP"
    and "bird_y (bird (bird_physics g0)) = 400 + hover (since_flap (Suc j))"
proof -
  from assms(1) have vy: "bird_vy (bird g) = GRAVITY * of_nat (since_flap j) + of_int FLAP"
    and y: "bird_y (bird g) = 400 + hover (since_flap j)"
    by (simp_all add: piloted_def)
  show "bird_vy (bird (bird_physics g0)) = GRAVITY * of_nat (since_flap (Suc j)) + of_int FLAP"
    using vy assms(2) by (simp add: g0_def since_flap_Suc algebra_simps)
  show "bird_y (bird (bird_physics g0)) = 400 + hover (since_flap (Suc j))"
    using vy y assms(2)
    by (simp add: g0_def since_flap_Suc since_flap_before_flap hover_Suc algebra_simps)
qed

text \<open>A bird on the path is clear of the ground and of every pipe whose gap starts at 280.\<close>

lemma on_path_clear:
  assumes y: "bird_y (bird m) = 400 + hover i" and i: "1 \<le> i" "i \<le> 39"
    and h: "bird_h (bird m) = 24"
    and tops: "list_all (\<lambda>p. pipe_top p = 280) (pipes m)"
  shows "\<not> hits_ground demo_cfg m \<and> \<not> hits_pipe demo_cfg m"
proof -
  from hover_bounds [OF i] y have b: "629 / 2 \<le> bird_y (bird m)" "bird_y (bird m) \<le> 400"
    by simp_all
  then have "314 \<le> py_int (bird_y (bird m))" "py_int (bird_y (bird m)) \<le> 400"
    by (simp_all add: py_int_nonneg le_floor_iff floor_le_iff)
  with h have "in_gap (brect m) p" if "pipe_top p = 280" for p
    using that by (simp add: in_gap_def PIPE_GAP_def)
  with tops have "\<not> hits_pipe demo_cfg m"
    by (auto simp: hits_pipe_def list_ex_iff list_all_iff dest: in_gap_no_hit)
  moreover from b h have "\<not> hits_ground demo_cfg m"
    by (simp add: hits_ground_def GROUND_def)
  ultimately show ?thesis by simp
qed

text \<open>The game logic of frame \<open>j\<close> on a running game whose timer follows the player.\<close>

lemma pilot_logic:
  assumes inv: "game_inv demo_cfg g0" and run: "running g0" "\<not> game_over g0"
    and tops: "list_all (\<lambda>p. pipe_top p = 280) (pipes g0)"
    and ls: "last_spawn g0 = 1504 * int (j div 94)"
    and pot: "potential g0 = int (j div 94)"
  obtains g1 where "spawn_pipes demo_cfg (pilot_env j) (bird_physics g0) = Inr g1"
    and "list_all (\<lambda>p. pipe_top p = 280) (pipes (remove_offscreen (move_pipes g1)))"
    and "last_spawn g1 = 1504 * int (Suc j div 94)"
    and "potential (remove_offscreen (move_pipes g1)) = int (Suc j div 94)"
    and "bird g1 = bird (bird_physics g0)"
proof -
  let ?env = "pilot_env j"
  have due: "spawn_due ?env g0 \<longleftrightarrow> j mod 94 = 93"
    using ls by (rule pilot_spawn_due)
  have r: "randint top_min (top_max demo_cfg) (entropy ?env) = Inr 280"
    by (simp add: randint_def top_min_def top_max_def pilot_env_def GROUND_def PIPE_GAP_def)
  define g1 where "g1 = (if j mod 94 = 93
      then (bird_physics g0)\<lparr>pipes := pipes g0 @ [new_pipe demo_cfg 280],
                              last_spawn := ticks_stamp ?env\<rparr>
      else bird_physics g0)"
  have sp: "spawn_pipes demo_cfg ?env (bird_physics g0) = Inr g1"
    by (simp add: spawn_pipes_Inr_iff due r g1_def)
  have "list_all (\<lambda>p. pipe_top p = 280) (pipes g1)"
    using tops by (simp add: g1_def new_pipe_def)
  then have t: "list_all (\<lambda>p. pipe_top p = 280) (pipes (remove_offscreen (move_pipes g1)))"
    by (auto simp: list_all_iff step_pipe_def move_pipe_def)
  have l: "last_spawn g1 = 1504 * int (Suc j div 94)"
    using ls pilot_timer_restart [of j]
    by (simp add: g1_def pilot_div_Suc pilot_env_def del: of_nat_Suc)
  have "potential g1 = int (Suc j div 94)"
    using potential_spawn_pipes [OF sp] pot due by (simp add: pilot_div_Suc)
  with potential_after_spawn [OF inv _ sp]
  have p: "potential (remove_offscreen (move_pipes g1)) = int (Suc j div 94)" by simp
  from sp have "bird g1 = bird (bird_physics g0)" by (simp add: spawn_pipes_frame)
  with sp t l p that show ?thesis by blast
qed

text \<open>One frame keeps the game on the player's path.\<close>

lemma piloted_frame:
  assumes p: "piloted j g" and j: "1 \<le> j"
  shows "\<exists>g'. frame demo_cfg (pilot_env j) g = Inr g' \<and> piloted (Suc j) g'"
proof -
  define g0 where "g0 = (if j mod 39 = 0 then flap g else g)"
  from p have sinv: "spaced_inv demo_cfg g" and run: "running g" "\<not> game_over g"
    by (simp_all add: piloted_def)
  from run have ev: "handle_events demo_cfg (events (pilot_env j)) g = Inr g0"
    by (simp add: pilot_events g0_def)
  from sinv have "game_inv demo_cfg g" by (simp add: spaced_inv_def)
  then have inv0: "game_inv demo_cfg g0" using ev by (rule game_inv_handle_events)
  from p have same: "running g0" "\<not> game_over g0"
    "list_all (\<lambda>p. pipe_top p = 280) (pipes g0)"
    "last_spawn g0 = 1504 * int (j div 94)" "potential g0 = int (j div 94)"
    by (simp_all add: piloted_def g0_def potential_def)
  from inv0 same obtain g1
    where sp: "spawn_pipes demo_cfg (pilot_env j) (bird_physics g0) = Inr g1"
      and tops: "list_all (\<lambda>p. pipe_top p = 280) (pipes (remove_offscreen (move_pipes g1)))"
      and ls: "last_spawn g1 = 1504 * int (Suc j div 94)"
      and pot: "potential (remove_offscreen (move_pipes g1)) = int (Suc j div 94)"
      and b: "bird g1 = bird (bird_physics g0)"
    by (rule pilot_logic)
  define m where "m = remove_offscreen (move_pipes g1)"
  from b have bm: "bird m = bird (bird_physics g0)" by (simp add: m_def)
  from pilot_bird [OF p j]
  have vy: "bird_vy (bird m) = GRAVITY * of_nat (since_flap (Suc j)) + of_int FLAP"
    and y: "bird_y (bird m) = 400 + hover (since_flap (Suc j))"
    by (simp_all add: bm g0_def)
  from inv0 have h: "bird_h (bird m) = 24" by (simp add: bm game_inv_def bird_ok_def)
  from tops have tm: "list_all (\<lambda>p. pipe_top p = 280) (pipes m)" by (simp only: m_def)
  from since_flap_range [of "Suc j"]
  have r: "1 \<le> since_flap (Suc j)" "since_flap (Suc j) \<le> 39" by simp_all
  from y r h tm have clear: "\<not> hits_ground demo_cfg m \<and> \<not> hits_pipe demo_cfg m"
    by (rule on_path_clear)
  from sp same have lg: "game_logic demo_cfg (pilot_env j) g0 = Inr m"
    using clear by (simp add: game_logic_Inr_iff collision_eq m_def)
  with ev have f: "frame demo_cfg (pilot_env j) g = Inr m" by (auto simp: frame_Inr_iff)
  have "spaced_inv demo_cfg m" using spaced_inv_frame [OF sinv _ f] by simp
  moreover from sp same have "running m" "\<not> game_over m" "last_spawn m = last_spawn g1"
    by (simp_all add: m_def spawn_pipes_frame)
  ultimately have "piloted (Suc j) m"
    using vy y tm ls pot by (simp add: piloted_def) (simp add: m_def)
  with f show ?thesis by blast
qed

text \<open>The first frame starts the game.\<close>

lemma piloted_first: "\<exists>g. frame demo_cfg (pilot_env 0) (boot demo_cfg 0) = Inr g \<and> piloted 1 g"
proof -
  obtain g where f: "frame demo_cfg (pilot_env 0) (boot demo_cfg 0) = Inr g"
    and g: "running g" "\<not> game_over g" "bird_vy (bird g) = - (171 / 20)"
      "bird_y (bird g) = 7829 / 20" "pipes g = []" "last_spawn g = 0" "score g = 0"
    by (simp add: fb_defs pilot_env_def Let_def)
  have "spaced_inv demo_cfg g" using spaced_inv_frame [OF spaced_inv_boot _ f] by simp
  with g have "piloted 1 g"
    by (simp add: piloted_def since_flap_def potential_def hover_def GRAVITY_def FLAP_def)
  with f show ?thesis by blast
qed

section \<open>Lemmas: the run\<close>

lemma pilot_Suc: "pilot (Suc n) = pilot n @ [pilot_env n]"
  by (simp add: pilot_def)

lemma piloted_run: "\<exists>g. run demo_cfg (pilot (Suc n)) (boot demo_cfg 0) = Inr g \<and> piloted (Suc n) g"
proof (induction n)
  case 0
  from piloted_first obtain g
    where "frame demo_cfg (pilot_env 0) (boot demo_cfg 0) = Inr g" and "piloted 1 g" by auto
  then show ?case by (simp add: pilot_def)
next
  case (Suc n)
  then obtain g where r: "run demo_cfg (pilot (Suc n)) (boot demo_cfg 0) = Inr g"
    and p: "piloted (Suc n) g" by blast
  from piloted_frame [OF p] obtain g'
    where "frame demo_cfg (pilot_env (Suc n)) g = Inr g'" and "piloted (Suc (Suc n)) g'"
    by auto
  with r show ?case by (subst pilot_Suc) (auto simp: run_snoc_Inr_iff)
qed

text \<open>The player's clock is steady: 16 ms from one frame to the next.\<close>

lemma pilot_steady: "steady 16 (16 * int j) (map pilot_env [j..<j + n])"
proof (induction n arbitrary: j)
  case 0
  show ?case by simp
next
  case (Suc n)
  have "[j..<j + Suc n] = j # [Suc j..<Suc j + n]" by (simp add: upt_conv_Cons)
  with Suc [of "Suc j"] show ?case by (simp add: pilot_env_def)
qed

lemma pilot_gapped:
  assumes "run demo_cfg (pilot n) (boot demo_cfg 0) = Inr g"
  shows "sorted_wrt (\<lambda>p q. pipe_x p + 282 \<le> pipe_x q) (pipes g)"
proof -
  have "steady 16 0 (pilot n)" using pilot_steady [of 0 n] by (simp add: pilot_def)
  from timing_inv_run [OF timing_inv_boot _ _ this assms]
  have "gapped 16 (pipes g)" by (auto simp: timing_inv_def)
  then show ?thesis by (simp add: gapped_def min_gap_def PIPE_SPEED_def)
qed

text \<open>
  Pipes 282 pixels apart: at most two of them are between the bird and the right edge.
\<close>

lemma ahead_le_two:
  assumes inv: "game_inv demo_cfg g"
    and gap: "sorted_wrt (\<lambda>p q. pipe_x p + 282 \<le> pipe_x q) (pipes g)"
  shows "unpassed (pipes g) \<le> 2"
proof -
  let ?qs = "filter (\<lambda>p. \<not> pipe_passed p) (pipes g)"
  have "17 \<le> pipe_x p \<and> pipe_x p \<le> 487" if "p \<in> set ?qs" for p
  proof -
    from that inv have ok: "pipe_ok demo_cfg (start_x demo_cfg) 487 p" and "\<not> pipe_passed p"
      by (simp_all add: game_inv_def pipes_ok_def list_all_iff)
    then have "432 / 5 \<le> (of_int (pipe_x p + 70) :: rat)"
      by (simp add: pipe_ok_def start_x_def PIPE_WIDTH_def)
    moreover have "(of_int (pipe_x p + 70) :: rat) \<le> of_int 86" if "pipe_x p + 70 \<le> 86"
      using that by (simp only: of_int_le_iff)
    ultimately have "\<not> pipe_x p + 70 \<le> 86" by auto
    with ok show ?thesis by (simp add: pipe_ok_def)
  qed
  then have "list_all (\<lambda>p. 17 \<le> pipe_x p \<and> pipe_x p \<le> 487) ?qs"
    by (simp only: list_all_iff) blast
  with sorted_wrt_filter [OF gap] have "int (length ?qs) \<le> (487 - 17) div 282 + 1"
    by (rule gap_length) simp_all
  then show ?thesis by (simp add: unpassed_def)
qed

text \<open>The run of the loop under the player.\<close>

lemma pilot_run:
  "\<exists>g. run demo_cfg (pilot (Suc n)) (boot demo_cfg 0) = Inr g \<and> phase_of g = Running \<and>
       int (Suc n div 94) \<le> score g + 2"
proof -
  from piloted_run obtain g where r: "run demo_cfg (pilot (Suc n)) (boot demo_cfg 0) = Inr g"
    and p: "piloted (Suc n) g" by blast
  from p have "game_inv demo_cfg g" and pot: "potential g = int (Suc n div 94)"
    by (simp_all add: piloted_def spaced_inv_def)
  with pilot_gapped [OF r] have "unpassed (pipes g) \<le> 2" by (intro ahead_le_two)
  with pot have "int (Suc n div 94) \<le> score g + 2" by (simp add: potential_def)
  moreover from p have "phase_of g = Running" by (simp add: piloted_def)
  ultimately show ?thesis using r by blast
qed

section \<open>Lemmas: the program\<close>

lemma pilot_timed_fields [simp]:
  "frame_env.truncate (pilot_timed j) = pilot_env j"
  "arrival (pilot_timed j) = 16 * int j"
  "oversleep (pilot_timed j) = 0"
  "ticks_check (pilot_timed j) = 16 * int (Suc j)"
  "ticks_stamp (pilot_timed j) = 16 * int (Suc j)"
  "events (pilot_timed j) = events (pilot_env j)"
  by (simp_all add: pilot_timed_def pilot_env_def frame_env.defs timed_env.defs)

lemma truncate_timed_pilot: "map frame_env.truncate (timed_pilot n) = pilot n"
  by (simp add: timed_pilot_def pilot_def)

text \<open>The player's frames are a timeline of the program's clock.\<close>

lemma pilot_timeline:
  "timeline_ok \<lparr>last_tick = 16 * int j\<rparr> (map pilot_timed [j..<j + n])"
proof (induction n arbitrary: j)
  case 0
  show ?case by simp
next
  case (Suc n)
  have l: "[j..<j + Suc n] = j # [Suc j..<Suc j + n]" by (simp add: upt_conv_Cons)
  have e: "tick_end \<lparr>last_tick = 16 * int j\<rparr> (pilot_timed j) = 16 * int (Suc j)"
    by (simp add: tick_end_eq)
  have "readings_ok \<lparr>last_tick = 16 * int j\<rparr> (pilot_timed j)"
    unfolding readings_ok_def e by (simp add: pilot_env_def)
  moreover have "case map pilot_timed [Suc j..<Suc j + n] of [] \<Rightarrow> True
      | te' # _ \<Rightarrow> ticks_stamp (pilot_timed j) \<le> arrival te'"
  proof (cases n)
    case 0
    then show ?thesis by simp
  next
    case (Suc m)
    have "[Suc j..<Suc j + Suc m] = Suc j # [Suc (Suc j)..<Suc j + Suc m]"
      by (simp add: upt_conv_Cons del: upt_Suc)
    with Suc show ?thesis by (simp del: upt_Suc)
  qed
  ultimately show ?case using Suc [of "Suc j"] unfolding l by (simp add: e)
qed

lemma demo_platform_ok: "platform_ok demo_platform \<and> config_of demo_platform = demo_cfg"
  by (simp add: platform_ok_def display_ok_def is_image_def config_of_def image_size_def
      demo_files_def mk_config_def)

section \<open>Properties of the player\<close>

text \<open>C10. The game can be played for ever. On the platform of the examples (a window of
  480 by 800), with gaps that start at \<open>y = 280\<close> and frames 16 ms apart on the
  program's clock, a player who flaps in every 39th frame never hits a pipe or the ground:
  after any number of frames the program has not stopped, the game is still running, and
  all pipes spawned, one every 94 frames, have been counted but for the two at most that
  are still ahead of the bird. So there is no bound on the score that a run of the loop
  can reach.\<close>

theorem pilot_never_loses:
  "\<exists>c g scr. main demo_platform (timed_pilot (Suc n)) = Inr (c, g, scr) \<and>
       timeline_ok (Clock 0) (timed_pilot (Suc n)) \<and>
       phase_of g = Running \<and> int (Suc n div 94) \<le> score g + 2"
proof -
  from pilot_run [of n] obtain g
    where r: "run demo_cfg (pilot (Suc n)) (boot demo_cfg 0) = Inr g"
      and g: "phase_of g = Running" "int (Suc n div 94) \<le> score g + 2" by blast
  from main_ok [of demo_platform "timed_pilot (Suc n)"] r
  have "map_sum id (fst \<circ> snd) (main demo_platform (timed_pilot (Suc n))) = Inr g"
    by (simp add: demo_platform_ok truncate_timed_pilot)
  then obtain c scr where "main demo_platform (timed_pilot (Suc n)) = Inr (c, g, scr)"
    by (cases "main demo_platform (timed_pilot (Suc n))") auto
  moreover have "timeline_ok (Clock 0) (timed_pilot (Suc n))"
    using pilot_timeline [of 0 "Suc n"] by (simp add: timed_pilot_def Clock_def)
  ultimately show ?thesis using g by blast
qed

end
