(* ===== verification/Spec2Isabelle.thy ===== *)
theory Spec2Isabelle
  imports FB_Prelude FB_Config FB_Geometry FB_Entities FB_Spawner FB_Input FB_Physics
    FB_Collision FB_Loop FB_Progress FB_Render FB_Clock FB_Startup FB_Main
    FB_Types FB_Strategy
begin

text \<open>
  \<^bold>\<open>A verified model of \<open>src/flappybird.py\<close>.\<close>

  The program is a single Python module on pygame: a bird falls under gravity and flaps
  on a click, a tap, SPACE or UP; pipes with a gap enter from the right every 1.5 seconds
  and move left; the score counts the pipes the bird has passed; touching a pipe or the
  ground ends the game, and the next click restarts it. The module keeps its state in
  global variables and runs one endless loop: read the events, run the game logic if the
  game is running, draw.

  \<^bold>\<open>The parts and the theories that model them.\<close>
  \<^item> \<open>FB_Prelude\<close>: the vocabulary shared by all parts. Python \<open>int\<close> is \<open>int\<close>; Python
    \<open>float\<close> is \<open>rat\<close> (\<open>pyfloat\<close>), exact arithmetic without IEEE-754 rounding.
    \<open>py_int\<close> is the truncation that \<open>pygame.Rect\<close> applies to float arguments.
    A computation that can stop the program returns \<open>halt + 'a\<close>, with \<open>SysExit\<close>
    for \<open>sys.exit()\<close>, \<open>ValueError\<close> for the one exception the loop can raise, and
    \<open>PygameError\<close> and \<open>FileNotFoundError\<close> for those of start-up;
    \<open>and_then\<close> sequences two such computations and \<open>for_each\<close> is a \<open>for\<close> loop
    over a list whose body may stop. \<open>randint\<close> is \<open>random.randint\<close> with the entropy
    of the call as an argument.
  \<^item> \<open>FB_Config\<close>: the constants (\<open>GRAVITY\<close>, \<open>FLAP\<close>, \<open>PIPE_GAP\<close>, \<open>PIPE_WIDTH\<close>,
    \<open>PIPE_SPEED\<close>, \<open>GROUND\<close>, \<open>FPS\<close>) and the record \<open>config\<close> of the values fixed
    at start-up: \<open>WIDTH\<close> and \<open>HEIGHT\<close>, the display size capped at 480 by 800
    (\<open>mk_config\<close>), and the size of the bird sprite.
  \<^item> \<open>FB_Geometry\<close>: \<open>rect_overlap\<close> and the rectangles it takes (\<open>rect\<close>, \<open>Rect\<close>,
    \<open>rect_right\<close>, \<open>rect_bottom\<close>). Lemmas: the test is the closed rectangles sharing
    a point, is symmetric, and counts touching edges.
  \<^item> \<open>FB_Entities\<close>: the records \<open>bird\<close>, \<open>pipe\<close> and \<open>game\<close> (the dictionaries and
    globals of the module), the state after the module's top level (\<open>initial_game\<close>),
    the events (\<open>event\<close>, \<open>key\<close>), what one loop iteration reads from outside
    (\<open>frame_env\<close>: the event queue, two clock readings, the generator's entropy), and
    the phase that the flags \<open>running\<close> and \<open>game_over\<close> encode (\<open>phase_of\<close>).
  \<^item> \<open>FB_Spawner\<close>: \<open>spawn_pipe()\<close>. Lemmas: it appends one well-formed pipe, it raises
    exactly on windows lower than 320 pixels, every offset of the range can be drawn.
  \<^item> \<open>FB_Input\<close>: \<open>reset()\<close>, the handler body shared by the mouse and the keys
    (\<open>primary_action\<close>: \<open>reset\<close> when the game is over, \<open>flap\<close> otherwise), the
    dispatch on one event (\<open>handle_event\<close>) and the loop over the queue
    (\<open>handle_events\<close>). Lemmas: the result of a queue with and without a \<open>QUIT\<close> and a
    primary action.
  \<^item> \<open>FB_Physics\<close>: the blocks "bird physics" (\<open>bird_physics\<close>), "spawn pipes"
    (\<open>spawn_pipes\<close>), "move and score" (\<open>move_and_score\<close>, \<open>move_pipes\<close>) and "remove
    off-screen pipes" (\<open>remove_offscreen\<close>) of the game logic. Lemmas: the closed form of
    a free fall, the scoring loop as a map and a count, each pipe counted once, removal
    as dropping a prefix.
  \<^item> \<open>FB_Collision\<close>: the block "collision": the ground test (\<open>hits_ground\<close>,
    \<open>ground_check\<close>), the rectangles of the bird and of a pipe (\<open>brect\<close>, \<open>top_rect\<close>,
    \<open>bottom_rect\<close>), and the loop over the pipes (\<open>collide_pipes\<close>). Lemmas: the loop is
    one condition (\<open>collision_eq\<close>); within the playfield a pipe is hit exactly when the
    bird is in its column and not strictly inside its gap.
  \<^item> \<open>FB_Loop\<close>: the game logic as a whole (\<open>game_logic\<close>, the body of
    \<open>if running and not game_over\<close>), one loop iteration without drawing (\<open>frame\<close>),
    start-up (\<open>boot\<close>), the loop on a list of frame environments (\<open>run\<close>), the
    reachable states (\<open>reachable\<close>, an inductive predicate), their invariant
    (\<open>game_inv\<close>), and the abstract phase machine (\<open>phase_step\<close>, \<open>phase_on_event\<close>,
    \<open>phase_on_tick\<close>) that the loop refines.
  \<^item> \<open>FB_Progress\<close>: no code of its own; the spacing of the pipes (\<open>x_spaced\<close>) as a
    second invariant of the reachable states, the bound on the pipe list (\<open>max_pipes\<close>),
    frames without input (\<open>quiet\<close>), the number of frames a free fall takes
    (\<open>fall_frames\<close>), a pipe after \<open>k\<close> steps (\<open>travel\<close>) and runs during which
    the game goes on (\<open>survives\<close>).
  \<^item> \<open>FB_Render\<close>: the drawing code. Surfaces are terms (\<open>surface\<close>: the three images
    and the results of \<open>flip\<close>, \<open>smoothscale\<close> and \<open>Font.render\<close>), the screen is
    the list of blits since the background was drawn (\<open>blit\<close>, \<open>blit_cmd\<close>),
    \<open>draw_pipe\<close> is the function of that name, \<open>draw\<close> is the block "draw" of the loop
    (\<open>draw_bird\<close>, \<open>draw_score\<close>, \<open>draw_start_prompt\<close>, \<open>draw_game_over\<close> are its
    parts), \<open>str\<close> is Python's \<open>str\<close> on the score, and \<open>play\<close> is the loop with
    its drawing, which collects the frames presented by \<open>pygame.display.update()\<close>.
    The sizes that the image and font files decide are the record \<open>assets\<close>. The
    specification of the renderer is \<open>scene\<close>.
  \<^item> \<open>FB_Clock\<close>: frame pacing. \<open>clock\<close> is the \<open>pygame.time.Clock\<close> of line 13
    (the time of its last tick), \<open>tick\<close> is \<open>clock.tick(FPS)\<close>, \<open>timed_frame\<close> and
    \<open>timed_play\<close> are the loop body and the loop with the tick in front. A frame's
    environment gets two more fields (\<open>timed_env\<close>): the time at which the loop enters
    the tick and the time by which the sleep runs over. The specification is a timeline on
    which every reading of a frame is taken after its tick (\<open>timeline_ok\<close>), a clock
    whose spawn tests are at most \<open>d\<close> ms apart (\<open>steady\<close>), and the invariant
    \<open>timing_inv\<close> that ties the age of the spawn timer to the distance the last pipe
    has travelled.
  \<^item> \<open>FB_Startup\<close>: the module's top level before the state, as a function
    \<open>startup\<close> of the \<open>platform\<close> (the display size, the image files, the font
    metrics and two clock readings) that returns the \<open>config\<close>, the \<open>assets\<close> and
    the clock, or the exception of the first call that fails (\<open>set_mode\<close>, \<open>load\<close>,
    \<open>scale\<close>). Its specification is \<open>startup_error\<close> and \<open>platform_ok\<close>.
  \<^item> \<open>FB_Main\<close>: \<open>main\<close>, the whole module: \<open>startup\<close>, then \<open>reset()\<close>
    (\<open>boot\<close>), then \<open>timed_play\<close>.
  \<^item> \<open>FB_Types\<close>: the entries of \<open>bird\<close> with their Python types (\<open>pyval\<close>:
    \<open>PyInt\<close> or \<open>PyFloat\<close>), Python's arithmetic on them (\<open>py_add\<close>, \<open>py_sub\<close>,
    \<open>py_mul\<close>, \<open>floordiv2\<close>, \<open>py_less\<close>, \<open>rect_arg\<close>), the writes and reads of
    the bird on typed values (\<open>dyn_reset\<close>, \<open>dyn_flap\<close>, \<open>dyn_physics\<close>,
    \<open>dyn_newly_passed\<close>, \<open>dyn_hits_ground\<close>, \<open>dyn_brect\<close>), the blocks of the
    game logic around them (\<open>dyn_spawn_pipes\<close>, \<open>dyn_move_pipes\<close>,
    \<open>dyn_remove_offscreen\<close>, \<open>dyn_collision\<close>) and the loop (\<open>dyn_game_logic\<close>,
    \<open>dyn_frame\<close>, \<open>dyn_run\<close>). \<open>erase\<close> forgets the types; \<open>bird_typing\<close> is
    the typing of the dictionary in a phase.
  \<^item> \<open>FB_Strategy\<close>: no code of its own; a player (\<open>pilot\<close>: a click in every 39th
    frame, frames 16 ms apart, gaps at 280; \<open>timed_pilot\<close>: the same frames on the
    program's clock) and the invariant of the game under this
    player (\<open>piloted\<close>: the bird on a path of period 39, \<open>hover\<close>, and the spawn
    timer restarted every 94 frames).
  \<^item> This theory: properties that span components, stated on the scenarios of the
    specification.

  \<^bold>\<open>How state and effects correspond to the code.\<close> Every function of the model takes
  the \<open>game\<close> record and returns the new one, in the order in which the code writes its
  globals. A dictionary access \<open>bird["vy"]\<close> is the field \<open>bird_vy (bird g)\<close>. The
  pipe list is a list in spawn order. What the code reads from the outside world is an
  argument: \<open>pygame.time.get_ticks()\<close> is \<open>ticks_check\<close> and \<open>ticks_stamp\<close> (the two
  calls of the spawn block may return different values) and the second component of each
  event (the reading that \<open>reset()\<close> would see during that event); \<open>random.randint\<close>
  is \<open>randint\<close> applied to \<open>entropy\<close>; \<open>pygame.event.get()\<close> is \<open>events\<close>.
  The time at which the loop calls \<open>clock.tick\<close> is \<open>arrival\<close>, and the sleep of
  that call ends \<open>oversleep\<close> milliseconds late. What start-up reads is the record
  \<open>platform\<close>: \<open>pygame.display.Info()\<close> is \<open>current_w\<close> and \<open>current_h\<close>, the
  working directory is \<open>files\<close>, a name to a missing file, a file that is no image, or
  an image of some size.

  \<^bold>\<open>What the theorems show.\<close>
  \<^item> State machine: \<open>reachable_game_inv\<close> (the invariant of all reachable states),
    \<open>handle_events_refines\<close> and \<open>steps_are_phase_steps\<close> (the loop implements the
    machine Idle, Running, GameOver and takes no other edge), \<open>idle_run_frozen\<close>,
    \<open>restart_after_game_over\<close>, \<open>taps_flap_once\<close>.
  \<^item> Collision: \<open>game_logic_outcome\<close> (the game ends exactly on a hit),
    \<open>pipe_hit_in_playfield\<close>, \<open>scenario_gap_480x800\<close>, \<open>rect_overlap_shares_point\<close>.
  \<^item> Score and pipes: \<open>score_conservation\<close>, \<open>move_pipes_spec\<close>, \<open>counted_once\<close>,
    \<open>removal_drops_prefix\<close>, the three \<open>spawn_pipe\<close> theorems.
  \<^item> Physics: \<open>fall_closed_form\<close>.
  \<^item> Stopping: \<open>main_stops_iff\<close> (only \<open>QUIT\<close> ends the program on a platform with
    its images and a display that is high enough; the loop alone: \<open>run_tall_Inl_iff\<close>)
    and \<open>game_logic_raises_iff\<close> (the loop dies with \<open>ValueError\<close> on a window lower
    than 320 pixels).
  \<^item> Start-up and the program: \<open>startup_outcome\<close> (which call fails, with which
    exception, and what a successful start-up returns), \<open>main_is_startup_then_run\<close>
    (the program is start-up followed by the loop of \<open>FB_Loop\<close>; clock and drawing
    change nothing in the game).
  \<^item> Time: \<open>clock_only_paces\<close> (the clock changes nothing in the game, and on a
    consistent timeline every iteration takes at least 16 ms), \<open>steady_clock_spacing\<close> (pipes are at least
    \<open>4500 div d + 1\<close> pixels apart when spawn tests are at most \<open>d\<close> ms apart),
    \<open>slow_frames_crowd_pipes\<close> (and 3 pixels apart when every frame spawns).
  \<^item> Types: \<open>types_follow_phase\<close> (\<open>bird["y"]\<close> and \<open>bird["vy"]\<close> are \<open>int\<close>
    exactly in Idle, \<open>bird["x"]\<close> is always a \<open>float\<close>). The lemma \<open>erase_run\<close>
    relates the two models of this development to each other (the typed loop computes the
    numbers of the untyped one); it says nothing about the code that the models do not
    say, and is not among the properties.
  \<^item> Progress and bounds: \<open>left_alone_game_ends\<close> (without input a running game is
    over within 80 frames), \<open>running_states_clear\<close> (no reachable Running state has
    the bird in a pipe or in the ground), \<open>pipes_bounded\<close>, \<open>score_single_steps\<close>,
    \<open>pipes_trajectory\<close> and \<open>pipe_schedule\<close> (where a pipe is after \<open>k\<close> frames,
    when it is counted and when it is removed), \<open>late_start_spawns_at_once\<close>.
  \<^item> Playing: \<open>pilot_never_loses\<close> (the game can be played for ever and the score is
    unbounded: under the player of \<open>FB_Strategy\<close> the program, started on the platform
    of the examples, is running after any number of frames and every pipe spawned is counted, but for the two still ahead).
  \<^item> Drawing: \<open>draw_refines_scene\<close> (on a state with the invariant drawing does not
    raise and presents the scene of the specification), \<open>draw_raises_iff\<close>,
    \<open>play_refines_run\<close> (drawing does not change the course of the loop),
    \<open>drawn_is_hit\<close> (the collision rectangles are the areas drawn),
    \<open>labels_centred\<close>, \<open>score_shown\<close> (the one large white text of a frame reads
    back as the score of the state drawn).
  \<^item> Where code and specification part: \<open>ground_test_is_strict\<close>,
    \<open>above_window_is_safe\<close>, \<open>truncation_closes_gap\<close>.

  \<^bold>\<open>Bounds and fuel.\<close> The main loop never returns, so \<open>run\<close> takes the list of the
  environments of the frames it executes; the list is the fuel, and each theorem about
  \<open>run\<close> holds for every list. \<open>run_tall_Inl_iff\<close> and \<open>main_stops_iff\<close> say when
  a run returns \<open>Inr\<close>, so no theorem is about runs that do not exist. \<open>play\<close>,
  \<open>timed_play\<close>, \<open>dyn_run\<close> and \<open>main\<close> take their frames in the same way.
  \<open>tick\<close> asks for \<open>1000 div FPS = 16\<close> ms per frame, so a frame that is in time
  takes 16 ms plus the oversleep; \<open>steady_clock_spacing\<close> is stated for any bound
  \<open>d\<close> on the time between two spawn tests and gives 265 pixels for \<open>d = 17\<close>.
  The player of \<open>FB_Strategy\<close> flaps every 39 frames because
  \<open>39 * (-9) + 0.45 * (1 + ... + 39) = 0\<close>: the bird is back at its height, having
  risen 85.5 pixels at most, which with its 24 pixels fits the gap of 160; the timer runs
  out every 94 frames because \<open>94 * 16 = 1504\<close> is the first multiple of 16 above
  1500. No integer of the program can overflow
  (Python integers are unbounded), so no word types are used. The witnesses evaluate runs
  of up to 50 frames with the simplifier. \<open>fall_frames = 80\<close> is the first \<open>n\<close>
  with \<open>0.225 n (n + 1) - 9 n > 720\<close>: a bird that starts in the window, rising no
  faster than a flap, is below the ground line of a window up to 800 pixels high after
  \<open>n\<close> ticks. \<open>max_pipes\<close> is the number of positions 3 pixels apart between the
  removal threshold \<open>-100\<close> and \<open>WIDTH + 7\<close>.

  \<^bold>\<open>What is not modelled.\<close> The pixels: a surface is the term of the calls that made
  it, and a frame is the list of its blits, not the image they compose; an image file
  is its size. \<open>pygame.init()\<close> and \<open>set_caption\<close>: nothing the program reads
  depends on them. A failure of \<open>pygame.font.SysFont(None, size)\<close>: with the name
  \<open>None\<close> pygame falls back to its built-in font. Rounding of floats: the model's
  \<open>0.45\<close> is the rational 9/20 and \<open>WIDTH * 0.18\<close> is exact, where Python
  computes in IEEE-754 doubles. The theorems that compare the bird's position with a
  margin of pixels (collisions, the 80-frame bound, the player of \<open>FB_Strategy\<close>) are
  not affected by an error of some \<open>10\<^sup>-\<^sup>1\<^sup>3\<close>; an equation between positions
  (\<open>fall_closed_form\<close>) and a comparison on the boundary (the equality case of
  \<open>ground_test_is_strict\<close>, a pass test when \<open>WIDTH * 0.18\<close> is close to an
  integer) hold of the exact numbers and can differ in the last digit, or by one frame, in
  the program. The width of machine integers: \<open>pygame.Rect\<close> stores C ints and
  \<open>get_ticks\<close> wraps after \<open>2\<^sup>3\<^sup>2\<close> ms (49 days); the model's integers are
  unbounded. The library calls are modelled from their documented behaviour, not from
  their code: \<open>tick\<close>, \<open>Rect\<close>, \<open>smoothscale\<close>, \<open>randint\<close>, \<open>str\<close>,
  \<open>set_mode\<close> (only the error on a negative size) and \<open>load\<close> (the exceptions of
  pygame 2). The time the body of
  the loop takes: the readings of a frame are arguments, constrained only where a theorem
  says so (\<open>timeline_ok\<close>, \<open>steady\<close>). The events pygame defines beyond the three
  the loop tests are the constructor \<open>OTHER_EVENT\<close>. The types of the values other
  than the bird's three changing entries: they are \<open>int\<close> or \<open>bool\<close> in every
  assignment and are typed so in the records.

  \<^bold>\<open>Plan for the extension of the development.\<close> (1) The score of a run as the
  number of pipes that reached their counting step. (2) A bound on the time of a loop
  body that turns \<open>timeline_ok\<close> into \<open>steady\<close>. (3) The distance between the
  rational model and IEEE-754 doubles over a bounded number of ticks.
\<close>

section \<open>Properties that span components\<close>

text \<open>C37. The scenario of the specification: in a window 800 pixels high, a pipe with top
  offset 40 has its bottom segment from \<open>y = 200\<close> to \<open>y = 720\<close>, and a bird 40
  pixels high whose float position keeps it within \<open>y \<in> [45, 160]\<close> does not collide
  with this pipe, wherever the pipe is.\<close>

theorem scenario_gap_480x800:
  assumes "HEIGHT cfg = 800" and "pipe_top p = 40" and "bird_h (bird g) = 40"
    and "45 \<le> bird_y (bird g)" and "bird_y (bird g) + 40 \<le> 160"
  shows "rect_top (bottom_rect cfg p) = 200 \<and> rect_bottom (bottom_rect cfg p) = 720 \<and>
         \<not> pipe_hit cfg (brect g) p"
proof -
  from assms(4) have "py_int 45 \<le> py_int (bird_y (bird g))" by (rule py_int_mono)
  moreover from assms(5) have "py_int (bird_y (bird g)) \<le> py_int 120"
    by (intro py_int_mono) simp
  ultimately have "in_gap (brect g) p"
    using assms(2,3) by (simp add: in_gap_def PIPE_GAP_def)
  then have "\<not> pipe_hit cfg (brect g) p" by (rule in_gap_no_hit)
  with assms(1,2) show ?thesis by (simp add: PIPE_GAP_def GROUND_def)
qed

theorem scenario_gap_480x800_witness:
  "\<not> pipe_hit (mk_config 480 800 (34, 40))
      (brect ((initial_game (mk_config 480 800 (34, 40)))
         \<lparr>bird := (bird (initial_game (mk_config 480 800 (34, 40))))\<lparr>bird_y := 991 / 10\<rparr>\<rparr>))
      \<lparr>pipe_x = 90, pipe_top = 40, pipe_passed = False\<rparr>"
  using scenario_gap_480x800 [of "mk_config 480 800 (34, 40)"
      "\<lparr>pipe_x = 90, pipe_top = 40, pipe_passed = False\<rparr>"
      "(initial_game (mk_config 480 800 (34, 40)))
         \<lparr>bird := (bird (initial_game (mk_config 480 800 (34, 40))))\<lparr>bird_y := 991 / 10\<rparr>\<rparr>"]
  by simp

text \<open>C36. The spawn timer runs while the game waits. \<open>reset()\<close> starts the timer
  and the Idle phase does not stop it, so when the first click comes more than 1.5 seconds
  after start-up, the frame of that click already spawns a pipe: the game starts with a
  pipe at \<open>WIDTH + 7\<close>.\<close>

theorem late_start_spawns_at_once:
  assumes "tall_enough cfg" and "0 \<le> WIDTH cfg"
    and "any_primary (events env)" and "\<not> quits (events env)"
    and "1500 < ticks_check env - t0"
  shows "\<exists>g'. frame cfg env (boot cfg t0) = Inr g' \<and> map pipe_x (pipes g') = [WIDTH cfg + 7] \<and>
              last_spawn g' = ticks_stamp env"
proof -
  let ?g = "flap (boot cfg t0)"
  from assms(3,4) have ev: "handle_events cfg (events env) (boot cfg t0) = Inr ?g"
    by (simp add: handle_events_not_over boot_def)
  from assms(5) have due: "spawn_due env (bird_physics ?g)"
    by (simp add: spawn_due_def boot_def)
  from assms(1) obtain g' where lg: "game_logic cfg env ?g = Inr g'"
    using game_logic_total by blast
  then obtain g1 where sp: "spawn_pipes cfg env (bird_physics ?g) = Inr g1"
    and g': "g' = collision cfg (remove_offscreen (move_pipes g1))"
    by (auto simp: game_logic_Inr_iff boot_def)
  from sp due obtain t where "pipes g1 = [new_pipe cfg t]" and "last_spawn g1 = ticks_stamp env"
    by (auto simp: spawn_pipes_Inr_iff boot_def)
  with assms(2) have "map pipe_x (pipes g') = [WIDTH cfg + 7]" and "last_spawn g' = ticks_stamp env"
    by (simp_all add: g' on_screen_def PIPE_SPEED_def)
  with ev lg show ?thesis by (simp add: frame_def)
qed

theorem late_start_spawns_at_once_witness:
  "\<exists>g'. frame demo_cfg spawn_env (boot demo_cfg 0) = Inr g' \<and> map pipe_x (pipes g') = [487] \<and>
        last_spawn g' = 16"
  using late_start_spawns_at_once [of demo_cfg spawn_env 0]
  by (simp add: tall_enough_def any_primary_def quits_def)

end
